theory Spec2Isabelle
  imports Complex_Main
begin

section \<open>Strings\<close>

text \<open>
  A JavaScript string is modelled as a \<open>string\<close>; a character stands for one code unit
  in the 8-bit range. \<open>trim\<close> removes the white space and line terminators of that range
  (TAB, LF, VT, FF, CR, SP, NBSP) from both ends, \<open>toLowerCase\<close> maps the upper-case
  letters of that range to their lower-case forms.
\<close>

definition isWhiteSpace :: "char \<Rightarrow> bool" where
  "isWhiteSpace c = ((of_char c :: nat) \<in> {9, 10, 11, 12, 13, 32, 160})"

definition trim :: "string \<Rightarrow> string" where
  "trim s = rev (dropWhile isWhiteSpace (rev (dropWhile isWhiteSpace s)))"

definition toLowerChar :: "char \<Rightarrow> char" where
  "toLowerChar c =
     (let n = (of_char c :: nat)
      in if (65 \<le> n \<and> n \<le> 90) \<or> (192 \<le> n \<and> n \<le> 222 \<and> n \<noteq> 215)
         then char_of (n + 32) else c)"

definition toLowerCase :: "string \<Rightarrow> string" where
  "toLowerCase s = map toLowerChar s"

fun startsWith :: "string \<Rightarrow> string \<Rightarrow> bool" where
  "startsWith s [] = True"
| "startsWith [] (p # ps) = False"
| "startsWith (c # cs) (p # ps) = (c = p \<and> startsWith cs ps)"

text \<open>\<open>s.includes(t)\<close>: \<open>t\<close> occurs in \<open>s\<close> as a contiguous run.\<close>

fun includes_str :: "string \<Rightarrow> string \<Rightarrow> bool" where
  "includes_str [] t = (t = [])"
| "includes_str (c # cs) t = (startsWith (c # cs) t \<or> includes_str cs t)"

text \<open>The regular expression \<open>/^sip:/i\<close>: the prefix \<open>sip:\<close> in any letter case.\<close>

definition looksSip :: "string \<Rightarrow> bool" where
  "looksSip s = (toLowerCase (take 4 s) = ''sip:'')"

text \<open>\<open>s.trim().toLowerCase().replace(/^sip:/, "")\<close>\<close>

definition normAlias :: "string \<Rightarrow> string" where
  "normAlias s =
     (let t = toLowerCase (trim s) in if startsWith t ''sip:'' then drop 4 t else t)"

section \<open>Raw payloads and participant normalization\<close>

text \<open>
  A value produced by \<open>JSON.parse\<close>. An object is the list of its properties, each key
  once; a property that is not in the list reads as \<open>undefined\<close>. A number carries the
  value of the parsed double.
\<close>

datatype jsval =
    JNull
  | JBool bool
  | JNum rat
  | JStr string
  | JArr "jsval list"
  | JObj "(string \<times> jsval) list"

datatype kind = Sip | Webrtc | Other

record participant =
  p_id :: string
  displayName :: "string option"
  kind :: kind
  isConnected :: bool
  isVideo :: bool

record rosterSnapshot =
  participants :: "participant list"
  webrtcVideo :: nat
  sipVideo :: nat

text \<open>\<open>toBool(v)\<close> of sse.ts and orchestrator.ts; \<open>None\<close> is \<open>undefined\<close>.\<close>

fun toBool :: "jsval option \<Rightarrow> bool" where
  "toBool (Some (JBool b)) = b"
| "toBool (Some (JNum n)) = (n \<noteq> 0)"
| "toBool (Some (JStr v)) =
     (let s = toLowerCase v in s = ''1'' \<or> s = ''true'' \<or> s = ''yes'' \<or> s = ''on'')"
| "toBool _ = False"

fun getString :: "jsval option \<Rightarrow> string option" where
  "getString (Some (JStr v)) = (if length v > 0 then Some v else None)"
| "getString _ = None"

fun isRecord :: "jsval \<Rightarrow> bool" where
  "isRecord (JObj kvs) = True"
| "isRecord (JArr xs) = True"
| "isRecord _ = False"

text \<open>\<open>r[key]\<close> for a value that passed \<open>isRecord\<close>; an array has none of the keys read here.\<close>

fun getProp :: "jsval \<Rightarrow> string \<Rightarrow> jsval option" where
  "getProp (JObj kvs) key = map_of kvs key"
| "getProp _ key = None"

text \<open>\<open>a || b\<close> on values that are a non-empty string or \<open>undefined\<close>.\<close>

fun orElse :: "string option \<Rightarrow> string option \<Rightarrow> string option" where
  "orElse (Some a) b = Some a"
| "orElse None b = b"

fun hasMediaType :: "jsval option \<Rightarrow> string \<Rightarrow> bool" where
  "hasMediaType (Some (JArr items)) type =
     list_ex (\<lambda>item. isRecord item \<and>
        map_option toLowerCase (getString (getProp item ''type'')) = Some type) items"
| "hasMediaType _ type = False"

definition kindOfProtocol :: "string option \<Rightarrow> kind" where
  "kindOfProtocol proto =
     (if proto = Some ''webrtc'' \<or> proto = Some ''web'' \<or> proto = Some ''browser'' then Webrtc
      else if proto = Some ''sip'' \<or> proto = Some ''sips'' then Sip
      else Other)"

text \<open>\<open>toParticipant\<close> of sse.ts.\<close>

definition toParticipant :: "jsval \<Rightarrow> participant option" where
  "toParticipant raw =
     (case orElse (getString (getProp raw ''participant_uuid''))
             (orElse (getString (getProp raw ''uuid'')) (getString (getProp raw ''id''))) of
        None \<Rightarrow> None
      | Some i \<Rightarrow>
          Some \<lparr> p_id = i,
                 displayName =
                   orElse (getString (getProp raw ''display_name''))
                     (orElse (getString (getProp raw ''name''))
                        (getString (getProp raw ''participant_name''))),
                 kind = kindOfProtocol (map_option toLowerCase (getString (getProp raw ''protocol''))),
                 isConnected =
                   (toBool (getProp raw ''is_connected'') \<or> toBool (getProp raw ''connected'') \<or>
                    (getProp raw ''is_connected'' = None \<and> getProp raw ''connected'' = None)),
                 isVideo =
                   (toBool (getProp raw ''has_video'') \<or> toBool (getProp raw ''video'') \<or>
                    toBool (getProp raw ''is_video'') \<or>
                    hasMediaType (getProp raw ''streams'') ''video'' \<or>
                    hasMediaType (getProp raw ''media'') ''video'') \<rparr>)"

text \<open>\<open>mapRawParticipant\<close> of orchestrator.ts.\<close>

definition mapRawParticipant :: "jsval \<Rightarrow> participant option" where
  "mapRawParticipant r =
     (case orElse (getString (getProp r ''participant_uuid''))
             (orElse (getString (getProp r ''uuid'')) (getString (getProp r ''id''))) of
        None \<Rightarrow> None
      | Some i \<Rightarrow>
          Some \<lparr> p_id = i,
                 displayName =
                   orElse (getString (getProp r ''display_name''))
                     (orElse (getString (getProp r ''name''))
                        (getString (getProp r ''participant_name''))),
                 kind = kindOfProtocol (map_option toLowerCase (getString (getProp r ''protocol''))),
                 isConnected =
                   (toBool (getProp r ''is_connected'') \<or> toBool (getProp r ''connected'') \<or>
                    (getProp r ''is_connected'' = None \<and> getProp r ''connected'' = None)),
                 isVideo =
                   (toBool (getProp r ''has_video'') \<or> toBool (getProp r ''video'') \<or>
                    toBool (getProp r ''is_video'') \<or>
                    hasMediaType (getProp r ''streams'') ''video'' \<or>
                    hasMediaType (getProp r ''media'') ''video'') \<rparr>)"

section \<open>The engine, its collaborators and its environment\<close>

datatype phase =
    Idle | Getting_token | Dialing_leg1 | Waiting_agent_answered
  | Dialing_leg3 | Active | Ended | Error

record startParams =
  sessionAlias :: string
  sp_displayName :: "string option"
  agentUserId :: "string option"
  queueId :: "string option"
  contactCenterAlias :: string
  secondDialAlias :: string
  pin :: "string option"
  customerSipDomain :: "string option"

text \<open>What \<open>emit\<close> hands to the listeners; an \<open>Error\<close> object is its message.\<close>

datatype event =
    PhaseEvent phase
  | RosterEvent rosterSnapshot
  | ActiveEvent bool rosterSnapshot
  | ErrorEvent string

record dialOptions =
  role :: string
  callType :: string
  sourceDisplayName :: string
  localAlias :: string
  customHeaders :: "(string \<times> string) list option"

text \<open>
  A request of the session client, logged when \<open>fetch\<close> is called: the \<open>token\<close> header
  where there is one, the alias, and the arguments the caller passed.
\<close>

datatype call =
    RequestToken string string "string option"
  | RefreshToken string string
  | Dial "string option" string string dialOptions
  | ListParticipants "string option" string
  | Disconnect "string option" string
  | ReleaseToken "string option" string

text \<open>How an awaited request settles.\<close>

datatype response =
    RToken string
  | RCreated "string list"
  | RJson jsval
  | RSettled
  | RThrow string

text \<open>
  A suspended \<open>async\<close> function: what it awaits and the local variables it holds. For
  \<open>tryDialLeg3WithCandidates\<close> these are the candidates not yet tried and \<open>lastErr\<close>.
\<close>

datatype task =
    AwaitRequestToken startParams
  | AwaitDialLeg1 startParams
  | AwaitDialLeg3 startParams "string list" "string option"
  | AwaitDisconnectAll
  | AwaitReleaseToken
  | AwaitListParticipants
  | AwaitRefreshToken nat
  | Finished

text \<open>
  The timers of \<open>window\<close>. \<open>Renewal g\<close> is the interval of the \<open>g\<close>-th call of
  \<open>startKeepAlive\<close>, whose closure owns the variable \<open>liveToken\<close>.
\<close>

datatype timerKind = Heartbeat | DormancyWatchdog | Reconnect | Leg3Retry | Renewal nat

datatype timer = Timer (timerId: nat) (timerKind: timerKind) (delayMs: nat)

record keepAliveRec =
  ka_timer :: nat
  ka_token :: string
  ka_alias :: string

text \<open>
  The fields of \<open>Orchestrator\<close>, of its \<open>PexipClient\<close> (\<open>keepAlive\<close>, and the closure
  variables \<open>liveToken\<close> and \<open>alias\<close> of each \<open>startKeepAlive\<close>), of its \<open>PexipSSE\<close>
  (\<open>es\<close> holds when an \<open>EventSource\<close> is open), and the environment: the active timers,
  the next timer handle, the events emitted, the requests issued and the suspended functions.
\<close>

record world =
  token :: "string option"
  currentAlias :: "string option"
  phase :: phase
  lastStartParams :: "startParams option"
  agentReady :: bool
  leg3Dialed :: bool
  stopped :: bool
  inactiveSince :: "int option"
  minTwoArmed :: bool
  belowTwoSince :: "int option"
  sseGraceUntil :: int
  lastConnectedCount :: nat
  fullyEngagedSince :: "int option"
  killOnAgentDropArmed :: bool
  pendingLeg3Retry :: "nat option"
  leg0Retired :: bool
  fourLegsSince :: "int option"
  keepAlive :: "keepAliveRec option"
  keepAliveClosures :: "(string \<times> string) list"
  es :: bool
  tickTimer :: "nat option"
  dormancyTimer :: "nat option"
  reconnectTimeout :: "nat option"
  sse_alias :: "string option"
  sse_token :: "string option"
  backoffMs :: nat
  timers :: "timer list"
  nextTimerId :: nat
  events :: "event list"
  calls :: "call list"
  tasks :: "task list"

definition newOrchestrator :: world where
  "newOrchestrator =
     \<lparr> token = None, currentAlias = None, phase = Idle, lastStartParams = None,
       agentReady = False, leg3Dialed = False, stopped = False, inactiveSince = None,
       minTwoArmed = False, belowTwoSince = None, sseGraceUntil = 0, lastConnectedCount = 0,
       fullyEngagedSince = None, killOnAgentDropArmed = False, pendingLeg3Retry = None,
       leg0Retired = False, fourLegsSince = None,
       keepAlive = None, keepAliveClosures = [],
       es = False, tickTimer = None, dormancyTimer = None, reconnectTimeout = None,
       sse_alias = None, sse_token = None, backoffMs = 2000,
       timers = [], nextTimerId = 1, events = [], calls = [], tasks = [] \<rparr>"

text \<open>A string that is neither \<open>null\<close>/\<open>undefined\<close> nor empty.\<close>

fun truthy :: "string option \<Rightarrow> bool" where
  "truthy (Some s) = (s \<noteq> [])"
| "truthy None = False"

definition emit :: "event \<Rightarrow> world \<Rightarrow> world" where
  "emit ev w = w\<lparr>events := events w @ [ev]\<rparr>"

definition setPhase :: "phase \<Rightarrow> world \<Rightarrow> world" where
  "setPhase p w = emit (PhaseEvent p) (w\<lparr>phase := p\<rparr>)"

definition logCall :: "call \<Rightarrow> world \<Rightarrow> world" where
  "logCall c w = w\<lparr>calls := calls w @ [c]\<rparr>"

definition spawn :: "task \<Rightarrow> world \<Rightarrow> world" where
  "spawn t w = w\<lparr>tasks := tasks w @ [t]\<rparr>"

text \<open>\<open>setTimeout\<close>/\<open>setInterval\<close>: the handle returned is \<open>nextTimerId\<close> of the state before.\<close>

definition setTimer :: "timerKind \<Rightarrow> nat \<Rightarrow> world \<Rightarrow> world" where
  "setTimer k ms w =
     w\<lparr>timers := timers w @ [Timer (nextTimerId w) k ms], nextTimerId := Suc (nextTimerId w)\<rparr>"

definition clearTimer :: "nat \<Rightarrow> world \<Rightarrow> world" where
  "clearTimer i w = w\<lparr>timers := filter (\<lambda>t. timerId t \<noteq> i) (timers w)\<rparr>"

fun clearHandle :: "nat option \<Rightarrow> world \<Rightarrow> world" where
  "clearHandle None w = w"
| "clearHandle (Some i) w = clearTimer i w"


section \<open>Event transport: the timers of \<open>PexipSSE\<close>\<close>

definition sse_close :: "world \<Rightarrow> world" where
  "sse_close w =
     (let w1 = (clearHandle (tickTimer w) w)\<lparr>tickTimer := None\<rparr>;
          w2 = (clearHandle (dormancyTimer w1) w1)\<lparr>dormancyTimer := None\<rparr>;
          w3 = (clearHandle (reconnectTimeout w2) w2)\<lparr>reconnectTimeout := None\<rparr>
      in w3\<lparr>es := False\<rparr>)"

definition sse_connect :: "string \<Rightarrow> string \<Rightarrow> world \<Rightarrow> world" where
  "sse_connect alias tok w =
     (let w1 = (sse_close w)\<lparr>sse_alias := Some alias, sse_token := Some tok,
                               backoffMs := 2000, es := True\<rparr>;
          w2 = clearHandle (tickTimer w1) w1;
          w3 = (setTimer Heartbeat 2000 w2)\<lparr>tickTimer := Some (nextTimerId w2)\<rparr>;
          w4 = clearHandle (dormancyTimer w3) w3
      in (setTimer DormancyWatchdog 5000 w4)\<lparr>dormancyTimer := Some (nextTimerId w4)\<rparr>)"

text \<open>\<open>jitter\<close> is the value of \<open>Math.floor(Math.random() * ...)\<close>.\<close>

definition internalReconnect :: "nat \<Rightarrow> nat \<Rightarrow> world \<Rightarrow> world" where
  "internalReconnect delay jitter w =
     (if \<not> truthy (sse_alias w) \<or> \<not> truthy (sse_token w) then w
      else
        let w1 = (clearHandle (reconnectTimeout w) w)\<lparr>reconnectTimeout := None\<rparr>;
            w2 = w1\<lparr>es := False\<rparr>;
            base = min (max delay 500) 10000
        in (setTimer Reconnect (base + jitter) w2)\<lparr>reconnectTimeout := Some (nextTimerId w2)\<rparr>)"

text \<open>
  The callback of the dormancy interval when it finds more than 20 s since the last event.
  When it finds less it does nothing; \<open>lastEventAt\<close> is not a field of the state here, so
  the engine is taken to be ready for the reconnect whenever the interval fires.
\<close>

definition dormancyFires :: "nat \<Rightarrow> world \<Rightarrow> world" where
  "dormancyFires jitter w =
     internalReconnect (backoffMs w) jitter (w\<lparr>backoffMs := min (backoffMs w * 2) 15000\<rparr>)"

definition reconnectFires :: "world \<Rightarrow> world" where
  "reconnectFires w =
     (let w1 = w\<lparr>reconnectTimeout := None\<rparr>
      in case (sse_alias w1, sse_token w1) of
           (Some a, Some t) \<Rightarrow> if a \<noteq> [] \<and> t \<noteq> [] then sse_connect a t w1 else w1
         | _ \<Rightarrow> w1)"

section \<open>Session client: \<open>PexipClient\<close>\<close>

definition currentToken :: "world \<Rightarrow> string option" where
  "currentToken w = map_option ka_token (keepAlive w)"

text \<open>\<open>this.currentToken() || token\<close>\<close>

definition liveTokenOr :: "world \<Rightarrow> string option \<Rightarrow> string option" where
  "liveTokenOr w tok = (if truthy (currentToken w) then currentToken w else tok)"

definition stopKeepAlive :: "world \<Rightarrow> world" where
  "stopKeepAlive w =
     (case keepAlive w of
        None \<Rightarrow> w
      | Some k \<Rightarrow> (if ka_timer k \<noteq> 0 then clearTimer (ka_timer k) w else w))
     \<lparr>keepAlive := None\<rparr>"

text \<open>\<open>tick\<close> up to its \<open>await fetch\<close>, for the closure of generation \<open>g\<close>.\<close>

definition tick :: "nat \<Rightarrow> world \<Rightarrow> world" where
  "tick g w =
     (if g < length (keepAliveClosures w)
      then spawn (AwaitRefreshToken g)
             (logCall (RefreshToken (snd (keepAliveClosures w ! g))
                                    (fst (keepAliveClosures w ! g))) w)
      else w)"

text \<open>\<open>tick\<close> after an OK response whose \<open>result.token\<close> is \<open>newToken\<close> (\<open>""\<close> if none).\<close>

definition tick_resume :: "nat \<Rightarrow> string \<Rightarrow> world \<Rightarrow> world" where
  "tick_resume g newToken w =
     (if g < length (keepAliveClosures w) \<and> newToken \<noteq> []
         \<and> newToken \<noteq> fst (keepAliveClosures w ! g)
      then
        (w\<lparr>keepAliveClosures :=
              (keepAliveClosures w)[g := (newToken, snd (keepAliveClosures w ! g))]\<rparr>)
          \<lparr>keepAlive := map_option (\<lambda>k. k\<lparr>ka_token := newToken\<rparr>) (keepAlive w)\<rparr>
      else w)"

definition startKeepAlive :: "string \<Rightarrow> string \<Rightarrow> world \<Rightarrow> world" where
  "startKeepAlive initialToken alias w =
     (let w1 = stopKeepAlive w;
          g = length (keepAliveClosures w1);
          w2 = w1\<lparr>keepAliveClosures := keepAliveClosures w1 @ [(initialToken, alias)],
                   keepAlive := Some \<lparr>ka_timer = 0, ka_token = initialToken, ka_alias = alias\<rparr>\<rparr>;
          w3 = tick g w2
      in (setTimer (Renewal g) 55000 w3)
           \<lparr>keepAlive := map_option (\<lambda>k. k\<lparr>ka_timer := nextTimerId w3\<rparr>) (keepAlive w3)\<rparr>)"

text \<open>Each operation up to its \<open>await fetch\<close>.\<close>

definition client_requestToken :: "string \<Rightarrow> string option \<Rightarrow> string option \<Rightarrow> world \<Rightarrow> world" where
  "client_requestToken alias dn pn w =
     logCall (RequestToken alias
                (if truthy dn then the dn else ''Agent Dialer'')
                (case pn of None \<Rightarrow> None
                 | Some x \<Rightarrow> if trim x \<noteq> [] then Some (trim x) else None)) w"

definition client_dial :: "string option \<Rightarrow> string \<Rightarrow> string \<Rightarrow> dialOptions \<Rightarrow> world \<Rightarrow> world" where
  "client_dial tok alias destination opts w =
     (let liveToken = liveTokenOr w tok
      in logCall (Dial liveToken alias destination opts) w)"

definition client_listParticipants :: "string option \<Rightarrow> string \<Rightarrow> world \<Rightarrow> world" where
  "client_listParticipants tok alias w =
     (let liveToken = liveTokenOr w tok
      in logCall (ListParticipants liveToken alias) w)"

definition client_disconnectAll :: "string option \<Rightarrow> string \<Rightarrow> world \<Rightarrow> world" where
  "client_disconnectAll tok alias w =
     (let w1 = stopKeepAlive w;
          liveToken = liveTokenOr w1 tok
      in logCall (Disconnect liveToken alias) w1)"

definition client_releaseToken :: "string option \<Rightarrow> string \<Rightarrow> world \<Rightarrow> world" where
  "client_releaseToken tok alias w =
     (let w1 = stopKeepAlive w;
          liveToken = liveTokenOr w1 tok
      in logCall (ReleaseToken liveToken alias) w1)"

section \<open>Orchestration engine\<close>

definition matchesSipAlias :: "participant \<Rightarrow> string \<Rightarrow> bool" where
  "matchesSipAlias p alias =
     (if kind p \<noteq> Sip then False
      else case displayName p of
             None \<Rightarrow> False
           | Some dn \<Rightarrow> if dn = [] then False
                        else includes_str (normAlias dn) (normAlias alias))"

definition stop :: "world \<Rightarrow> world" where
  "stop w = setPhase Ended (sse_close (w\<lparr>stopped := True\<rparr>))"

text \<open>The \<open>finally\<close> block of \<open>hardEnd\<close>.\<close>

definition hardEnd_finally :: "world \<Rightarrow> world" where
  "hardEnd_finally w = (stop w)\<lparr>currentAlias := None, token := None\<rparr>"

text \<open>\<open>hardEnd\<close> up to its \<open>await\<close>, or to its end when there is no credential.\<close>

definition hardEnd :: "world \<Rightarrow> world" where
  "hardEnd w =
     (if truthy (token w) \<and> truthy (currentAlias w)
      then spawn AwaitDisconnectAll (client_disconnectAll (token w) (the (currentAlias w)) w)
      else hardEnd_finally w)"

subsection \<open>Leg 3\<close>

definition customerSipDomainOf :: "startParams \<Rightarrow> string option" where
  "customerSipDomainOf params =
     (case customerSipDomain params of
        None \<Rightarrow> None
      | Some d \<Rightarrow> if trim d \<noteq> [] then Some (trim d) else None)"

definition leg3Opts :: "startParams \<Rightarrow> dialOptions" where
  "leg3Opts params =
     \<lparr> role = ''HOST'', callType = ''video'',
       sourceDisplayName =
         (if truthy (sp_displayName params) then the (sp_displayName params)
          else ''Genesys Widget''),
       localAlias = sessionAlias params, customHeaders = None \<rparr>"

definition leg3Candidates :: "startParams \<Rightarrow> string list" where
  "leg3Candidates params =
     (let destRaw = trim (secondDialAlias params);
          hasAt = includes_str destRaw ''@''
      in if looksSip destRaw then
           (let stripped = drop 4 destRaw
            in [destRaw] @ (if stripped \<noteq> [] then [stripped] else []))
         else if hasAt then [destRaw, ''sip:'' @ destRaw]
         else
           (case customerSipDomainOf params of
              Some d \<Rightarrow> [destRaw @ ''@'' @ d, ''sip:'' @ destRaw @ ''@'' @ d]
            | None \<Rightarrow> [])
           @ [destRaw, ''sip:'' @ destRaw])"

text \<open>
  The end of \<open>tryDialLeg3WithCandidates\<close> when the loop is over and \<open>success\<close> is false.
\<close>

definition leg3Failed :: "string option \<Rightarrow> world \<Rightarrow> world" where
  "leg3Failed lastErr w =
     (let w1 = w\<lparr>leg3Dialed := False\<rparr>;
          w2 = (if pendingLeg3Retry w1 = None \<or> pendingLeg3Retry w1 = Some 0
                then (setTimer Leg3Retry 2500 w1)\<lparr>pendingLeg3Retry := Some (nextTimerId w1)\<rparr>
                else w1);
          err = (case lastErr of
                   Some e \<Rightarrow> e
                 | None \<Rightarrow> ''Leg 3 could not be routed. Provide a routable alias/URI or verify server routing rules.'')
      in setPhase Waiting_agent_answered (emit (ErrorEvent err) w2))"

text \<open>
  The \<open>for\<close> loop over the candidates left, up to the next \<open>await this.client.dial\<close>.
\<close>

fun dialLoop :: "startParams \<Rightarrow> string list \<Rightarrow> string option \<Rightarrow> world \<Rightarrow> world" where
  "dialLoop params [] lastErr w = leg3Failed lastErr w"
| "dialLoop params (dest # rest) lastErr w =
     spawn (AwaitDialLeg3 params rest lastErr)
       (client_dial (token w) (sessionAlias params) dest (leg3Opts params) w)"

definition tryDialLeg3WithCandidates :: "startParams \<Rightarrow> world \<Rightarrow> world" where
  "tryDialLeg3WithCandidates params w =
     (if \<not> truthy (token w) then w
      else dialLoop params (leg3Candidates params) None
             (setPhase Dialing_leg3 (w\<lparr>leg3Dialed := True\<rparr>)))"

definition ensureLeg3IfAgentReady :: "world \<Rightarrow> world" where
  "ensureLeg3IfAgentReady w =
     (if stopped w \<or> leg3Dialed w \<or> \<not> agentReady w \<or> lastStartParams w = None then w
      else tryDialLeg3WithCandidates (the (lastStartParams w)) w)"

text \<open>The callback of the retry timeout.\<close>

definition leg3RetryFires :: "world \<Rightarrow> world" where
  "leg3RetryFires w =
     (let w1 = w\<lparr>pendingLeg3Retry := None\<rparr>
      in if \<not> stopped w1 \<and> agentReady w1 \<and> \<not> leg3Dialed w1 \<and> lastStartParams w1 \<noteq> None
         then tryDialLeg3WithCandidates (the (lastStartParams w1)) w1
         else w1)"


subsection \<open>\<open>start\<close>\<close>

definition leg1Opts :: "startParams \<Rightarrow> dialOptions" where
  "leg1Opts params =
     (let custom =
            (if truthy (agentUserId params) \<and> trim (the (agentUserId params)) \<noteq> []
             then [(''X-agent-id'', trim (the (agentUserId params)))] else [])
            @ (if truthy (queueId params) \<and> trim (the (queueId params)) \<noteq> []
               then [(''X-queue-id'', trim (the (queueId params)))] else [])
      in \<lparr> role = ''HOST'', callType = ''audio'',
           sourceDisplayName = sessionAlias params, localAlias = sessionAlias params,
           customHeaders = (if custom \<noteq> [] then Some custom else None) \<rparr>)"

text \<open>\<open>start\<close> up to \<open>await this.client.requestToken\<close>.\<close>

definition start :: "startParams \<Rightarrow> world \<Rightarrow> world" where
  "start params w =
     (let w1 = w\<lparr> lastStartParams := Some params, agentReady := False, leg3Dialed := False,
                 stopped := False, inactiveSince := None, minTwoArmed := False,
                 belowTwoSince := None, sseGraceUntil := 0, lastConnectedCount := 0,
                 fullyEngagedSince := None, killOnAgentDropArmed := False,
                 currentAlias := Some (sessionAlias params),
                 leg0Retired := False, fourLegsSince := None \<rparr>
      in spawn (AwaitRequestToken params)
           (client_requestToken (sessionAlias params) (sp_displayName params) (pin params)
              (setPhase Getting_token w1)))"

text \<open>The \<open>catch\<close> block of \<open>start\<close>.\<close>

definition start_catch :: "string \<Rightarrow> world \<Rightarrow> world" where
  "start_catch err w = setPhase Error (emit (ErrorEvent err) w)"

text \<open>
  \<open>requestToken\<close> got the token \<open>tok\<close>: it starts the keepalive and returns; \<open>start\<close>
  goes on up to \<open>await this.client.dial\<close>.
\<close>

definition start_gotToken :: "startParams \<Rightarrow> string \<Rightarrow> world \<Rightarrow> world" where
  "start_gotToken params tok w =
     (let w1 = startKeepAlive tok (sessionAlias params) w;
          w2 = w1\<lparr>token := Some tok\<rparr>;
          w3 = sse_connect (sessionAlias params) tok w2
      in if stopped w3 then w3
         else
           let w4 = setPhase Dialing_leg1 w3
           in spawn (AwaitDialLeg1 params)
                (client_dial (token w4) (sessionAlias params) (contactCenterAlias params)
                   (leg1Opts params) w4))"

text \<open>\<open>client.dial\<close> for leg 1 returned \<open>created\<close>; \<open>start\<close> discards the value.\<close>

definition start_dialed :: "string list \<Rightarrow> world \<Rightarrow> world" where
  "start_dialed created w = setPhase Waiting_agent_answered w"

subsection \<open>\<open>retireLeg0\<close>\<close>

text \<open>After \<open>await this.client.releaseToken\<close>: the rest of \<open>try\<close>, or \<open>catch\<close>, then \<open>finally\<close>.\<close>

definition retireLeg0_resume :: "bool \<Rightarrow> world \<Rightarrow> world" where
  "retireLeg0_resume threw w =
     (let w1 = (if threw then setPhase Ended (w\<lparr>stopped := True\<rparr>)
                else setPhase Ended (w\<lparr>stopped := True\<rparr>))
      in w1\<lparr>currentAlias := None, token := None\<rparr>)"

definition retireLeg0 :: "world \<Rightarrow> world" where
  "retireLeg0 w =
     (if leg0Retired w then w
      else
        let w1 = sse_close (w\<lparr>leg0Retired := True\<rparr>)
        in if truthy (token w1) \<and> truthy (currentAlias w1)
           then spawn AwaitReleaseToken
                  (client_releaseToken (token w1) (the (currentAlias w1)) w1)
           else retireLeg0_resume False w1)"

subsection \<open>\<open>onRoster\<close>\<close>

definition connectedCountOf :: "rosterSnapshot \<Rightarrow> nat" where
  "connectedCountOf roster = length (filter isConnected (participants roster))"

definition leg1SipUp :: "rosterSnapshot \<Rightarrow> startParams \<Rightarrow> bool" where
  "leg1SipUp roster params =
     list_ex (\<lambda>p. isConnected p \<and> matchesSipAlias p (contactCenterAlias params))
       (participants roster)"

definition leg2WebrtcUp :: "rosterSnapshot \<Rightarrow> bool" where
  "leg2WebrtcUp roster =
     (list_ex (\<lambda>p. kind p = Webrtc \<and> isConnected p \<and> isVideo p) (participants roster) \<or>
      list_ex (\<lambda>p. kind p = Webrtc \<and> isConnected p) (participants roster))"

definition leg3SipUp :: "rosterSnapshot \<Rightarrow> startParams \<Rightarrow> bool" where
  "leg3SipUp roster params =
     list_ex (\<lambda>p. isConnected p \<and> matchesSipAlias p (secondDialAlias params))
       (participants roster)"

definition leg0ApiUp :: "rosterSnapshot \<Rightarrow> bool" where
  "leg0ApiUp roster = list_ex (\<lambda>p. isConnected p \<and> kind p = Other) (participants roster)"

definition fourLegsUp :: "rosterSnapshot \<Rightarrow> startParams \<Rightarrow> bool" where
  "fourLegsUp roster params =
     (leg0ApiUp roster \<and> leg1SipUp roster params \<and> leg2WebrtcUp roster \<and> leg3SipUp roster params)"

text \<open>Dormancy grace, then the arming of the "min two" rule.\<close>

definition dormancyGrace :: "nat \<Rightarrow> int \<Rightarrow> world \<Rightarrow> world" where
  "dormancyGrace connectedCount now w =
     (let w1 = (if lastConnectedCount w > 0 \<and> connectedCount = 0
                then w\<lparr>sseGraceUntil := now + 8000\<rparr> else w)
      in w1\<lparr>lastConnectedCount := connectedCount\<rparr>)"

definition minTwoArm :: "nat \<Rightarrow> world \<Rightarrow> world" where
  "minTwoArm connectedCount w =
     (if \<not> minTwoArmed w \<and> connectedCount \<ge> 2
      then w\<lparr>minTwoArmed := True, belowTwoSince := None\<rparr> else w)"

text \<open>\<open>now - this.belowTwoSince > 1500\<close>, read after \<open>belowTwoSince\<close> was set if null.\<close>

definition belowTwoExpired :: "int \<Rightarrow> world \<Rightarrow> bool" where
  "belowTwoExpired now w = (case belowTwoSince w of Some t \<Rightarrow> now - t > 1500 | None \<Rightarrow> False)"

definition agentReadiness :: "rosterSnapshot \<Rightarrow> startParams \<Rightarrow> world \<Rightarrow> world" where
  "agentReadiness roster params w =
     (if \<not> agentReady w \<and> leg1SipUp roster params \<and> leg2WebrtcUp roster
      then ensureLeg3IfAgentReady (w\<lparr>agentReady := True\<rparr>) else w)"

definition activeTransition :: "rosterSnapshot \<Rightarrow> startParams \<Rightarrow> world \<Rightarrow> world" where
  "activeTransition roster params w =
     (if leg2WebrtcUp roster \<and> leg3SipUp roster params \<and> phase w \<noteq> Active
      then emit (ActiveEvent True roster) (setPhase Active w) else w)"

definition fourLegsRule :: "rosterSnapshot \<Rightarrow> startParams \<Rightarrow> int \<Rightarrow> world \<Rightarrow> world" where
  "fourLegsRule roster params now w =
     (if fourLegsUp roster params then
        (case fullyEngagedSince w of
           None \<Rightarrow> w\<lparr>fullyEngagedSince := Some now\<rparr>
         | Some t \<Rightarrow> if \<not> killOnAgentDropArmed w \<and> now - t \<ge> 20000
                     then w\<lparr>killOnAgentDropArmed := True\<rparr> else w)
      else if \<not> killOnAgentDropArmed w then w\<lparr>fullyEngagedSince := None\<rparr> else w)"

definition trackFourLegs :: "rosterSnapshot \<Rightarrow> startParams \<Rightarrow> int \<Rightarrow> world \<Rightarrow> world" where
  "trackFourLegs roster params now w =
     (if fourLegsUp roster params
      then (if fourLegsSince w = None then w\<lparr>fourLegsSince := Some now\<rparr> else w)
      else w\<lparr>fourLegsSince := None\<rparr>)"

text \<open>\<open>retireAfterMs\<close> is 8000.\<close>

definition retireDue :: "rosterSnapshot \<Rightarrow> startParams \<Rightarrow> int \<Rightarrow> world \<Rightarrow> bool" where
  "retireDue roster params now w =
     (\<not> leg0Retired w \<and> fourLegsUp roster params \<and>
      (case fourLegsSince w of Some t \<Rightarrow> now - t \<ge> 8000 | None \<Rightarrow> False) \<and>
      leg1SipUp roster params \<and> leg2WebrtcUp roster)"

definition idleTermination :: "nat \<Rightarrow> int \<Rightarrow> world \<Rightarrow> world" where
  "idleTermination connectedCount now w =
     (if connectedCount = 0 then
        (let w1 = (if inactiveSince w = None then w\<lparr>inactiveSince := Some now\<rparr> else w)
         in if (case inactiveSince w1 of Some t \<Rightarrow> now - t > 3000 | None \<Rightarrow> False)
               \<and> now \<ge> sseGraceUntil w1
            then stop w1 else w1)
      else w\<lparr>inactiveSince := None\<rparr>)"

text \<open>\<open>onRoster\<close> from the leg presence checks on.\<close>

definition legChecks :: "rosterSnapshot \<Rightarrow> startParams \<Rightarrow> int \<Rightarrow> world \<Rightarrow> world" where
  "legChecks roster params now w =
     (let w1 = agentReadiness roster params w;
          w2 = activeTransition roster params w1;
          w3 = fourLegsRule roster params now w2
      in if killOnAgentDropArmed w3 \<and> (\<not> leg1SipUp roster params \<or> \<not> leg2WebrtcUp roster)
         then hardEnd w3
         else
           let w4 = trackFourLegs roster params now w3
           in if retireDue roster params now w4 then retireLeg0 w4
              else idleTermination (connectedCountOf roster) now w4)"

text \<open>\<open>onRoster\<close>, with \<open>now\<close> the value of \<open>Date.now()\<close>.\<close>

definition onRoster :: "rosterSnapshot \<Rightarrow> startParams \<Rightarrow> int \<Rightarrow> world \<Rightarrow> world" where
  "onRoster roster params now w =
     (if stopped w then w
      else
        let connectedCount = connectedCountOf roster;
            w1 = emit (RosterEvent roster) w;
            w2 = dormancyGrace connectedCount now w1;
            w3 = minTwoArm connectedCount w2
        in if minTwoArmed w3 \<and> connectedCount < 2 \<and> now \<ge> sseGraceUntil w3 then
             (let w4 = (if belowTwoSince w3 = None then w3\<lparr>belowTwoSince := Some now\<rparr> else w3)
              in if belowTwoExpired now w4 then hardEnd w4
                 else legChecks roster params now w4)
           else legChecks roster params now (w3\<lparr>belowTwoSince := None\<rparr>))"

subsection \<open>Polling\<close>

definition snapshotList :: "jsval \<Rightarrow> jsval list option" where
  "snapshotList raw =
     (case getProp raw ''result'' of
        Some (JArr xs) \<Rightarrow> Some xs
      | _ \<Rightarrow> (case raw of JArr xs \<Rightarrow> Some xs | _ \<Rightarrow> None))"

definition snapshotOf :: "jsval list \<Rightarrow> rosterSnapshot" where
  "snapshotOf items =
     (let ps = List.map_filter (\<lambda>item. if isRecord item then mapRawParticipant item else None) items
      in \<lparr> participants = ps,
           webrtcVideo = length (filter (\<lambda>p. kind p = Webrtc \<and> isConnected p \<and> isVideo p) ps),
           sipVideo = length (filter (\<lambda>p. kind p = Sip \<and> isConnected p \<and> isVideo p) ps) \<rparr>)"

definition ingestParticipantsSnapshot :: "jsval \<Rightarrow> int \<Rightarrow> world \<Rightarrow> world" where
  "ingestParticipantsSnapshot raw now w =
     (case snapshotList raw of
        None \<Rightarrow> w
      | Some items \<Rightarrow>
          (case lastStartParams w of
             Some params \<Rightarrow> onRoster (snapshotOf items) params now w
           | None \<Rightarrow> emit (RosterEvent (snapshotOf items)) w))"

text \<open>\<open>refreshFromServer\<close> up to its \<open>await\<close>, and after it.\<close>

definition refreshFromServer :: "world \<Rightarrow> world" where
  "refreshFromServer w =
     (if \<not> truthy (token w) \<or> \<not> truthy (currentAlias w) then w
      else spawn AwaitListParticipants
             (client_listParticipants (token w) (the (currentAlias w)) w))"

definition refreshFromServer_resume :: "jsval \<Rightarrow> int \<Rightarrow> world \<Rightarrow> world" where
  "refreshFromServer_resume json now w =
     ensureLeg3IfAgentReady (ingestParticipantsSnapshot json now w)"

section \<open>The event loop\<close>

text \<open>
  What happens when the request a suspended function awaits settles. A rejected
  \<open>listParticipants\<close> or token refresh is logged only.
\<close>

fun resume :: "task \<Rightarrow> response \<Rightarrow> int \<Rightarrow> world \<Rightarrow> world" where
  "resume (AwaitRequestToken params) (RToken tok) now w =
     (if tok = [] then start_catch ''request_token returned no token. Check alias or policy.'' w
      else start_gotToken params tok w)"
| "resume (AwaitRequestToken params) (RThrow e) now w = start_catch e w"
| "resume (AwaitDialLeg1 params) (RCreated created) now w = start_dialed created w"
| "resume (AwaitDialLeg1 params) (RThrow e) now w = start_catch e w"
| "resume (AwaitDialLeg3 params rest lastErr) (RCreated created) now w =
     (if length created > 0 then w else dialLoop params rest lastErr w)"
| "resume (AwaitDialLeg3 params rest lastErr) (RThrow e) now w =
     dialLoop params rest (Some e) w"
| "resume AwaitDisconnectAll RSettled now w = hardEnd_finally w"
| "resume AwaitDisconnectAll (RThrow e) now w = hardEnd_finally w"
| "resume AwaitReleaseToken RSettled now w = retireLeg0_resume False w"
| "resume AwaitReleaseToken (RThrow e) now w = retireLeg0_resume True w"
| "resume AwaitListParticipants (RJson json) now w = refreshFromServer_resume json now w"
| "resume AwaitListParticipants (RThrow e) now w = w"
| "resume (AwaitRefreshToken g) (RToken newToken) now w = tick_resume g newToken w"
| "resume (AwaitRefreshToken g) (RThrow e) now w = w"
| "resume t r now w = w"

text \<open>The responses a suspended function can receive.\<close>

fun accepts :: "task \<Rightarrow> response \<Rightarrow> bool" where
  "accepts (AwaitRequestToken params) (RToken tok) = True"
| "accepts (AwaitRequestToken params) (RThrow e) = True"
| "accepts (AwaitDialLeg1 params) (RCreated created) = True"
| "accepts (AwaitDialLeg1 params) (RThrow e) = True"
| "accepts (AwaitDialLeg3 params rest lastErr) (RCreated created) = True"
| "accepts (AwaitDialLeg3 params rest lastErr) (RThrow e) = True"
| "accepts AwaitDisconnectAll RSettled = True"
| "accepts AwaitDisconnectAll (RThrow e) = True"
| "accepts AwaitReleaseToken RSettled = True"
| "accepts AwaitReleaseToken (RThrow e) = True"
| "accepts AwaitListParticipants (RJson json) = True"
| "accepts AwaitListParticipants (RThrow e) = True"
| "accepts (AwaitRefreshToken g) (RToken newToken) = True"
| "accepts (AwaitRefreshToken g) (RThrow e) = True"
| "accepts t r = False"

definition settle :: "nat \<Rightarrow> response \<Rightarrow> int \<Rightarrow> world \<Rightarrow> world" where
  "settle i r now w =
     (if i < length (tasks w) \<and> accepts (tasks w ! i) r
      then resume (tasks w ! i) r now (w\<lparr>tasks := (tasks w)[i := Finished]\<rparr>)
      else w)"

text \<open>
  The timer with handle \<open>i\<close> fires. A timeout leaves the table when it fires. The heartbeat
  delivers the transport's snapshot, which is the event \<open>SseSnapshot\<close> below.
\<close>

definition timerFires :: "nat \<Rightarrow> nat \<Rightarrow> world \<Rightarrow> world" where
  "timerFires i jitter w =
     (case find (\<lambda>t. timerId t = i) (timers w) of
        None \<Rightarrow> w
      | Some t \<Rightarrow>
          (case timerKind t of
             Heartbeat \<Rightarrow> w
           | DormancyWatchdog \<Rightarrow> dormancyFires jitter w
           | Reconnect \<Rightarrow> reconnectFires (clearTimer i w)
           | Leg3Retry \<Rightarrow> leg3RetryFires (clearTimer i w)
           | Renewal g \<Rightarrow> tick g w))"

text \<open>The callback \<open>(r) => this.onRoster(r, this.lastStartParams!)\<close> given to the transport.\<close>

definition sseSnapshot :: "rosterSnapshot \<Rightarrow> int \<Rightarrow> world \<Rightarrow> world" where
  "sseSnapshot roster now w =
     (case lastStartParams w of
        Some params \<Rightarrow> if es w \<or> tickTimer w \<noteq> None then onRoster roster params now w else w
      | None \<Rightarrow> w)"

datatype action =
    Start startParams
  | Stop
  | HardEnd
  | EnsureLeg3IfAgentReady
  | RefreshFromServer
  | IngestParticipantsSnapshot jsval
  | SseSnapshot rosterSnapshot
  | TimerFires nat nat
  | Settle nat response

text \<open>One turn of the event loop at time \<open>now\<close>.\<close>

fun step :: "int \<Rightarrow> action \<Rightarrow> world \<Rightarrow> world" where
  "step now (Start params) w = start params w"
| "step now Stop w = stop w"
| "step now HardEnd w = hardEnd w"
| "step now EnsureLeg3IfAgentReady w = ensureLeg3IfAgentReady w"
| "step now RefreshFromServer w = refreshFromServer w"
| "step now (IngestParticipantsSnapshot raw) w = ingestParticipantsSnapshot raw now w"
| "step now (SseSnapshot roster) w = sseSnapshot roster now w"
| "step now (TimerFires i jitter) w = timerFires i jitter w"
| "step now (Settle i r) w = settle i r now w"

fun run :: "(int \<times> action) list \<Rightarrow> world \<Rightarrow> world" where
  "run [] w = w"
| "run ((now, a) # rest) w = run rest (step now a w)"

section \<open>Notions used to state the properties\<close>

text \<open>The truthy forms of a connected field as the specification lists them.\<close>

definition equalsIgnoreCase :: "string \<Rightarrow> string \<Rightarrow> bool" where
  "equalsIgnoreCase a b = (toLowerCase a = toLowerCase b)"

fun acceptedTruthyForm :: "jsval \<Rightarrow> bool" where
  "acceptedTruthyForm (JBool b) = (b = True)"
| "acceptedTruthyForm (JNum n) = (n \<noteq> 0)"
| "acceptedTruthyForm (JStr s) =
     (equalsIgnoreCase s ''1'' \<or> equalsIgnoreCase s ''true'' \<or>
      equalsIgnoreCase s ''yes'' \<or> equalsIgnoreCase s ''on'')"
| "acceptedTruthyForm v = False"

text \<open>A dial attempt that does not set \<open>success\<close>: it threw, or created nothing.\<close>

fun failedAttempt :: "response \<Rightarrow> bool" where
  "failedAttempt (RCreated created) = (length created = 0)"
| "failedAttempt (RThrow e) = True"
| "failedAttempt r = False"

text \<open>The value of \<open>lastErr\<close> after the responses \<open>rs\<close>, starting from \<open>lastErr\<close>.\<close>

fun lastThrown :: "string option \<Rightarrow> response list \<Rightarrow> string option" where
  "lastThrown lastErr [] = lastErr"
| "lastThrown lastErr (RThrow e # rs) = lastThrown (Some e) rs"
| "lastThrown lastErr (r # rs) = lastThrown lastErr rs"

text \<open>
  The suspended functions in slots \<open>i\<close>, \<open>i + 1\<close>, ... receive the responses \<open>rs\<close> one after
  the other, with nothing else in between.
\<close>

fun settleEach :: "nat \<Rightarrow> response list \<Rightarrow> int \<Rightarrow> world \<Rightarrow> world" where
  "settleEach i [] now w = w"
| "settleEach i (r # rs) now w = settleEach (Suc i) rs now (settle i r now w)"

text \<open>The request \<open>tryDialLeg3WithCandidates\<close> issues for one candidate.\<close>

definition dialCall :: "world \<Rightarrow> startParams \<Rightarrow> string \<Rightarrow> call" where
  "dialCall w params dest =
     Dial (liveTokenOr w (token w)) (sessionAlias params) dest (leg3Opts params)"

text \<open>The message of the error \<open>tryDialLeg3WithCandidates\<close> makes when no attempt threw.\<close>

definition routingError :: string where
  "routingError = ''Leg 3 could not be routed. Provide a routable alias/URI or verify server routing rules.''"

fun isStart :: "action \<Rightarrow> bool" where
  "isStart (Start params) = True"
| "isStart a = False"

definition noStart :: "(int \<times> action) list \<Rightarrow> bool" where
  "noStart acts = list_all (\<lambda>x. \<not> isStart (snd x)) acts"

text \<open>The states a run goes through, the first one included.\<close>

fun trace :: "(int \<times> action) list \<Rightarrow> world \<Rightarrow> world list" where
  "trace [] w = [w]"
| "trace ((now, a) # rest) w = w # trace rest (step now a w)"

text \<open>How often a flag goes from false to true along a list of its values.\<close>

fun risingEdges :: "bool list \<Rightarrow> nat" where
  "risingEdges (a # b # bs) = (if \<not> a \<and> b then 1 else 0) + risingEdges (b # bs)"
| "risingEdges bs = 0"

text \<open>The leg-3 dial sequences in flight.\<close>

fun isDialTask :: "task \<Rightarrow> bool" where
  "isDialTask (AwaitDialLeg3 params rest lastErr) = True"
| "isDialTask t = False"

definition dialTasks :: "world \<Rightarrow> nat" where
  "dialTasks w = length (filter isDialTask (tasks w))"



subsection \<open>A session used as concrete input\<close>

definition exampleParams :: startParams where
  "exampleParams =
     \<lparr> sessionAlias = ''A'', sp_displayName = None, agentUserId = None, queueId = None,
       contactCenterAlias = ''+1555@cc'', secondDialAlias = ''ext@domain'', pin = None,
       customerSipDomain = None \<rparr>"

definition sipLeg1 :: participant where
  "sipLeg1 = \<lparr> p_id = ''1'', displayName = Some ''+1555@cc'', kind = Sip,
               isConnected = True, isVideo = False \<rparr>"

definition webrtcLeg2 :: participant where
  "webrtcLeg2 = \<lparr> p_id = ''2'', displayName = Some ''agent'', kind = Webrtc,
                  isConnected = True, isVideo = True \<rparr>"

definition exampleRoster :: rosterSnapshot where
  "exampleRoster = \<lparr> participants = [sipLeg1, webrtcLeg2], webrtcVideo = 1, sipVideo = 0 \<rparr>"

definition droppedRoster :: rosterSnapshot where
  "droppedRoster = \<lparr> participants = [webrtcLeg2], webrtcVideo = 1, sipVideo = 0 \<rparr>"

text \<open>A session after \<open>start\<close> has run to its end with token \<open>T\<close>, its agent ready.\<close>

definition readySession :: world where
  "readySession =
     newOrchestrator\<lparr> token := Some ''T'', currentAlias := Some ''A'',
       phase := Waiting_agent_answered, lastStartParams := Some exampleParams,
       agentReady := True, minTwoArmed := True, lastConnectedCount := 2 \<rparr>"


text \<open>The same session with the credential renewal of \<open>requestToken\<close> running.\<close>

definition rotatingSession :: world where
  "rotatingSession =
     readySession\<lparr> keepAlive := Some \<lparr>ka_timer = 1, ka_token = ''T'', ka_alias = ''A''\<rparr>,
       keepAliveClosures := [(''T'', ''A'')],
       timers := [Timer 1 (Renewal 0) 55000], nextTimerId := 2 \<rparr>"

text \<open>
  What a step may do to the guard and to the sequences in flight: nothing, or, from a clear
  guard, set it and begin one sequence.
\<close>

definition dialStep :: "world \<Rightarrow> world \<Rightarrow> bool" where
  "dialStep w w' =
     ((leg3Dialed w' = leg3Dialed w \<and> dialTasks w' = dialTasks w) \<or>
      (\<not> leg3Dialed w \<and> leg3Dialed w' \<and> dialTasks w' = Suc (dialTasks w)))"


text \<open>
  The timers of the event stream: heartbeat, dormancy watchdog and reconnect timeout.
\<close>

fun isTransportKind :: "timerKind \<Rightarrow> bool" where
  "isTransportKind Heartbeat = True"
| "isTransportKind DormancyWatchdog = True"
| "isTransportKind Reconnect = True"
| "isTransportKind k = False"

text \<open>
  The credential-renewal interval of the client.
\<close>

fun isRenewal :: "timerKind \<Rightarrow> bool" where
  "isRenewal (Renewal g) = True"
| "isRenewal k = False"

text \<open>
  A timer is owned when the field that \<open>clearInterval\<close> or \<open>clearTimeout\<close> is called on holds
  its identifier (a truthy one for the renewal: \<open>stopKeepAlive\<close> tests \<open>keepAlive?.timer\<close>);
  nothing ever cancels the retry timeout of leg 3.
\<close>

definition owned :: "world \<Rightarrow> timer \<Rightarrow> bool" where
  "owned w t =
     (case timerKind t of
        Heartbeat \<Rightarrow> tickTimer w = Some (timerId t)
      | DormancyWatchdog \<Rightarrow> dormancyTimer w = Some (timerId t)
      | Reconnect \<Rightarrow> reconnectTimeout w = Some (timerId t)
      | Leg3Retry \<Rightarrow> True
      | Renewal g \<Rightarrow>
          timerId t \<noteq> 0 \<and>
          (case keepAlive w of Some k \<Rightarrow> ka_timer k = timerId t | None \<Rightarrow> False))"

text \<open>
  Every active timer is owned, and the next identifier is not zero (the identifiers of
  \<open>setTimeout\<close> and \<open>setInterval\<close> are positive).
\<close>

definition timersOwned :: "world \<Rightarrow> bool" where
  "timersOwned w = (nextTimerId w \<noteq> 0 \<and> list_all (owned w) (timers w))"




text \<open>
  \<open>this.keepAlive?.timer\<close>
\<close>

definition keepAliveTimer :: "world \<Rightarrow> nat option" where
  "keepAliveTimer w = map_option ka_timer (keepAlive w)"

text \<open>
  No handle holds the identifier of a timer of another owner.
\<close>

definition apart :: "world \<Rightarrow> timer \<Rightarrow> bool" where
  "apart w t =
     ((tickTimer w = Some (timerId t) \<longrightarrow> timerKind t = Heartbeat) \<and>
      (dormancyTimer w = Some (timerId t) \<longrightarrow> timerKind t = DormancyWatchdog) \<and>
      (reconnectTimeout w = Some (timerId t) \<longrightarrow> timerKind t = Reconnect) \<and>
      (keepAliveTimer w = Some (timerId t) \<longrightarrow> isRenewal (timerKind t)))"

text \<open>
  A handle, when set, is an identifier handed out before the next one.
\<close>

fun below :: "nat option \<Rightarrow> nat \<Rightarrow> bool" where
  "below None n = True"
| "below (Some i) n = (i < n)"

text \<open>
  The identifiers of the active timers and the handles held are below the next identifier,
  and no handle holds the identifier of a timer of another owner.
\<close>

definition timersApart :: "world \<Rightarrow> bool" where
  "timersApart w =
     (list_all (\<lambda>t. timerId t < nextTimerId w \<and> apart w t) (timers w) \<and>
      below (tickTimer w) (nextTimerId w) \<and> below (dormancyTimer w) (nextTimerId w) \<and>
      below (reconnectTimeout w) (nextTimerId w) \<and>
      below (keepAliveTimer w) (nextTimerId w))"

text \<open>
  The suspended functions of \<open>w\<close> still have their slots in \<open>w'\<close>.
\<close>

definition keepsTasks :: "world \<Rightarrow> world \<Rightarrow> bool" where
  "keepsTasks w w' = (take (length (tasks w)) (tasks w') = tasks w)"

text \<open>
  The action settles the request awaited in slot \<open>i\<close>.
\<close>

fun settles :: "nat \<Rightarrow> action \<Rightarrow> bool" where
  "settles i (Settle j r) = (j = i)"
| "settles i a = False"

text \<open>
  None of the actions settles the request awaited in slot \<open>i\<close>.
\<close>

definition leavesPending :: "nat \<Rightarrow> (int \<times> action) list \<Rightarrow> bool" where
  "leavesPending i acts = list_all (\<lambda>x. \<not> settles i (snd x)) acts"

text \<open>
  Every active timer is held by the handle of its owner and by no other handle.
\<close>

definition timersSound :: "world \<Rightarrow> bool" where
  "timersSound w = (timersOwned w \<and> timersApart w)"

text \<open>
  A session up to the failure of its leg-3 dial: token \<open>T\<close>, leg 1 placed, agent ready,
  both candidates of leg 3 refused. The credential renewal (timer 1), the heartbeat (2), the
  dormancy watchdog (3) and the leg-3 retry (4) are active.
\<close>

definition failedDialRun :: "(int \<times> action) list" where
  "failedDialRun =
     [(0, Start exampleParams), (0, Settle 0 (RToken ''T'')),
      (0, Settle (Suc (Suc 0)) (RCreated [''leg1''])), (0, SseSnapshot exampleRoster),
      (0, Settle (Suc (Suc (Suc 0))) (RThrow ''busy'')),
      (0, Settle (Suc (Suc (Suc (Suc 0)))) (RThrow ''busy''))]"

text \<open>
  A session is stopped and started again; \<open>hardEnd\<close> is called before the token request of
  the second \<open>start\<close> (slot 3) has been answered with the token \<open>U\<close>, and the disconnect
  request (slot 4) settles after it.
\<close>

definition lateTokenRun :: "(int \<times> action) list" where
  "lateTokenRun =
     [(0, Start exampleParams), (0, Settle 0 (RToken ''T'')),
      (0, Settle (Suc (Suc 0)) (RCreated [''leg1''])), (0, Stop),
      (0, Start exampleParams), (0, HardEnd),
      (0, Settle (Suc (Suc (Suc 0))) (RToken ''U'')),
      (0, Settle (Suc (Suc (Suc (Suc 0)))) RSettled)]"

text \<open>
  The failure of the last attempt, as the specification counts failures: what the attempt
  threw, or, for an attempt that created nothing, that no route was found.
\<close>

definition lastFailure :: "response list \<Rightarrow> string" where
  "lastFailure rs = (case last rs of RThrow e \<Rightarrow> e | _ \<Rightarrow> routingError)"

text \<open>
  A session whose first leg-3 candidate is refused with an error and whose second candidate
  is answered with an empty list.
\<close>

definition emptyLastRun :: "(int \<times> action) list" where
  "emptyLastRun =
     [(0, Start exampleParams), (0, Settle 0 (RToken ''T'')),
      (0, Settle (Suc (Suc 0)) (RCreated [''leg1''])), (0, SseSnapshot exampleRoster),
      (0, Settle (Suc (Suc (Suc 0))) (RThrow ''busy'')),
      (0, Settle (Suc (Suc (Suc (Suc 0)))) (RCreated []))]"

text \<open>
  The snapshot that \<open>ingestParticipantsSnapshot\<close> hands to \<open>onRoster\<close>, if it does.
\<close>

definition ingested :: "jsval \<Rightarrow> world \<Rightarrow> rosterSnapshot option" where
  "ingested raw w =
     (case snapshotList raw of
        None \<Rightarrow> None
      | Some items \<Rightarrow> if lastStartParams w = None then None else Some (snapshotOf items))"



text \<open>
  The test of \<open>onRoster\<close> for a snapshot below two outside the grace window, on an engine
  that is not stopped: \<open>connectedCount < 2 && now >= sseGraceUntil\<close>, made after the
  dormancy grace of that snapshot.
\<close>

definition belowOutsideGrace :: "rosterSnapshot \<Rightarrow> int \<Rightarrow> world \<Rightarrow> bool" where
  "belowOutsideGrace roster now w =
     (\<not> stopped w \<and> connectedCountOf roster < 2 \<and>
      now \<ge> sseGraceUntil (dormancyGrace (connectedCountOf roster) now w))"




section \<open>Properties\<close>

subsection \<open>What each operation leaves unchanged\<close>

lemma emit_frame [simp]:
  "token (emit ev w) = token w"
  "currentAlias (emit ev w) = currentAlias w"
  "lastStartParams (emit ev w) = lastStartParams w"
  "agentReady (emit ev w) = agentReady w"
  "leg3Dialed (emit ev w) = leg3Dialed w"
  "stopped (emit ev w) = stopped w"
  "pendingLeg3Retry (emit ev w) = pendingLeg3Retry w"
  "leg0Retired (emit ev w) = leg0Retired w"
  "keepAlive (emit ev w) = keepAlive w"
  "tasks (emit ev w) = tasks w"
  "calls (emit ev w) = calls w"
  "phase (emit ev w) = phase w"
  by (simp_all add: emit_def)

lemma setPhase_frame [simp]:
  "token (setPhase p w) = token w"
  "currentAlias (setPhase p w) = currentAlias w"
  "lastStartParams (setPhase p w) = lastStartParams w"
  "agentReady (setPhase p w) = agentReady w"
  "leg3Dialed (setPhase p w) = leg3Dialed w"
  "stopped (setPhase p w) = stopped w"
  "pendingLeg3Retry (setPhase p w) = pendingLeg3Retry w"
  "leg0Retired (setPhase p w) = leg0Retired w"
  "keepAlive (setPhase p w) = keepAlive w"
  "tasks (setPhase p w) = tasks w"
  "calls (setPhase p w) = calls w"
  by (simp_all add: setPhase_def)

lemma logCall_frame [simp]:
  "token (logCall c w) = token w"
  "currentAlias (logCall c w) = currentAlias w"
  "lastStartParams (logCall c w) = lastStartParams w"
  "agentReady (logCall c w) = agentReady w"
  "leg3Dialed (logCall c w) = leg3Dialed w"
  "stopped (logCall c w) = stopped w"
  "pendingLeg3Retry (logCall c w) = pendingLeg3Retry w"
  "leg0Retired (logCall c w) = leg0Retired w"
  "keepAlive (logCall c w) = keepAlive w"
  "tasks (logCall c w) = tasks w"
  "events (logCall c w) = events w"
  "phase (logCall c w) = phase w"
  by (simp_all add: logCall_def)

lemma spawn_frame [simp]:
  "token (spawn t w) = token w"
  "currentAlias (spawn t w) = currentAlias w"
  "lastStartParams (spawn t w) = lastStartParams w"
  "agentReady (spawn t w) = agentReady w"
  "leg3Dialed (spawn t w) = leg3Dialed w"
  "stopped (spawn t w) = stopped w"
  "pendingLeg3Retry (spawn t w) = pendingLeg3Retry w"
  "leg0Retired (spawn t w) = leg0Retired w"
  "keepAlive (spawn t w) = keepAlive w"
  "events (spawn t w) = events w"
  "calls (spawn t w) = calls w"
  "phase (spawn t w) = phase w"
  by (simp_all add: spawn_def)

lemma setTimer_frame [simp]:
  "token (setTimer k ms w) = token w"
  "currentAlias (setTimer k ms w) = currentAlias w"
  "lastStartParams (setTimer k ms w) = lastStartParams w"
  "agentReady (setTimer k ms w) = agentReady w"
  "leg3Dialed (setTimer k ms w) = leg3Dialed w"
  "stopped (setTimer k ms w) = stopped w"
  "pendingLeg3Retry (setTimer k ms w) = pendingLeg3Retry w"
  "leg0Retired (setTimer k ms w) = leg0Retired w"
  "keepAlive (setTimer k ms w) = keepAlive w"
  "tasks (setTimer k ms w) = tasks w"
  "events (setTimer k ms w) = events w"
  "calls (setTimer k ms w) = calls w"
  "phase (setTimer k ms w) = phase w"
  by (simp_all add: setTimer_def)

lemma clearTimer_frame [simp]:
  "token (clearTimer i w) = token w"
  "currentAlias (clearTimer i w) = currentAlias w"
  "lastStartParams (clearTimer i w) = lastStartParams w"
  "agentReady (clearTimer i w) = agentReady w"
  "leg3Dialed (clearTimer i w) = leg3Dialed w"
  "stopped (clearTimer i w) = stopped w"
  "pendingLeg3Retry (clearTimer i w) = pendingLeg3Retry w"
  "leg0Retired (clearTimer i w) = leg0Retired w"
  "keepAlive (clearTimer i w) = keepAlive w"
  "tasks (clearTimer i w) = tasks w"
  "events (clearTimer i w) = events w"
  "calls (clearTimer i w) = calls w"
  "phase (clearTimer i w) = phase w"
  by (simp_all add: clearTimer_def)

lemma clearHandle_frame [simp]:
  "token (clearHandle h w) = token w"
  "currentAlias (clearHandle h w) = currentAlias w"
  "lastStartParams (clearHandle h w) = lastStartParams w"
  "agentReady (clearHandle h w) = agentReady w"
  "leg3Dialed (clearHandle h w) = leg3Dialed w"
  "stopped (clearHandle h w) = stopped w"
  "pendingLeg3Retry (clearHandle h w) = pendingLeg3Retry w"
  "leg0Retired (clearHandle h w) = leg0Retired w"
  "keepAlive (clearHandle h w) = keepAlive w"
  "tasks (clearHandle h w) = tasks w"
  "events (clearHandle h w) = events w"
  "calls (clearHandle h w) = calls w"
  "phase (clearHandle h w) = phase w"
  by (cases h; simp)+

lemma sse_close_frame [simp]:
  "token (sse_close w) = token w"
  "currentAlias (sse_close w) = currentAlias w"
  "lastStartParams (sse_close w) = lastStartParams w"
  "agentReady (sse_close w) = agentReady w"
  "leg3Dialed (sse_close w) = leg3Dialed w"
  "stopped (sse_close w) = stopped w"
  "pendingLeg3Retry (sse_close w) = pendingLeg3Retry w"
  "leg0Retired (sse_close w) = leg0Retired w"
  "keepAlive (sse_close w) = keepAlive w"
  "tasks (sse_close w) = tasks w"
  "events (sse_close w) = events w"
  "calls (sse_close w) = calls w"
  "phase (sse_close w) = phase w"
  by (simp_all add: sse_close_def Let_def)

lemma sse_connect_frame [simp]:
  "token (sse_connect a t w) = token w"
  "currentAlias (sse_connect a t w) = currentAlias w"
  "lastStartParams (sse_connect a t w) = lastStartParams w"
  "agentReady (sse_connect a t w) = agentReady w"
  "leg3Dialed (sse_connect a t w) = leg3Dialed w"
  "stopped (sse_connect a t w) = stopped w"
  "pendingLeg3Retry (sse_connect a t w) = pendingLeg3Retry w"
  "leg0Retired (sse_connect a t w) = leg0Retired w"
  "keepAlive (sse_connect a t w) = keepAlive w"
  "tasks (sse_connect a t w) = tasks w"
  "events (sse_connect a t w) = events w"
  "calls (sse_connect a t w) = calls w"
  "phase (sse_connect a t w) = phase w"
  by (simp_all add: sse_connect_def Let_def)

lemma internalReconnect_frame [simp]:
  "token (internalReconnect d j w) = token w"
  "currentAlias (internalReconnect d j w) = currentAlias w"
  "lastStartParams (internalReconnect d j w) = lastStartParams w"
  "agentReady (internalReconnect d j w) = agentReady w"
  "leg3Dialed (internalReconnect d j w) = leg3Dialed w"
  "stopped (internalReconnect d j w) = stopped w"
  "pendingLeg3Retry (internalReconnect d j w) = pendingLeg3Retry w"
  "leg0Retired (internalReconnect d j w) = leg0Retired w"
  "keepAlive (internalReconnect d j w) = keepAlive w"
  "tasks (internalReconnect d j w) = tasks w"
  "events (internalReconnect d j w) = events w"
  "calls (internalReconnect d j w) = calls w"
  "phase (internalReconnect d j w) = phase w"
  by (simp_all add: internalReconnect_def Let_def)

lemma dormancyFires_frame [simp]:
  "token (dormancyFires j w) = token w"
  "currentAlias (dormancyFires j w) = currentAlias w"
  "lastStartParams (dormancyFires j w) = lastStartParams w"
  "agentReady (dormancyFires j w) = agentReady w"
  "leg3Dialed (dormancyFires j w) = leg3Dialed w"
  "stopped (dormancyFires j w) = stopped w"
  "pendingLeg3Retry (dormancyFires j w) = pendingLeg3Retry w"
  "leg0Retired (dormancyFires j w) = leg0Retired w"
  "keepAlive (dormancyFires j w) = keepAlive w"
  "tasks (dormancyFires j w) = tasks w"
  "events (dormancyFires j w) = events w"
  "calls (dormancyFires j w) = calls w"
  "phase (dormancyFires j w) = phase w"
  by (simp_all add: dormancyFires_def)

lemma reconnectFires_frame [simp]:
  "token (reconnectFires w) = token w"
  "currentAlias (reconnectFires w) = currentAlias w"
  "lastStartParams (reconnectFires w) = lastStartParams w"
  "agentReady (reconnectFires w) = agentReady w"
  "leg3Dialed (reconnectFires w) = leg3Dialed w"
  "stopped (reconnectFires w) = stopped w"
  "pendingLeg3Retry (reconnectFires w) = pendingLeg3Retry w"
  "leg0Retired (reconnectFires w) = leg0Retired w"
  "keepAlive (reconnectFires w) = keepAlive w"
  "tasks (reconnectFires w) = tasks w"
  "events (reconnectFires w) = events w"
  "calls (reconnectFires w) = calls w"
  "phase (reconnectFires w) = phase w"
  by (simp_all add: reconnectFires_def Let_def split: option.splits)

lemma stopKeepAlive_frame [simp]:
  "token (stopKeepAlive w) = token w"
  "currentAlias (stopKeepAlive w) = currentAlias w"
  "lastStartParams (stopKeepAlive w) = lastStartParams w"
  "agentReady (stopKeepAlive w) = agentReady w"
  "leg3Dialed (stopKeepAlive w) = leg3Dialed w"
  "stopped (stopKeepAlive w) = stopped w"
  "pendingLeg3Retry (stopKeepAlive w) = pendingLeg3Retry w"
  "leg0Retired (stopKeepAlive w) = leg0Retired w"
  "tasks (stopKeepAlive w) = tasks w"
  "events (stopKeepAlive w) = events w"
  "calls (stopKeepAlive w) = calls w"
  "phase (stopKeepAlive w) = phase w"
  by (simp_all add: stopKeepAlive_def split: option.splits)

lemma tick_frame [simp]:
  "token (tick g w) = token w"
  "currentAlias (tick g w) = currentAlias w"
  "lastStartParams (tick g w) = lastStartParams w"
  "agentReady (tick g w) = agentReady w"
  "leg3Dialed (tick g w) = leg3Dialed w"
  "stopped (tick g w) = stopped w"
  "pendingLeg3Retry (tick g w) = pendingLeg3Retry w"
  "leg0Retired (tick g w) = leg0Retired w"
  "keepAlive (tick g w) = keepAlive w"
  "events (tick g w) = events w"
  "phase (tick g w) = phase w"
  by (simp_all add: tick_def)

lemma tick_resume_frame [simp]:
  "token (tick_resume g t w) = token w"
  "currentAlias (tick_resume g t w) = currentAlias w"
  "lastStartParams (tick_resume g t w) = lastStartParams w"
  "agentReady (tick_resume g t w) = agentReady w"
  "leg3Dialed (tick_resume g t w) = leg3Dialed w"
  "stopped (tick_resume g t w) = stopped w"
  "pendingLeg3Retry (tick_resume g t w) = pendingLeg3Retry w"
  "leg0Retired (tick_resume g t w) = leg0Retired w"
  "tasks (tick_resume g t w) = tasks w"
  "events (tick_resume g t w) = events w"
  "calls (tick_resume g t w) = calls w"
  "phase (tick_resume g t w) = phase w"
  by (simp_all add: tick_resume_def)

lemma startKeepAlive_frame [simp]:
  "token (startKeepAlive t a w) = token w"
  "currentAlias (startKeepAlive t a w) = currentAlias w"
  "lastStartParams (startKeepAlive t a w) = lastStartParams w"
  "agentReady (startKeepAlive t a w) = agentReady w"
  "leg3Dialed (startKeepAlive t a w) = leg3Dialed w"
  "stopped (startKeepAlive t a w) = stopped w"
  "pendingLeg3Retry (startKeepAlive t a w) = pendingLeg3Retry w"
  "leg0Retired (startKeepAlive t a w) = leg0Retired w"
  "events (startKeepAlive t a w) = events w"
  "phase (startKeepAlive t a w) = phase w"
  by (simp_all add: startKeepAlive_def Let_def)

lemma client_requestToken_frame [simp]:
  "token (client_requestToken a d p w) = token w"
  "currentAlias (client_requestToken a d p w) = currentAlias w"
  "lastStartParams (client_requestToken a d p w) = lastStartParams w"
  "agentReady (client_requestToken a d p w) = agentReady w"
  "leg3Dialed (client_requestToken a d p w) = leg3Dialed w"
  "stopped (client_requestToken a d p w) = stopped w"
  "pendingLeg3Retry (client_requestToken a d p w) = pendingLeg3Retry w"
  "leg0Retired (client_requestToken a d p w) = leg0Retired w"
  "keepAlive (client_requestToken a d p w) = keepAlive w"
  "tasks (client_requestToken a d p w) = tasks w"
  "events (client_requestToken a d p w) = events w"
  "phase (client_requestToken a d p w) = phase w"
  by (simp_all add: client_requestToken_def)

lemma client_dial_frame [simp]:
  "token (client_dial t a d opts w) = token w"
  "currentAlias (client_dial t a d opts w) = currentAlias w"
  "lastStartParams (client_dial t a d opts w) = lastStartParams w"
  "agentReady (client_dial t a d opts w) = agentReady w"
  "leg3Dialed (client_dial t a d opts w) = leg3Dialed w"
  "stopped (client_dial t a d opts w) = stopped w"
  "pendingLeg3Retry (client_dial t a d opts w) = pendingLeg3Retry w"
  "leg0Retired (client_dial t a d opts w) = leg0Retired w"
  "keepAlive (client_dial t a d opts w) = keepAlive w"
  "tasks (client_dial t a d opts w) = tasks w"
  "events (client_dial t a d opts w) = events w"
  "phase (client_dial t a d opts w) = phase w"
  by (simp_all add: client_dial_def Let_def)

lemma client_listParticipants_frame [simp]:
  "token (client_listParticipants t a w) = token w"
  "currentAlias (client_listParticipants t a w) = currentAlias w"
  "lastStartParams (client_listParticipants t a w) = lastStartParams w"
  "agentReady (client_listParticipants t a w) = agentReady w"
  "leg3Dialed (client_listParticipants t a w) = leg3Dialed w"
  "stopped (client_listParticipants t a w) = stopped w"
  "pendingLeg3Retry (client_listParticipants t a w) = pendingLeg3Retry w"
  "leg0Retired (client_listParticipants t a w) = leg0Retired w"
  "keepAlive (client_listParticipants t a w) = keepAlive w"
  "tasks (client_listParticipants t a w) = tasks w"
  "events (client_listParticipants t a w) = events w"
  "phase (client_listParticipants t a w) = phase w"
  by (simp_all add: client_listParticipants_def Let_def)

lemma client_disconnectAll_frame [simp]:
  "token (client_disconnectAll t a w) = token w"
  "currentAlias (client_disconnectAll t a w) = currentAlias w"
  "lastStartParams (client_disconnectAll t a w) = lastStartParams w"
  "agentReady (client_disconnectAll t a w) = agentReady w"
  "leg3Dialed (client_disconnectAll t a w) = leg3Dialed w"
  "stopped (client_disconnectAll t a w) = stopped w"
  "pendingLeg3Retry (client_disconnectAll t a w) = pendingLeg3Retry w"
  "leg0Retired (client_disconnectAll t a w) = leg0Retired w"
  "tasks (client_disconnectAll t a w) = tasks w"
  "events (client_disconnectAll t a w) = events w"
  "phase (client_disconnectAll t a w) = phase w"
  by (simp_all add: client_disconnectAll_def Let_def)

lemma client_releaseToken_frame [simp]:
  "token (client_releaseToken t a w) = token w"
  "currentAlias (client_releaseToken t a w) = currentAlias w"
  "lastStartParams (client_releaseToken t a w) = lastStartParams w"
  "agentReady (client_releaseToken t a w) = agentReady w"
  "leg3Dialed (client_releaseToken t a w) = leg3Dialed w"
  "stopped (client_releaseToken t a w) = stopped w"
  "pendingLeg3Retry (client_releaseToken t a w) = pendingLeg3Retry w"
  "leg0Retired (client_releaseToken t a w) = leg0Retired w"
  "tasks (client_releaseToken t a w) = tasks w"
  "events (client_releaseToken t a w) = events w"
  "phase (client_releaseToken t a w) = phase w"
  by (simp_all add: client_releaseToken_def Let_def)

lemma stop_frame [simp]:
  "token (stop w) = token w"
  "currentAlias (stop w) = currentAlias w"
  "lastStartParams (stop w) = lastStartParams w"
  "agentReady (stop w) = agentReady w"
  "leg3Dialed (stop w) = leg3Dialed w"
  "pendingLeg3Retry (stop w) = pendingLeg3Retry w"
  "leg0Retired (stop w) = leg0Retired w"
  "keepAlive (stop w) = keepAlive w"
  "tasks (stop w) = tasks w"
  "calls (stop w) = calls w"
  by (simp_all add: stop_def)

lemma hardEnd_finally_frame [simp]:
  "lastStartParams (hardEnd_finally w) = lastStartParams w"
  "agentReady (hardEnd_finally w) = agentReady w"
  "leg3Dialed (hardEnd_finally w) = leg3Dialed w"
  "pendingLeg3Retry (hardEnd_finally w) = pendingLeg3Retry w"
  "leg0Retired (hardEnd_finally w) = leg0Retired w"
  "keepAlive (hardEnd_finally w) = keepAlive w"
  "tasks (hardEnd_finally w) = tasks w"
  "calls (hardEnd_finally w) = calls w"
  by (simp_all add: hardEnd_finally_def)

lemma hardEnd_frame [simp]:
  "lastStartParams (hardEnd w) = lastStartParams w"
  "agentReady (hardEnd w) = agentReady w"
  "leg3Dialed (hardEnd w) = leg3Dialed w"
  "pendingLeg3Retry (hardEnd w) = pendingLeg3Retry w"
  "leg0Retired (hardEnd w) = leg0Retired w"
  by (simp_all add: hardEnd_def)

lemma leg3Failed_frame [simp]:
  "token (leg3Failed le w) = token w"
  "currentAlias (leg3Failed le w) = currentAlias w"
  "lastStartParams (leg3Failed le w) = lastStartParams w"
  "agentReady (leg3Failed le w) = agentReady w"
  "stopped (leg3Failed le w) = stopped w"
  "leg0Retired (leg3Failed le w) = leg0Retired w"
  "keepAlive (leg3Failed le w) = keepAlive w"
  "tasks (leg3Failed le w) = tasks w"
  "calls (leg3Failed le w) = calls w"
  by (simp_all add: leg3Failed_def Let_def)

lemma dialLoop_frame [simp]:
  "token (dialLoop p cs le w) = token w"
  "currentAlias (dialLoop p cs le w) = currentAlias w"
  "lastStartParams (dialLoop p cs le w) = lastStartParams w"
  "agentReady (dialLoop p cs le w) = agentReady w"
  "stopped (dialLoop p cs le w) = stopped w"
  "leg0Retired (dialLoop p cs le w) = leg0Retired w"
  "keepAlive (dialLoop p cs le w) = keepAlive w"
  by (cases cs; simp)+

lemma tryDialLeg3WithCandidates_frame [simp]:
  "token (tryDialLeg3WithCandidates p w) = token w"
  "currentAlias (tryDialLeg3WithCandidates p w) = currentAlias w"
  "lastStartParams (tryDialLeg3WithCandidates p w) = lastStartParams w"
  "agentReady (tryDialLeg3WithCandidates p w) = agentReady w"
  "stopped (tryDialLeg3WithCandidates p w) = stopped w"
  "leg0Retired (tryDialLeg3WithCandidates p w) = leg0Retired w"
  "keepAlive (tryDialLeg3WithCandidates p w) = keepAlive w"
  by (simp_all add: tryDialLeg3WithCandidates_def)

lemma ensureLeg3IfAgentReady_frame [simp]:
  "token (ensureLeg3IfAgentReady w) = token w"
  "currentAlias (ensureLeg3IfAgentReady w) = currentAlias w"
  "lastStartParams (ensureLeg3IfAgentReady w) = lastStartParams w"
  "agentReady (ensureLeg3IfAgentReady w) = agentReady w"
  "stopped (ensureLeg3IfAgentReady w) = stopped w"
  "leg0Retired (ensureLeg3IfAgentReady w) = leg0Retired w"
  "keepAlive (ensureLeg3IfAgentReady w) = keepAlive w"
  by (simp_all add: ensureLeg3IfAgentReady_def)

lemma leg3RetryFires_frame [simp]:
  "token (leg3RetryFires w) = token w"
  "currentAlias (leg3RetryFires w) = currentAlias w"
  "lastStartParams (leg3RetryFires w) = lastStartParams w"
  "agentReady (leg3RetryFires w) = agentReady w"
  "stopped (leg3RetryFires w) = stopped w"
  "leg0Retired (leg3RetryFires w) = leg0Retired w"
  "keepAlive (leg3RetryFires w) = keepAlive w"
  by (simp_all add: leg3RetryFires_def Let_def)

lemma start_catch_frame [simp]:
  "token (start_catch e w) = token w"
  "currentAlias (start_catch e w) = currentAlias w"
  "lastStartParams (start_catch e w) = lastStartParams w"
  "agentReady (start_catch e w) = agentReady w"
  "leg3Dialed (start_catch e w) = leg3Dialed w"
  "stopped (start_catch e w) = stopped w"
  "pendingLeg3Retry (start_catch e w) = pendingLeg3Retry w"
  "leg0Retired (start_catch e w) = leg0Retired w"
  "keepAlive (start_catch e w) = keepAlive w"
  "tasks (start_catch e w) = tasks w"
  "calls (start_catch e w) = calls w"
  by (simp_all add: start_catch_def)

lemma start_gotToken_frame [simp]:
  "currentAlias (start_gotToken p t w) = currentAlias w"
  "lastStartParams (start_gotToken p t w) = lastStartParams w"
  "agentReady (start_gotToken p t w) = agentReady w"
  "leg3Dialed (start_gotToken p t w) = leg3Dialed w"
  "stopped (start_gotToken p t w) = stopped w"
  "pendingLeg3Retry (start_gotToken p t w) = pendingLeg3Retry w"
  "leg0Retired (start_gotToken p t w) = leg0Retired w"
  by (simp_all add: start_gotToken_def Let_def)

lemma start_dialed_frame [simp]:
  "token (start_dialed c w) = token w"
  "currentAlias (start_dialed c w) = currentAlias w"
  "lastStartParams (start_dialed c w) = lastStartParams w"
  "agentReady (start_dialed c w) = agentReady w"
  "leg3Dialed (start_dialed c w) = leg3Dialed w"
  "stopped (start_dialed c w) = stopped w"
  "pendingLeg3Retry (start_dialed c w) = pendingLeg3Retry w"
  "leg0Retired (start_dialed c w) = leg0Retired w"
  "keepAlive (start_dialed c w) = keepAlive w"
  "tasks (start_dialed c w) = tasks w"
  "calls (start_dialed c w) = calls w"
  by (simp_all add: start_dialed_def)

lemma retireLeg0_resume_frame [simp]:
  "lastStartParams (retireLeg0_resume b w) = lastStartParams w"
  "agentReady (retireLeg0_resume b w) = agentReady w"
  "leg3Dialed (retireLeg0_resume b w) = leg3Dialed w"
  "pendingLeg3Retry (retireLeg0_resume b w) = pendingLeg3Retry w"
  "leg0Retired (retireLeg0_resume b w) = leg0Retired w"
  "keepAlive (retireLeg0_resume b w) = keepAlive w"
  "tasks (retireLeg0_resume b w) = tasks w"
  "calls (retireLeg0_resume b w) = calls w"
  by (simp_all add: retireLeg0_resume_def Let_def)

lemma retireLeg0_frame [simp]:
  "lastStartParams (retireLeg0 w) = lastStartParams w"
  "agentReady (retireLeg0 w) = agentReady w"
  "leg3Dialed (retireLeg0 w) = leg3Dialed w"
  "pendingLeg3Retry (retireLeg0 w) = pendingLeg3Retry w"
  by (simp_all add: retireLeg0_def Let_def)

lemma dormancyGrace_frame [simp]:
  "token (dormancyGrace c n w) = token w"
  "currentAlias (dormancyGrace c n w) = currentAlias w"
  "lastStartParams (dormancyGrace c n w) = lastStartParams w"
  "agentReady (dormancyGrace c n w) = agentReady w"
  "leg3Dialed (dormancyGrace c n w) = leg3Dialed w"
  "stopped (dormancyGrace c n w) = stopped w"
  "pendingLeg3Retry (dormancyGrace c n w) = pendingLeg3Retry w"
  "leg0Retired (dormancyGrace c n w) = leg0Retired w"
  "keepAlive (dormancyGrace c n w) = keepAlive w"
  "tasks (dormancyGrace c n w) = tasks w"
  "events (dormancyGrace c n w) = events w"
  "calls (dormancyGrace c n w) = calls w"
  "phase (dormancyGrace c n w) = phase w"
  by (simp_all add: dormancyGrace_def Let_def)

lemma minTwoArm_frame [simp]:
  "token (minTwoArm c w) = token w"
  "currentAlias (minTwoArm c w) = currentAlias w"
  "lastStartParams (minTwoArm c w) = lastStartParams w"
  "agentReady (minTwoArm c w) = agentReady w"
  "leg3Dialed (minTwoArm c w) = leg3Dialed w"
  "stopped (minTwoArm c w) = stopped w"
  "pendingLeg3Retry (minTwoArm c w) = pendingLeg3Retry w"
  "leg0Retired (minTwoArm c w) = leg0Retired w"
  "keepAlive (minTwoArm c w) = keepAlive w"
  "tasks (minTwoArm c w) = tasks w"
  "events (minTwoArm c w) = events w"
  "calls (minTwoArm c w) = calls w"
  "phase (minTwoArm c w) = phase w"
  by (simp_all add: minTwoArm_def)

lemma activeTransition_frame [simp]:
  "token (activeTransition r p w) = token w"
  "currentAlias (activeTransition r p w) = currentAlias w"
  "lastStartParams (activeTransition r p w) = lastStartParams w"
  "agentReady (activeTransition r p w) = agentReady w"
  "leg3Dialed (activeTransition r p w) = leg3Dialed w"
  "stopped (activeTransition r p w) = stopped w"
  "pendingLeg3Retry (activeTransition r p w) = pendingLeg3Retry w"
  "leg0Retired (activeTransition r p w) = leg0Retired w"
  "keepAlive (activeTransition r p w) = keepAlive w"
  "tasks (activeTransition r p w) = tasks w"
  "calls (activeTransition r p w) = calls w"
  by (simp_all add: activeTransition_def)

lemma fourLegsRule_frame [simp]:
  "token (fourLegsRule r p n w) = token w"
  "currentAlias (fourLegsRule r p n w) = currentAlias w"
  "lastStartParams (fourLegsRule r p n w) = lastStartParams w"
  "agentReady (fourLegsRule r p n w) = agentReady w"
  "leg3Dialed (fourLegsRule r p n w) = leg3Dialed w"
  "stopped (fourLegsRule r p n w) = stopped w"
  "pendingLeg3Retry (fourLegsRule r p n w) = pendingLeg3Retry w"
  "leg0Retired (fourLegsRule r p n w) = leg0Retired w"
  "keepAlive (fourLegsRule r p n w) = keepAlive w"
  "tasks (fourLegsRule r p n w) = tasks w"
  "events (fourLegsRule r p n w) = events w"
  "calls (fourLegsRule r p n w) = calls w"
  "phase (fourLegsRule r p n w) = phase w"
  by (simp_all add: fourLegsRule_def split: option.splits)

lemma trackFourLegs_frame [simp]:
  "token (trackFourLegs r p n w) = token w"
  "currentAlias (trackFourLegs r p n w) = currentAlias w"
  "lastStartParams (trackFourLegs r p n w) = lastStartParams w"
  "agentReady (trackFourLegs r p n w) = agentReady w"
  "leg3Dialed (trackFourLegs r p n w) = leg3Dialed w"
  "stopped (trackFourLegs r p n w) = stopped w"
  "pendingLeg3Retry (trackFourLegs r p n w) = pendingLeg3Retry w"
  "leg0Retired (trackFourLegs r p n w) = leg0Retired w"
  "keepAlive (trackFourLegs r p n w) = keepAlive w"
  "tasks (trackFourLegs r p n w) = tasks w"
  "events (trackFourLegs r p n w) = events w"
  "calls (trackFourLegs r p n w) = calls w"
  "phase (trackFourLegs r p n w) = phase w"
  by (simp_all add: trackFourLegs_def)

lemma idleTermination_frame [simp]:
  "token (idleTermination c n w) = token w"
  "currentAlias (idleTermination c n w) = currentAlias w"
  "lastStartParams (idleTermination c n w) = lastStartParams w"
  "agentReady (idleTermination c n w) = agentReady w"
  "leg3Dialed (idleTermination c n w) = leg3Dialed w"
  "pendingLeg3Retry (idleTermination c n w) = pendingLeg3Retry w"
  "leg0Retired (idleTermination c n w) = leg0Retired w"
  "keepAlive (idleTermination c n w) = keepAlive w"
  "tasks (idleTermination c n w) = tasks w"
  "calls (idleTermination c n w) = calls w"
  by (simp_all add: idleTermination_def Let_def)

lemma refreshFromServer_frame [simp]:
  "token (refreshFromServer w) = token w"
  "currentAlias (refreshFromServer w) = currentAlias w"
  "lastStartParams (refreshFromServer w) = lastStartParams w"
  "agentReady (refreshFromServer w) = agentReady w"
  "leg3Dialed (refreshFromServer w) = leg3Dialed w"
  "stopped (refreshFromServer w) = stopped w"
  "pendingLeg3Retry (refreshFromServer w) = pendingLeg3Retry w"
  "leg0Retired (refreshFromServer w) = leg0Retired w"
  "keepAlive (refreshFromServer w) = keepAlive w"
  "events (refreshFromServer w) = events w"
  "phase (refreshFromServer w) = phase w"
  by (simp_all add: refreshFromServer_def)


subsection \<open>Unfolding the elementary operations\<close>

lemmas basic_defs = emit_def setPhase_def logCall_def spawn_def setTimer_def clearTimer_def

lemmas start_defs = start_def client_requestToken_def settle_def start_gotToken_def
  startKeepAlive_def stopKeepAlive_def tick_def sse_connect_def sse_close_def client_dial_def
  liveTokenOr_def currentToken_def start_dialed_def start_catch_def leg1Opts_def Let_def

lemmas roster_defs = sseSnapshot_def onRoster_def dormancyGrace_def minTwoArm_def legChecks_def
  agentReadiness_def connectedCountOf_def exampleRoster_def sipLeg1_def webrtcLeg2_def
  leg1SipUp_def leg2WebrtcUp_def leg3SipUp_def matchesSipAlias_def normAlias_def
  ensureLeg3IfAgentReady_def tryDialLeg3WithCandidates_def leg3Candidates_def
  activeTransition_def fourLegsRule_def fourLegsUp_def leg0ApiUp_def trackFourLegs_def
  retireDue_def idleTermination_def looksSip_def trim_def toLowerCase_def toLowerChar_def
  isWhiteSpace_def leg3Opts_def customerSipDomainOf_def belowTwoExpired_def

lemma clearHandle_handles [simp]:
  "tickTimer (clearHandle h w) = tickTimer w"
  "dormancyTimer (clearHandle h w) = dormancyTimer w"
  "reconnectTimeout (clearHandle h w) = reconnectTimeout w"
  "es (clearHandle h w) = es w"
  "nextTimerId (clearHandle h w) = nextTimerId w"
  by (cases h; simp add: clearTimer_def)+

lemma sse_close_handles [simp]:
  "\<not> es (sse_close w)" "tickTimer (sse_close w) = None"
  "dormancyTimer (sse_close w) = None" "reconnectTimeout (sse_close w) = None"
  by (simp_all add: sse_close_def Let_def)

subsection \<open>Timers and their handles\<close>

lemma owned_cong:
  "tickTimer w' = tickTimer w \<Longrightarrow> dormancyTimer w' = dormancyTimer w \<Longrightarrow>
   reconnectTimeout w' = reconnectTimeout w \<Longrightarrow>
   map_option ka_timer (keepAlive w') = map_option ka_timer (keepAlive w) \<Longrightarrow>
   owned w' t = owned w t"
  by (cases "keepAlive w"; cases "keepAlive w'")
     (auto simp: owned_def split: timerKind.splits)

lemma timersOwned_cong:
  "timers w' = timers w \<Longrightarrow> nextTimerId w' = nextTimerId w \<Longrightarrow>
   tickTimer w' = tickTimer w \<Longrightarrow> dormancyTimer w' = dormancyTimer w \<Longrightarrow>
   reconnectTimeout w' = reconnectTimeout w \<Longrightarrow>
   map_option ka_timer (keepAlive w') = map_option ka_timer (keepAlive w) \<Longrightarrow>
   timersOwned w' = timersOwned w"
  using owned_cong[of w' w] by (simp add: timersOwned_def list_all_iff)

lemma timersOwned_new: "timersOwned newOrchestrator"
  by (simp add: timersOwned_def newOrchestrator_def)

lemma timersOwned_clearTimer: "timersOwned w \<Longrightarrow> timersOwned (clearTimer i w)"
  by (auto simp: timersOwned_def clearTimer_def list_all_iff owned_def
      split: timerKind.splits option.splits)

lemma timersOwned_clearHandle: "timersOwned w \<Longrightarrow> timersOwned (clearHandle h w)"
  by (cases h) (simp_all add: timersOwned_clearTimer)

lemma sse_close_timers:
  "timers (sse_close w) =
     filter (\<lambda>t. tickTimer w \<noteq> Some (timerId t) \<and> dormancyTimer w \<noteq> Some (timerId t) \<and>
                 reconnectTimeout w \<noteq> Some (timerId t)) (timers w)"
  by (cases "tickTimer w"; cases "dormancyTimer w"; cases "reconnectTimeout w")
     (auto simp: sse_close_def Let_def clearTimer_def intro: filter_cong)

lemma sse_close_state [simp]:
  "nextTimerId (sse_close w) = nextTimerId w" "keepAlive (sse_close w) = keepAlive w"
  by (simp_all add: sse_close_def Let_def)

lemma owned_transport:
  "owned w t \<Longrightarrow> isTransportKind (timerKind t) \<Longrightarrow>
   tickTimer w = Some (timerId t) \<or> dormancyTimer w = Some (timerId t) \<or>
   reconnectTimeout w = Some (timerId t)"
  by (cases "timerKind t") (simp_all add: owned_def)

lemma owned_other:
  "\<not> isTransportKind (timerKind t) \<Longrightarrow>
   map_option ka_timer (keepAlive w') = map_option ka_timer (keepAlive w) \<Longrightarrow>
   owned w' t = owned w t"
  by (cases "timerKind t"; cases "keepAlive w"; cases "keepAlive w'")
     (auto simp: owned_def)

lemma sse_close_no_transport:
  assumes "timersOwned w"
  shows "list_all (\<lambda>t. \<not> isTransportKind (timerKind t)) (timers (sse_close w))"
  using assms owned_transport[of w]
  by (auto simp: sse_close_timers timersOwned_def list_all_iff)

lemma timersOwned_sse_close:
  assumes "timersOwned w"
  shows "timersOwned (sse_close w)"
proof -
  have "owned (sse_close w) t" if "t \<in> set (timers (sse_close w))" for t
  proof -
    from that sse_close_no_transport[OF assms]
    have n: "\<not> isTransportKind (timerKind t)" by (simp add: list_all_iff)
    from that assms have "owned w t" by (simp add: sse_close_timers timersOwned_def list_all_iff)
    then show ?thesis using owned_other[OF n, of "sse_close w" w] by simp
  qed
  with assms show ?thesis by (simp add: timersOwned_def list_all_iff)
qed

lemma timersOwned_update [simp]:
  "timersOwned (w\<lparr>token := x0\<rparr>) = timersOwned w"
  "timersOwned (w\<lparr>currentAlias := x1\<rparr>) = timersOwned w"
  "timersOwned (w\<lparr>phase := x2\<rparr>) = timersOwned w"
  "timersOwned (w\<lparr>lastStartParams := x3\<rparr>) = timersOwned w"
  "timersOwned (w\<lparr>agentReady := x4\<rparr>) = timersOwned w"
  "timersOwned (w\<lparr>leg3Dialed := x5\<rparr>) = timersOwned w"
  "timersOwned (w\<lparr>stopped := x6\<rparr>) = timersOwned w"
  "timersOwned (w\<lparr>inactiveSince := x7\<rparr>) = timersOwned w"
  "timersOwned (w\<lparr>minTwoArmed := x8\<rparr>) = timersOwned w"
  "timersOwned (w\<lparr>belowTwoSince := x9\<rparr>) = timersOwned w"
  "timersOwned (w\<lparr>sseGraceUntil := x10\<rparr>) = timersOwned w"
  "timersOwned (w\<lparr>lastConnectedCount := x11\<rparr>) = timersOwned w"
  "timersOwned (w\<lparr>fullyEngagedSince := x12\<rparr>) = timersOwned w"
  "timersOwned (w\<lparr>killOnAgentDropArmed := x13\<rparr>) = timersOwned w"
  "timersOwned (w\<lparr>pendingLeg3Retry := x14\<rparr>) = timersOwned w"
  "timersOwned (w\<lparr>leg0Retired := x15\<rparr>) = timersOwned w"
  "timersOwned (w\<lparr>fourLegsSince := x16\<rparr>) = timersOwned w"
  "timersOwned (w\<lparr>keepAliveClosures := x17\<rparr>) = timersOwned w"
  "timersOwned (w\<lparr>es := x18\<rparr>) = timersOwned w"
  "timersOwned (w\<lparr>sse_alias := x19\<rparr>) = timersOwned w"
  "timersOwned (w\<lparr>sse_token := x20\<rparr>) = timersOwned w"
  "timersOwned (w\<lparr>backoffMs := x21\<rparr>) = timersOwned w"
  "timersOwned (w\<lparr>events := x22\<rparr>) = timersOwned w"
  "timersOwned (w\<lparr>calls := x23\<rparr>) = timersOwned w"
  "timersOwned (w\<lparr>tasks := x24\<rparr>) = timersOwned w"
  by (rule timersOwned_cong; simp)+

lemma timersOwned_emit [simp]: "timersOwned (emit ev w) = timersOwned w"
  by (rule timersOwned_cong; simp add: emit_def)

lemma timersOwned_setPhase [simp]: "timersOwned (setPhase ph w) = timersOwned w"
  by (rule timersOwned_cong; simp add: setPhase_def emit_def)

lemma timersOwned_logCall [simp]: "timersOwned (logCall c w) = timersOwned w"
  by (rule timersOwned_cong; simp add: logCall_def)

lemma timersOwned_spawn [simp]: "timersOwned (spawn tk w) = timersOwned w"
  by (rule timersOwned_cong; simp add: spawn_def)

lemma timersOwned_tick [simp]: "timersOwned (tick g w) = timersOwned w"
  by (rule timersOwned_cong; simp add: tick_def spawn_def logCall_def)

lemma timersOwned_client_requestToken [simp]: "timersOwned (client_requestToken a dn pn w) = timersOwned w"
  by (rule timersOwned_cong; simp add: client_requestToken_def logCall_def)

lemma timersOwned_client_dial [simp]: "timersOwned (client_dial tok a dest opts w) = timersOwned w"
  by (rule timersOwned_cong; simp add: client_dial_def logCall_def Let_def)

lemma timersOwned_client_listParticipants [simp]: "timersOwned (client_listParticipants tok a w) = timersOwned w"
  by (rule timersOwned_cong; simp add: client_listParticipants_def logCall_def Let_def)

lemma timersOwned_start_catch [simp]: "timersOwned (start_catch e w) = timersOwned w"
  by (rule timersOwned_cong; simp add: start_catch_def setPhase_def emit_def)

lemma timersOwned_start_dialed [simp]: "timersOwned (start_dialed created w) = timersOwned w"
  by (rule timersOwned_cong; simp add: start_dialed_def setPhase_def emit_def)

lemma timersOwned_retireLeg0_resume [simp]: "timersOwned (retireLeg0_resume b w) = timersOwned w"
  by (rule timersOwned_cong; simp add: retireLeg0_resume_def setPhase_def emit_def Let_def)

lemma timersOwned_dormancyGrace [simp]: "timersOwned (dormancyGrace cc now w) = timersOwned w"
  by (rule timersOwned_cong; simp add: dormancyGrace_def Let_def)

lemma timersOwned_minTwoArm [simp]: "timersOwned (minTwoArm cc w) = timersOwned w"
  by (rule timersOwned_cong; simp add: minTwoArm_def)

lemma timersOwned_activeTransition [simp]: "timersOwned (activeTransition r p w) = timersOwned w"
  by (rule timersOwned_cong; simp add: activeTransition_def setPhase_def emit_def)

lemma timersOwned_fourLegsRule [simp]: "timersOwned (fourLegsRule r p now w) = timersOwned w"
  by (rule timersOwned_cong; simp add: fourLegsRule_def split: option.splits)

lemma timersOwned_trackFourLegs [simp]: "timersOwned (trackFourLegs r p now w) = timersOwned w"
  by (rule timersOwned_cong; simp add: trackFourLegs_def)

lemma timersOwned_refreshFromServer [simp]: "timersOwned (refreshFromServer w) = timersOwned w"
  by (rule timersOwned_cong; simp add: refreshFromServer_def spawn_def client_listParticipants_def logCall_def Let_def)

lemma timersOwned_tick_resume [simp]: "timersOwned (tick_resume g tok w) = timersOwned w"
  by (rule timersOwned_cong; simp add: tick_resume_def option.map_comp comp_def)

lemma timersOwned_I:
  "nextTimerId w \<noteq> 0 \<Longrightarrow> (\<And>t. t \<in> set (timers w) \<Longrightarrow> owned w t) \<Longrightarrow> timersOwned w"
  by (simp add: timersOwned_def list_all_iff)

lemma timersOwned_D:
  "timersOwned w \<Longrightarrow> nextTimerId w \<noteq> 0"
  "timersOwned w \<Longrightarrow> t \<in> set (timers w) \<Longrightarrow> owned w t"
  by (simp_all add: timersOwned_def list_all_iff)

lemma sse_connect_state:
  "timers (sse_connect a tok w) =
     timers (sse_close w) @ [Timer (nextTimerId w) Heartbeat 2000,
                             Timer (Suc (nextTimerId w)) DormancyWatchdog 5000]"
  "tickTimer (sse_connect a tok w) = Some (nextTimerId w)"
  "dormancyTimer (sse_connect a tok w) = Some (Suc (nextTimerId w))"
  "reconnectTimeout (sse_connect a tok w) = None"
  "nextTimerId (sse_connect a tok w) = Suc (Suc (nextTimerId w))"
  "keepAlive (sse_connect a tok w) = keepAlive w"
  by (simp_all add: sse_connect_def Let_def setTimer_def)

lemma timersOwned_sse_connect:
  assumes "timersOwned w"
  shows "timersOwned (sse_connect a tok w)"
proof (rule timersOwned_I)
  show "nextTimerId (sse_connect a tok w) \<noteq> 0" by (simp add: sse_connect_state)
next
  fix t assume "t \<in> set (timers (sse_connect a tok w))"
  then consider "t \<in> set (timers (sse_close w))"
    | "t = Timer (nextTimerId w) Heartbeat 2000"
    | "t = Timer (Suc (nextTimerId w)) DormancyWatchdog 5000"
    by (auto simp: sse_connect_state)
  then show "owned (sse_connect a tok w) t"
  proof cases
    case 1
    with sse_close_no_transport[OF assms]
    have n: "\<not> isTransportKind (timerKind t)" by (simp add: list_all_iff)
    from 1 timersOwned_sse_close[OF assms] have "owned (sse_close w) t"
      by (rule timersOwned_D(2)[rotated])
    then show ?thesis
      using owned_other[OF n, of "sse_connect a tok w" "sse_close w"]
      by (simp add: sse_connect_state)
  next
    case 2
    then show ?thesis by (simp add: owned_def sse_connect_state)
  next
    case 3
    then show ?thesis by (simp add: owned_def sse_connect_state)
  qed
qed

lemma timersOwned_internalReconnect:
  assumes "timersOwned w"
  shows "timersOwned (internalReconnect d j w)"
proof (cases "\<not> truthy (sse_alias w) \<or> \<not> truthy (sse_token w)")
  case True
  with assms show ?thesis by (simp add: internalReconnect_def)
next
  case False
  let ?n = "Timer (nextTimerId w) Reconnect (min (max d 500) 10000 + j)"
  let ?w' = "internalReconnect d j w"
  have st: "timers ?w' = timers (clearHandle (reconnectTimeout w) w) @ [?n]"
    "tickTimer ?w' = tickTimer w" "dormancyTimer ?w' = dormancyTimer w"
    "reconnectTimeout ?w' = Some (nextTimerId w)" "nextTimerId ?w' = Suc (nextTimerId w)"
    "keepAlive ?w' = keepAlive w"
    using False by (simp_all add: internalReconnect_def Let_def setTimer_def)
  show ?thesis
  proof (rule timersOwned_I)
    show "nextTimerId ?w' \<noteq> 0" by (simp add: st)
  next
    fix t assume "t \<in> set (timers ?w')"
    then consider "t \<in> set (timers (clearHandle (reconnectTimeout w) w))" | "t = ?n"
      by (auto simp: st)
    then show "owned ?w' t"
    proof cases
      case 1
      then have m: "t \<in> set (timers w)" and c: "reconnectTimeout w \<noteq> Some (timerId t)"
        by (cases "reconnectTimeout w"; auto simp: clearTimer_def)+
      from timersOwned_D(2)[OF assms m] c show ?thesis
        by (cases "timerKind t") (auto simp: owned_def st)
    next
      case 2
      then show ?thesis by (simp add: owned_def st)
    qed
  qed
qed

lemma timersOwned_dormancyFires: "timersOwned w \<Longrightarrow> timersOwned (dormancyFires j w)"
  by (simp add: dormancyFires_def timersOwned_internalReconnect)

lemma stopKeepAlive_timers:
  "timers (stopKeepAlive w) =
     filter (\<lambda>t. \<not> (\<exists>k. keepAlive w = Some k \<and> ka_timer k \<noteq> 0 \<and> timerId t = ka_timer k))
       (timers w)"
  by (cases "keepAlive w") (auto simp: stopKeepAlive_def clearTimer_def intro: filter_cong)

lemma stopKeepAlive_state [simp]:
  "tickTimer (stopKeepAlive w) = tickTimer w" "dormancyTimer (stopKeepAlive w) = dormancyTimer w"
  "reconnectTimeout (stopKeepAlive w) = reconnectTimeout w"
  "nextTimerId (stopKeepAlive w) = nextTimerId w"
  "keepAliveClosures (stopKeepAlive w) = keepAliveClosures w"
  by (simp_all add: stopKeepAlive_def clearTimer_def split: option.splits)

lemma stopKeepAlive_no_renewal:
  assumes "timersOwned w"
  shows "list_all (\<lambda>t. \<not> isRenewal (timerKind t)) (timers (stopKeepAlive w))"
proof -
  have "\<not> isRenewal (timerKind t)" if "t \<in> set (timers (stopKeepAlive w))" for t
  proof
    assume r: "isRenewal (timerKind t)"
    from that have m: "t \<in> set (timers w)" by (simp add: stopKeepAlive_timers)
    from timersOwned_D(2)[OF assms m] r
    have "\<exists>k. keepAlive w = Some k \<and> ka_timer k \<noteq> 0 \<and> timerId t = ka_timer k"
      by (cases "timerKind t"; cases "keepAlive w") (auto simp: owned_def)
    with that show False by (auto simp: stopKeepAlive_timers)
  qed
  then show ?thesis by (simp add: list_all_iff)
qed

lemma timersOwned_stopKeepAlive:
  assumes "timersOwned w"
  shows "timersOwned (stopKeepAlive w)"
proof (rule timersOwned_I)
  show "nextTimerId (stopKeepAlive w) \<noteq> 0" using timersOwned_D(1)[OF assms] by simp
next
  fix t assume a: "t \<in> set (timers (stopKeepAlive w))"
  with stopKeepAlive_no_renewal[OF assms] have n: "\<not> isRenewal (timerKind t)"
    by (simp add: list_all_iff)
  from a have "t \<in> set (timers w)" by (simp add: stopKeepAlive_timers)
  from timersOwned_D(2)[OF assms this] n show "owned (stopKeepAlive w) t"
    by (cases "timerKind t") (auto simp: owned_def)
qed

lemma timersOwned_startKeepAlive:
  assumes "timersOwned w"
  shows "timersOwned (startKeepAlive tok a w)"
proof -
  let ?g = "length (keepAliveClosures w)"
  let ?n = "Timer (nextTimerId w) (Renewal ?g) 55000"
  let ?w' = "startKeepAlive tok a w"
  have st: "timers ?w' = timers (stopKeepAlive w) @ [?n]"
    "tickTimer ?w' = tickTimer w" "dormancyTimer ?w' = dormancyTimer w"
    "reconnectTimeout ?w' = reconnectTimeout w" "nextTimerId ?w' = Suc (nextTimerId w)"
    "keepAlive ?w' = Some \<lparr>ka_timer = nextTimerId w, ka_token = tok, ka_alias = a\<rparr>"
    by (simp_all add: startKeepAlive_def Let_def setTimer_def tick_def spawn_def logCall_def)
  show ?thesis
  proof (rule timersOwned_I)
    show "nextTimerId ?w' \<noteq> 0" by (simp add: st)
  next
    fix t assume "t \<in> set (timers ?w')"
    then consider "t \<in> set (timers (stopKeepAlive w))" | "t = ?n" by (auto simp: st)
    then show "owned ?w' t"
    proof cases
      case 1
      with stopKeepAlive_no_renewal[OF assms] have n: "\<not> isRenewal (timerKind t)"
        by (simp add: list_all_iff)
      from timersOwned_D(2)[OF timersOwned_stopKeepAlive[OF assms] 1] n show ?thesis
        by (cases "timerKind t") (auto simp: owned_def st)
    next
      case 2
      with timersOwned_D(1)[OF assms] show ?thesis by (simp add: owned_def st)
    qed
  qed
qed

lemma timersOwned_client_end:
  "timersOwned w \<Longrightarrow> timersOwned (client_disconnectAll tok a w)"
  "timersOwned w \<Longrightarrow> timersOwned (client_releaseToken tok a w)"
  by (simp_all add: client_disconnectAll_def client_releaseToken_def Let_def
        timersOwned_stopKeepAlive)

lemma timersOwned_stop: "timersOwned w \<Longrightarrow> timersOwned (stop w)"
  by (simp add: stop_def timersOwned_sse_close)

lemma timersOwned_hardEnd_finally: "timersOwned w \<Longrightarrow> timersOwned (hardEnd_finally w)"
  by (simp add: hardEnd_finally_def timersOwned_stop)

lemma timersOwned_hardEnd: "timersOwned w \<Longrightarrow> timersOwned (hardEnd w)"
  by (simp add: hardEnd_def timersOwned_hardEnd_finally timersOwned_client_end)

lemma timersOwned_leg3Failed:
  assumes "timersOwned w"
  shows "timersOwned (leg3Failed le w)"
proof -
  have "timersOwned ((setTimer Leg3Retry 2500 v)\<lparr>pendingLeg3Retry := x\<rparr>)"
    if "timersOwned v" for v x
    using that by (auto simp: timersOwned_def setTimer_def owned_def list_all_iff
        split: timerKind.splits)
  with assms show ?thesis by (simp add: leg3Failed_def Let_def)
qed

lemma timersOwned_dialLoop: "timersOwned w \<Longrightarrow> timersOwned (dialLoop p cs le w)"
  by (cases cs) (simp_all add: timersOwned_leg3Failed)

lemma timersOwned_tryDial: "timersOwned w \<Longrightarrow> timersOwned (tryDialLeg3WithCandidates p w)"
  by (simp add: tryDialLeg3WithCandidates_def timersOwned_dialLoop)

lemma timersOwned_ensureLeg3: "timersOwned w \<Longrightarrow> timersOwned (ensureLeg3IfAgentReady w)"
  by (simp add: ensureLeg3IfAgentReady_def timersOwned_tryDial)

lemma timersOwned_leg3RetryFires: "timersOwned w \<Longrightarrow> timersOwned (leg3RetryFires w)"
  by (simp add: leg3RetryFires_def Let_def timersOwned_tryDial)

lemma timersOwned_reconnectFires:
  assumes "timersOwned w" "reconnectTimeout w = Some i"
  shows "timersOwned (reconnectFires (clearTimer i w))"
proof -
  let ?v = "(clearTimer i w)\<lparr>reconnectTimeout := None\<rparr>"
  have "timersOwned ?v"
  proof (rule timersOwned_I)
    show "nextTimerId ?v \<noteq> 0" using timersOwned_D(1)[OF assms(1)] by (simp add: clearTimer_def)
  next
    fix t assume "t \<in> set (timers ?v)"
    then have m: "t \<in> set (timers w)" and c: "timerId t \<noteq> i" by (auto simp: clearTimer_def)
    from timersOwned_D(2)[OF assms(1) m] c assms(2) show "owned ?v t"
      by (cases "timerKind t") (auto simp: owned_def clearTimer_def)
  qed
  then show ?thesis
    by (simp add: reconnectFires_def Let_def timersOwned_sse_connect split: option.splits)
qed

lemma timersOwned_start_gotToken: "timersOwned w \<Longrightarrow> timersOwned (start_gotToken p tok w)"
  by (simp add: start_gotToken_def Let_def timersOwned_sse_connect timersOwned_startKeepAlive)

lemma timersOwned_start: "timersOwned w \<Longrightarrow> timersOwned (start p w)"
  by (simp add: start_def Let_def)

lemma timersOwned_retireLeg0: "timersOwned w \<Longrightarrow> timersOwned (retireLeg0 w)"
  by (simp add: retireLeg0_def Let_def timersOwned_sse_close timersOwned_client_end)

lemma timersOwned_idleTermination: "timersOwned w \<Longrightarrow> timersOwned (idleTermination cc now w)"
  by (simp add: idleTermination_def Let_def timersOwned_stop)

lemma timersOwned_agentReadiness: "timersOwned w \<Longrightarrow> timersOwned (agentReadiness r p w)"
  by (simp add: agentReadiness_def timersOwned_ensureLeg3)

lemma timersOwned_legChecks: "timersOwned w \<Longrightarrow> timersOwned (legChecks r p now w)"
  by (simp add: legChecks_def Let_def timersOwned_agentReadiness timersOwned_hardEnd
      timersOwned_retireLeg0 timersOwned_idleTermination)

lemma timersOwned_onRoster: "timersOwned w \<Longrightarrow> timersOwned (onRoster r p now w)"
  by (simp add: onRoster_def Let_def timersOwned_legChecks timersOwned_hardEnd)

lemma timersOwned_ingest:
  "timersOwned w \<Longrightarrow> timersOwned (ingestParticipantsSnapshot raw now w)"
  by (simp add: ingestParticipantsSnapshot_def timersOwned_onRoster split: option.splits)

lemma timersOwned_resume: "timersOwned w \<Longrightarrow> timersOwned (resume t r now w)"
  by (cases "(t, r, now, w)" rule: resume.cases)
     (simp_all add: timersOwned_start_gotToken timersOwned_dialLoop timersOwned_hardEnd_finally
        refreshFromServer_resume_def timersOwned_ensureLeg3 timersOwned_ingest)

lemma timersOwned_settle: "timersOwned w \<Longrightarrow> timersOwned (settle i r now w)"
  by (simp add: settle_def timersOwned_resume)

lemma timersOwned_timerFires:
  assumes "timersOwned w"
  shows "timersOwned (timerFires i j w)"
proof (cases "find (\<lambda>t. timerId t = i) (timers w)")
  case None
  with assms show ?thesis by (simp add: timerFires_def)
next
  case (Some t)
  then have m: "t \<in> set (timers w)" and i: "timerId t = i"
    by (auto simp: find_Some_iff)
  note o = timersOwned_D(2)[OF assms m]
  show ?thesis
  proof (cases "timerKind t")
    case Reconnect
    with o i have "reconnectTimeout w = Some i" by (simp add: owned_def)
    from timersOwned_reconnectFires[OF assms this] Some Reconnect show ?thesis
      by (simp add: timerFires_def)
  qed (use assms Some in \<open>simp_all add: timerFires_def timersOwned_dormancyFires
        timersOwned_leg3RetryFires timersOwned_clearTimer\<close>)
qed

lemma timersOwned_step: "timersOwned w \<Longrightarrow> timersOwned (step now a w)"
  by (cases a)
     (simp_all add: timersOwned_start timersOwned_stop timersOwned_hardEnd
        timersOwned_ensureLeg3 timersOwned_ingest sseSnapshot_def timersOwned_onRoster
        timersOwned_timerFires timersOwned_settle split: option.splits)

lemma timersOwned_run: "timersOwned w \<Longrightarrow> timersOwned (run acts w)"
proof (induction acts arbitrary: w)
  case Nil
  then show ?case by simp
next
  case (Cons x acts)
  obtain now a where "x = (now, a)" by (cases x)
  with Cons show ?case by (simp add: timersOwned_step)
qed

lemma sse_close_subset: "set (timers (sse_close w)) \<subseteq> set (timers w)"
  by (auto simp: sse_close_timers)

text \<open>No handle holds the identifier of a timer of another kind.\<close>

lemma timersApart_cong:
  "timers w' = timers w \<Longrightarrow> nextTimerId w' = nextTimerId w \<Longrightarrow>
   tickTimer w' = tickTimer w \<Longrightarrow> dormancyTimer w' = dormancyTimer w \<Longrightarrow>
   reconnectTimeout w' = reconnectTimeout w \<Longrightarrow>
   keepAliveTimer w' = keepAliveTimer w \<Longrightarrow>
   timersApart w' = timersApart w"
  by (simp add: timersApart_def apart_def)

lemma timersApart_new: "timersApart newOrchestrator"
  by (simp add: timersApart_def newOrchestrator_def keepAliveTimer_def)

lemma apartI:
  "(tickTimer w = Some (timerId t) \<Longrightarrow> timerKind t = Heartbeat) \<Longrightarrow>
   (dormancyTimer w = Some (timerId t) \<Longrightarrow> timerKind t = DormancyWatchdog) \<Longrightarrow>
   (reconnectTimeout w = Some (timerId t) \<Longrightarrow> timerKind t = Reconnect) \<Longrightarrow>
   (keepAliveTimer w = Some (timerId t) \<Longrightarrow> isRenewal (timerKind t)) \<Longrightarrow>
   apart w t"
  by (simp add: apart_def)

lemma apartD:
  "apart w t \<Longrightarrow> tickTimer w = Some (timerId t) \<Longrightarrow> timerKind t = Heartbeat"
  "apart w t \<Longrightarrow> dormancyTimer w = Some (timerId t) \<Longrightarrow> timerKind t = DormancyWatchdog"
  "apart w t \<Longrightarrow> reconnectTimeout w = Some (timerId t) \<Longrightarrow> timerKind t = Reconnect"
  "apart w t \<Longrightarrow> keepAliveTimer w = Some (timerId t) \<Longrightarrow> isRenewal (timerKind t)"
  by (simp_all add: apart_def)

lemma timersApart_I:
  "(\<And>t. t \<in> set (timers w) \<Longrightarrow> timerId t < nextTimerId w) \<Longrightarrow>
   (\<And>t. t \<in> set (timers w) \<Longrightarrow> apart w t) \<Longrightarrow>
   below (tickTimer w) (nextTimerId w) \<Longrightarrow> below (dormancyTimer w) (nextTimerId w) \<Longrightarrow>
   below (reconnectTimeout w) (nextTimerId w) \<Longrightarrow>
   below (keepAliveTimer w) (nextTimerId w) \<Longrightarrow> timersApart w"
  by (simp add: timersApart_def list_all_iff)

lemma timersApart_D:
  "timersApart w \<Longrightarrow> t \<in> set (timers w) \<Longrightarrow> timerId t < nextTimerId w"
  "timersApart w \<Longrightarrow> t \<in> set (timers w) \<Longrightarrow> apart w t"
  "timersApart w \<Longrightarrow> below (tickTimer w) (nextTimerId w)"
  "timersApart w \<Longrightarrow> below (dormancyTimer w) (nextTimerId w)"
  "timersApart w \<Longrightarrow> below (reconnectTimeout w) (nextTimerId w)"
  "timersApart w \<Longrightarrow> below (keepAliveTimer w) (nextTimerId w)"
  by (simp_all add: timersApart_def list_all_iff)

lemma below_keep: "below h n \<Longrightarrow> h' = None \<or> h' = h \<Longrightarrow> n \<le> n' \<Longrightarrow> below h' n'"
  by (cases h; cases h') auto

lemma below_fresh:
  "below h n \<Longrightarrow> h' = None \<or> h' = h \<or> (h' = Some n \<and> P) \<Longrightarrow> below h' (Suc n)"
  by (cases h; cases h') auto

lemma below_neq: "below h n \<Longrightarrow> h \<noteq> Some n"
  by (cases h) auto

lemma timersApart_shrink:
  assumes "timersApart w" "set (timers w') \<subseteq> set (timers w)" "nextTimerId w' = nextTimerId w"
    "tickTimer w' = None \<or> tickTimer w' = tickTimer w"
    "dormancyTimer w' = None \<or> dormancyTimer w' = dormancyTimer w"
    "reconnectTimeout w' = None \<or> reconnectTimeout w' = reconnectTimeout w"
    "keepAliveTimer w' = None \<or>
     keepAliveTimer w' = keepAliveTimer w"
  shows "timersApart w'"
proof (rule timersApart_I)
  fix t assume "t \<in> set (timers w')"
  with assms(2) have m: "t \<in> set (timers w)" by auto
  from timersApart_D(1)[OF assms(1) m] assms(3) show "timerId t < nextTimerId w'" by simp
  note a = timersApart_D(2)[OF assms(1) m]
  show "apart w' t"
  proof (rule apartI)
    assume "tickTimer w' = Some (timerId t)"
    with assms(4) have "tickTimer w = Some (timerId t)" by auto
    then show "timerKind t = Heartbeat" by (rule apartD(1)[OF a])
  next
    assume "dormancyTimer w' = Some (timerId t)"
    with assms(5) have "dormancyTimer w = Some (timerId t)" by auto
    then show "timerKind t = DormancyWatchdog" by (rule apartD(2)[OF a])
  next
    assume "reconnectTimeout w' = Some (timerId t)"
    with assms(6) have "reconnectTimeout w = Some (timerId t)" by auto
    then show "timerKind t = Reconnect" by (rule apartD(3)[OF a])
  next
    assume "keepAliveTimer w' = Some (timerId t)"
    with assms(7) have "keepAliveTimer w = Some (timerId t)" by auto
    then show "isRenewal (timerKind t)" by (rule apartD(4)[OF a])
  qed
next
  show "below (tickTimer w') (nextTimerId w')"
    using below_keep[OF timersApart_D(3)[OF assms(1)] assms(4)] assms(3) by simp
  show "below (dormancyTimer w') (nextTimerId w')"
    using below_keep[OF timersApart_D(4)[OF assms(1)] assms(5)] assms(3) by simp
  show "below (reconnectTimeout w') (nextTimerId w')"
    using below_keep[OF timersApart_D(5)[OF assms(1)] assms(6)] assms(3) by simp
  show "below (keepAliveTimer w') (nextTimerId w')"
    using below_keep[OF timersApart_D(6)[OF assms(1)] assms(7)] assms(3) by simp
qed

lemma timersApart_alloc:
  assumes "timersApart w"
    "set (timers w') \<subseteq> insert (Timer (nextTimerId w) k ms) (set (timers w))"
    "nextTimerId w' = Suc (nextTimerId w)"
    "tickTimer w' = None \<or> tickTimer w' = tickTimer w \<or>
       (tickTimer w' = Some (nextTimerId w) \<and> k = Heartbeat)"
    "dormancyTimer w' = None \<or> dormancyTimer w' = dormancyTimer w \<or>
       (dormancyTimer w' = Some (nextTimerId w) \<and> k = DormancyWatchdog)"
    "reconnectTimeout w' = None \<or> reconnectTimeout w' = reconnectTimeout w \<or>
       (reconnectTimeout w' = Some (nextTimerId w) \<and> k = Reconnect)"
    "keepAliveTimer w' = None \<or>
     keepAliveTimer w' = keepAliveTimer w \<or>
       (keepAliveTimer w' = Some (nextTimerId w) \<and> isRenewal k)"
  shows "timersApart w'"
proof (rule timersApart_I)
  note b = timersApart_D(3-6)[OF assms(1)]
  fix t assume "t \<in> set (timers w')"
  with assms(2) consider (old) "t \<in> set (timers w)" | (new) "t = Timer (nextTimerId w) k ms"
    by auto
  then have i: "timerId t < nextTimerId w \<and> apart w t \<or> t = Timer (nextTimerId w) k ms"
    using timersApart_D(1,2)[OF assms(1)] by cases auto
  then show "timerId t < nextTimerId w'" using assms(3) by auto
  show "apart w' t"
  proof (rule apartI)
    assume h: "tickTimer w' = Some (timerId t)"
    from i show "timerKind t = Heartbeat"
    proof
      assume o: "timerId t < nextTimerId w \<and> apart w t"
      with h assms(4) have "tickTimer w = Some (timerId t)" by auto
      with o show ?thesis using apartD(1)[of w t] by blast
    next
      assume n: "t = Timer (nextTimerId w) k ms"
      with h assms(4) below_neq[OF b(1)] show ?thesis by auto
    qed
  next
    assume h: "dormancyTimer w' = Some (timerId t)"
    from i show "timerKind t = DormancyWatchdog"
    proof
      assume o: "timerId t < nextTimerId w \<and> apart w t"
      with h assms(5) have "dormancyTimer w = Some (timerId t)" by auto
      with o show ?thesis using apartD(2)[of w t] by blast
    next
      assume n: "t = Timer (nextTimerId w) k ms"
      with h assms(5) below_neq[OF b(2)] show ?thesis by auto
    qed
  next
    assume h: "reconnectTimeout w' = Some (timerId t)"
    from i show "timerKind t = Reconnect"
    proof
      assume o: "timerId t < nextTimerId w \<and> apart w t"
      with h assms(6) have "reconnectTimeout w = Some (timerId t)" by auto
      with o show ?thesis using apartD(3)[of w t] by blast
    next
      assume n: "t = Timer (nextTimerId w) k ms"
      with h assms(6) below_neq[OF b(3)] show ?thesis by auto
    qed
  next
    assume h: "keepAliveTimer w' = Some (timerId t)"
    from i show "isRenewal (timerKind t)"
    proof
      assume o: "timerId t < nextTimerId w \<and> apart w t"
      with h assms(7) have "keepAliveTimer w = Some (timerId t)" by auto
      with o show ?thesis using apartD(4)[of w t] by blast
    next
      assume n: "t = Timer (nextTimerId w) k ms"
      with h assms(7) below_neq[OF b(4)] show ?thesis by auto
    qed
  qed
next
  note b = timersApart_D(3-6)[OF assms(1)]
  show "below (tickTimer w') (nextTimerId w')"
    using below_fresh[OF b(1) assms(4)] assms(3) by simp
  show "below (dormancyTimer w') (nextTimerId w')"
    using below_fresh[OF b(2) assms(5)] assms(3) by simp
  show "below (reconnectTimeout w') (nextTimerId w')"
    using below_fresh[OF b(3) assms(6)] assms(3) by simp
  show "below (keepAliveTimer w') (nextTimerId w')"
    using below_fresh[OF b(4) assms(7)] assms(3) by simp
qed


lemma timersApart_update [simp]:
  "timersApart (w\<lparr>token := x0\<rparr>) = timersApart w"
  "timersApart (w\<lparr>currentAlias := x1\<rparr>) = timersApart w"
  "timersApart (w\<lparr>phase := x2\<rparr>) = timersApart w"
  "timersApart (w\<lparr>lastStartParams := x3\<rparr>) = timersApart w"
  "timersApart (w\<lparr>agentReady := x4\<rparr>) = timersApart w"
  "timersApart (w\<lparr>leg3Dialed := x5\<rparr>) = timersApart w"
  "timersApart (w\<lparr>stopped := x6\<rparr>) = timersApart w"
  "timersApart (w\<lparr>inactiveSince := x7\<rparr>) = timersApart w"
  "timersApart (w\<lparr>minTwoArmed := x8\<rparr>) = timersApart w"
  "timersApart (w\<lparr>belowTwoSince := x9\<rparr>) = timersApart w"
  "timersApart (w\<lparr>sseGraceUntil := x10\<rparr>) = timersApart w"
  "timersApart (w\<lparr>lastConnectedCount := x11\<rparr>) = timersApart w"
  "timersApart (w\<lparr>fullyEngagedSince := x12\<rparr>) = timersApart w"
  "timersApart (w\<lparr>killOnAgentDropArmed := x13\<rparr>) = timersApart w"
  "timersApart (w\<lparr>pendingLeg3Retry := x14\<rparr>) = timersApart w"
  "timersApart (w\<lparr>leg0Retired := x15\<rparr>) = timersApart w"
  "timersApart (w\<lparr>fourLegsSince := x16\<rparr>) = timersApart w"
  "timersApart (w\<lparr>keepAliveClosures := x17\<rparr>) = timersApart w"
  "timersApart (w\<lparr>es := x18\<rparr>) = timersApart w"
  "timersApart (w\<lparr>sse_alias := x19\<rparr>) = timersApart w"
  "timersApart (w\<lparr>sse_token := x20\<rparr>) = timersApart w"
  "timersApart (w\<lparr>backoffMs := x21\<rparr>) = timersApart w"
  "timersApart (w\<lparr>events := x22\<rparr>) = timersApart w"
  "timersApart (w\<lparr>calls := x23\<rparr>) = timersApart w"
  "timersApart (w\<lparr>tasks := x24\<rparr>) = timersApart w"
  by (rule timersApart_cong; simp add: keepAliveTimer_def)+

lemma timersApart_emit [simp]: "timersApart (emit ev w) = timersApart w"
  by (rule timersApart_cong; simp add: keepAliveTimer_def emit_def)

lemma timersApart_setPhase [simp]: "timersApart (setPhase ph w) = timersApart w"
  by (rule timersApart_cong; simp add: keepAliveTimer_def setPhase_def emit_def)

lemma timersApart_logCall [simp]: "timersApart (logCall c w) = timersApart w"
  by (rule timersApart_cong; simp add: keepAliveTimer_def logCall_def)

lemma timersApart_spawn [simp]: "timersApart (spawn tk w) = timersApart w"
  by (rule timersApart_cong; simp add: keepAliveTimer_def spawn_def)

lemma timersApart_tick [simp]: "timersApart (tick g w) = timersApart w"
  by (rule timersApart_cong; simp add: keepAliveTimer_def tick_def spawn_def logCall_def)

lemma timersApart_client_requestToken [simp]: "timersApart (client_requestToken a dn pn w) = timersApart w"
  by (rule timersApart_cong; simp add: keepAliveTimer_def client_requestToken_def logCall_def)

lemma timersApart_client_dial [simp]: "timersApart (client_dial tok a dest opts w) = timersApart w"
  by (rule timersApart_cong; simp add: keepAliveTimer_def client_dial_def logCall_def Let_def)

lemma timersApart_client_listParticipants [simp]: "timersApart (client_listParticipants tok a w) = timersApart w"
  by (rule timersApart_cong; simp add: keepAliveTimer_def client_listParticipants_def logCall_def Let_def)

lemma timersApart_start_catch [simp]: "timersApart (start_catch e w) = timersApart w"
  by (rule timersApart_cong; simp add: keepAliveTimer_def start_catch_def setPhase_def emit_def)

lemma timersApart_start_dialed [simp]: "timersApart (start_dialed created w) = timersApart w"
  by (rule timersApart_cong; simp add: keepAliveTimer_def start_dialed_def setPhase_def emit_def)

lemma timersApart_retireLeg0_resume [simp]: "timersApart (retireLeg0_resume b w) = timersApart w"
  by (rule timersApart_cong; simp add: keepAliveTimer_def retireLeg0_resume_def setPhase_def emit_def Let_def)

lemma timersApart_dormancyGrace [simp]: "timersApart (dormancyGrace cc now w) = timersApart w"
  by (rule timersApart_cong; simp add: keepAliveTimer_def dormancyGrace_def Let_def)

lemma timersApart_minTwoArm [simp]: "timersApart (minTwoArm cc w) = timersApart w"
  by (rule timersApart_cong; simp add: keepAliveTimer_def minTwoArm_def)

lemma timersApart_activeTransition [simp]: "timersApart (activeTransition r p w) = timersApart w"
  by (rule timersApart_cong; simp add: keepAliveTimer_def activeTransition_def setPhase_def emit_def)

lemma timersApart_fourLegsRule [simp]: "timersApart (fourLegsRule r p now w) = timersApart w"
  by (rule timersApart_cong; simp add: keepAliveTimer_def fourLegsRule_def split: option.splits)

lemma timersApart_trackFourLegs [simp]: "timersApart (trackFourLegs r p now w) = timersApart w"
  by (rule timersApart_cong; simp add: keepAliveTimer_def trackFourLegs_def)

lemma timersApart_refreshFromServer [simp]: "timersApart (refreshFromServer w) = timersApart w"
  by (rule timersApart_cong; simp add: keepAliveTimer_def refreshFromServer_def spawn_def client_listParticipants_def logCall_def Let_def)

lemma timersApart_tick_resume [simp]: "timersApart (tick_resume g tok w) = timersApart w"
  by (rule timersApart_cong; simp add: keepAliveTimer_def tick_resume_def option.map_comp comp_def)

lemma timersApart_clearTimer: "timersApart w \<Longrightarrow> timersApart (clearTimer i w)"
  by (erule timersApart_shrink) (auto simp: clearTimer_def keepAliveTimer_def)

lemma timersApart_clearHandle: "timersApart w \<Longrightarrow> timersApart (clearHandle h w)"
  by (cases h) (simp_all add: timersApart_clearTimer)

lemma timersApart_sse_close: "timersApart w \<Longrightarrow> timersApart (sse_close w)"
  by (erule timersApart_shrink)
     (simp_all add: sse_close_subset keepAliveTimer_def)

lemma timersApart_sse_connect:
  assumes "timersApart w"
  shows "timersApart (sse_connect a tok w)"
proof -
  let ?c = "sse_close w"
  let ?v = "(setTimer Heartbeat 2000 ?c)\<lparr>tickTimer := Some (nextTimerId ?c)\<rparr>"
  have "timersApart ?v"
    by (rule timersApart_alloc[OF timersApart_sse_close[OF assms], where k=Heartbeat and ms=2000])
       (simp_all add: setTimer_def keepAliveTimer_def)
  then show ?thesis
    by (rule timersApart_alloc[where k=DormancyWatchdog and ms=5000])
       (auto simp: sse_connect_state setTimer_def keepAliveTimer_def)
qed

lemma timersApart_internalReconnect:
  assumes "timersApart w"
  shows "timersApart (internalReconnect d j w)"
proof (cases "\<not> truthy (sse_alias w) \<or> \<not> truthy (sse_token w)")
  case True
  with assms show ?thesis by (simp add: internalReconnect_def)
next
  case False
  let ?n = "Timer (nextTimerId w) Reconnect (min (max d 500) 10000 + j)"
  let ?w' = "internalReconnect d j w"
  have st: "timers ?w' = timers (clearHandle (reconnectTimeout w) w) @ [?n]"
    "tickTimer ?w' = tickTimer w" "dormancyTimer ?w' = dormancyTimer w"
    "reconnectTimeout ?w' = Some (nextTimerId w)" "nextTimerId ?w' = Suc (nextTimerId w)"
    "keepAlive ?w' = keepAlive w"
    using False by (simp_all add: internalReconnect_def Let_def setTimer_def)
  have "set (timers (clearHandle (reconnectTimeout w) w)) \<subseteq> set (timers w)"
    by (cases "reconnectTimeout w") (auto simp: clearTimer_def)
  then have "set (timers ?w') \<subseteq> insert ?n (set (timers w))" by (auto simp: st)
  with assms show ?thesis
    by (rule timersApart_alloc) (simp_all add: st keepAliveTimer_def)
qed

lemma timersApart_dormancyFires: "timersApart w \<Longrightarrow> timersApart (dormancyFires j w)"
  by (simp add: dormancyFires_def timersApart_internalReconnect)

lemma stopKeepAlive_subset: "set (timers (stopKeepAlive w)) \<subseteq> set (timers w)"
  by (auto simp: stopKeepAlive_timers)

lemma stopKeepAlive_cleared: "keepAlive (stopKeepAlive w) = None"
  by (simp add: stopKeepAlive_def)

lemma timersApart_stopKeepAlive: "timersApart w \<Longrightarrow> timersApart (stopKeepAlive w)"
  by (erule timersApart_shrink)
     (simp_all add: stopKeepAlive_subset stopKeepAlive_cleared keepAliveTimer_def)

lemma startKeepAlive_state:
  "timers (startKeepAlive tok a w) =
     timers (stopKeepAlive w) @ [Timer (nextTimerId w) (Renewal (length (keepAliveClosures w))) 55000]"
  "tickTimer (startKeepAlive tok a w) = tickTimer w"
  "dormancyTimer (startKeepAlive tok a w) = dormancyTimer w"
  "reconnectTimeout (startKeepAlive tok a w) = reconnectTimeout w"
  "nextTimerId (startKeepAlive tok a w) = Suc (nextTimerId w)"
  "keepAlive (startKeepAlive tok a w)
     = Some \<lparr>ka_timer = nextTimerId w, ka_token = tok, ka_alias = a\<rparr>"
  by (simp_all add: startKeepAlive_def Let_def setTimer_def tick_def spawn_def logCall_def)

lemma timersApart_startKeepAlive:
  assumes "timersApart w"
  shows "timersApart (startKeepAlive tok a w)"
proof -
  let ?n = "Timer (nextTimerId w) (Renewal (length (keepAliveClosures w))) 55000"
  from stopKeepAlive_subset[of w]
  have "set (timers (startKeepAlive tok a w)) \<subseteq> insert ?n (set (timers w))"
    by (auto simp: startKeepAlive_state)
  with assms show ?thesis
    by (rule timersApart_alloc) (simp_all add: startKeepAlive_state keepAliveTimer_def)
qed

lemma timersApart_client_end:
  "timersApart w \<Longrightarrow> timersApart (client_disconnectAll tok a w)"
  "timersApart w \<Longrightarrow> timersApart (client_releaseToken tok a w)"
  by (simp_all add: client_disconnectAll_def client_releaseToken_def Let_def
        timersApart_stopKeepAlive)

lemma timersApart_stop: "timersApart w \<Longrightarrow> timersApart (stop w)"
  by (simp add: stop_def timersApart_sse_close)

lemma timersApart_hardEnd_finally: "timersApart w \<Longrightarrow> timersApart (hardEnd_finally w)"
  by (simp add: hardEnd_finally_def timersApart_stop)

lemma timersApart_hardEnd: "timersApart w \<Longrightarrow> timersApart (hardEnd w)"
  by (simp add: hardEnd_def timersApart_hardEnd_finally timersApart_client_end)

lemma timersApart_leg3Failed:
  assumes "timersApart w"
  shows "timersApart (leg3Failed le w)"
proof -
  have "timersApart ((setTimer Leg3Retry 2500 v)\<lparr>pendingLeg3Retry := x\<rparr>)"
    if "timersApart v" for v x
    using that
    by (simp, rule timersApart_alloc[where k=Leg3Retry and ms=2500])
       (auto simp: setTimer_def keepAliveTimer_def)
  with assms show ?thesis by (simp add: leg3Failed_def Let_def)
qed

lemma timersApart_dialLoop: "timersApart w \<Longrightarrow> timersApart (dialLoop p cs le w)"
  by (cases cs) (simp_all add: timersApart_leg3Failed)

lemma timersApart_tryDial: "timersApart w \<Longrightarrow> timersApart (tryDialLeg3WithCandidates p w)"
  by (simp add: tryDialLeg3WithCandidates_def timersApart_dialLoop)

lemma timersApart_ensureLeg3: "timersApart w \<Longrightarrow> timersApart (ensureLeg3IfAgentReady w)"
  by (simp add: ensureLeg3IfAgentReady_def timersApart_tryDial)

lemma timersApart_leg3RetryFires: "timersApart w \<Longrightarrow> timersApart (leg3RetryFires w)"
  by (simp add: leg3RetryFires_def Let_def timersApart_tryDial)

lemma timersApart_reconnectFires:
  assumes "timersApart w"
  shows "timersApart (reconnectFires w)"
proof -
  have "timersApart (w\<lparr>reconnectTimeout := None\<rparr>)"
    using assms by (rule timersApart_shrink) (simp_all add: keepAliveTimer_def)
  then show ?thesis
    by (simp add: reconnectFires_def Let_def timersApart_sse_connect split: option.splits)
qed

lemma timersApart_start_gotToken: "timersApart w \<Longrightarrow> timersApart (start_gotToken p tok w)"
  by (simp add: start_gotToken_def Let_def timersApart_sse_connect timersApart_startKeepAlive)

lemma timersApart_start: "timersApart w \<Longrightarrow> timersApart (start p w)"
  by (simp add: start_def Let_def)

lemma timersApart_retireLeg0: "timersApart w \<Longrightarrow> timersApart (retireLeg0 w)"
  by (simp add: retireLeg0_def Let_def timersApart_sse_close timersApart_client_end)

lemma timersApart_idleTermination: "timersApart w \<Longrightarrow> timersApart (idleTermination cc now w)"
  by (simp add: idleTermination_def Let_def timersApart_stop)

lemma timersApart_agentReadiness: "timersApart w \<Longrightarrow> timersApart (agentReadiness r p w)"
  by (simp add: agentReadiness_def timersApart_ensureLeg3)

lemma timersApart_legChecks: "timersApart w \<Longrightarrow> timersApart (legChecks r p now w)"
  by (simp add: legChecks_def Let_def timersApart_agentReadiness timersApart_hardEnd
      timersApart_retireLeg0 timersApart_idleTermination)

lemma timersApart_onRoster: "timersApart w \<Longrightarrow> timersApart (onRoster r p now w)"
  by (simp add: onRoster_def Let_def timersApart_legChecks timersApart_hardEnd)

lemma timersApart_ingest:
  "timersApart w \<Longrightarrow> timersApart (ingestParticipantsSnapshot raw now w)"
  by (simp add: ingestParticipantsSnapshot_def timersApart_onRoster split: option.splits)

lemma timersApart_resume: "timersApart w \<Longrightarrow> timersApart (resume t r now w)"
  by (cases "(t, r, now, w)" rule: resume.cases)
     (simp_all add: timersApart_start_gotToken timersApart_dialLoop timersApart_hardEnd_finally
        refreshFromServer_resume_def timersApart_ensureLeg3 timersApart_ingest)

lemma timersApart_settle: "timersApart w \<Longrightarrow> timersApart (settle i r now w)"
  by (simp add: settle_def timersApart_resume)

lemma timersApart_timerFires: "timersApart w \<Longrightarrow> timersApart (timerFires i j w)"
  by (simp add: timerFires_def timersApart_dormancyFires timersApart_reconnectFires
      timersApart_leg3RetryFires timersApart_clearTimer split: option.splits timerKind.splits)

lemma timersApart_step: "timersApart w \<Longrightarrow> timersApart (step now a w)"
  by (cases a)
     (simp_all add: timersApart_start timersApart_stop timersApart_hardEnd
        timersApart_ensureLeg3 timersApart_ingest sseSnapshot_def timersApart_onRoster
        timersApart_timerFires timersApart_settle split: option.splits)

lemma timersApart_run: "timersApart w \<Longrightarrow> timersApart (run acts w)"
proof (induction acts arbitrary: w)
  case Nil
  then show ?case by simp
next
  case (Cons x acts)
  obtain now a where "x = (now, a)" by (cases x)
  with Cons show ?case by (simp add: timersApart_step)
qed

lemma timersSound_run: "timersSound w \<Longrightarrow> timersSound (run acts w)"
  by (simp add: timersSound_def timersOwned_run timersApart_run)

lemma timersSound_new: "timersSound newOrchestrator"
  by (simp add: timersSound_def timersOwned_new timersApart_new)

lemma timersSound_tasks [simp]: "timersSound (w\<lparr>tasks := x\<rparr>) = timersSound w"
  by (simp add: timersSound_def)

lemma timersSound_below:
  "timersSound w \<Longrightarrow> list_all (\<lambda>t. timerId t < nextTimerId w) (timers w)"
  by (simp add: timersSound_def timersApart_def list_all_iff)

lemma timersSound_hardEnd: "timersSound w \<Longrightarrow> timersSound (hardEnd w)"
  by (simp add: timersSound_def timersOwned_hardEnd timersApart_hardEnd)

subsection \<open>The slots of the suspended functions\<close>

lemma keepsTasks_refl [simp]: "keepsTasks w w"
  by (simp add: keepsTasks_def)

lemma keepsTasks_iff: "keepsTasks w w' \<longleftrightarrow> (\<exists>ts. tasks w' = tasks w @ ts)"
proof
  assume "keepsTasks w w'"
  then have "tasks w' = tasks w @ drop (length (tasks w)) (tasks w')"
    by (metis keepsTasks_def append_take_drop_id)
  then show "\<exists>ts. tasks w' = tasks w @ ts" ..
next
  assume "\<exists>ts. tasks w' = tasks w @ ts"
  then show "keepsTasks w w'" by (auto simp: keepsTasks_def)
qed

lemma keepsTasks_same: "tasks v' = tasks v \<Longrightarrow> keepsTasks w v' = keepsTasks w v"
  by (simp add: keepsTasks_def)

lemma keepsTasks_spawn [simp]: "keepsTasks w v \<Longrightarrow> keepsTasks w (spawn tk v)"
  by (auto simp: keepsTasks_iff spawn_def)

lemma keepsTasks_update [simp]:
  "keepsTasks w (v\<lparr>token := x0\<rparr>) = keepsTasks w v"
  "keepsTasks w (v\<lparr>currentAlias := x1\<rparr>) = keepsTasks w v"
  "keepsTasks w (v\<lparr>phase := x2\<rparr>) = keepsTasks w v"
  "keepsTasks w (v\<lparr>lastStartParams := x3\<rparr>) = keepsTasks w v"
  "keepsTasks w (v\<lparr>agentReady := x4\<rparr>) = keepsTasks w v"
  "keepsTasks w (v\<lparr>leg3Dialed := x5\<rparr>) = keepsTasks w v"
  "keepsTasks w (v\<lparr>stopped := x6\<rparr>) = keepsTasks w v"
  "keepsTasks w (v\<lparr>inactiveSince := x7\<rparr>) = keepsTasks w v"
  "keepsTasks w (v\<lparr>minTwoArmed := x8\<rparr>) = keepsTasks w v"
  "keepsTasks w (v\<lparr>belowTwoSince := x9\<rparr>) = keepsTasks w v"
  "keepsTasks w (v\<lparr>sseGraceUntil := x10\<rparr>) = keepsTasks w v"
  "keepsTasks w (v\<lparr>lastConnectedCount := x11\<rparr>) = keepsTasks w v"
  "keepsTasks w (v\<lparr>fullyEngagedSince := x12\<rparr>) = keepsTasks w v"
  "keepsTasks w (v\<lparr>killOnAgentDropArmed := x13\<rparr>) = keepsTasks w v"
  "keepsTasks w (v\<lparr>pendingLeg3Retry := x14\<rparr>) = keepsTasks w v"
  "keepsTasks w (v\<lparr>leg0Retired := x15\<rparr>) = keepsTasks w v"
  "keepsTasks w (v\<lparr>fourLegsSince := x16\<rparr>) = keepsTasks w v"
  "keepsTasks w (v\<lparr>keepAlive := x17\<rparr>) = keepsTasks w v"
  "keepsTasks w (v\<lparr>keepAliveClosures := x18\<rparr>) = keepsTasks w v"
  "keepsTasks w (v\<lparr>es := x19\<rparr>) = keepsTasks w v"
  "keepsTasks w (v\<lparr>tickTimer := x20\<rparr>) = keepsTasks w v"
  "keepsTasks w (v\<lparr>dormancyTimer := x21\<rparr>) = keepsTasks w v"
  "keepsTasks w (v\<lparr>reconnectTimeout := x22\<rparr>) = keepsTasks w v"
  "keepsTasks w (v\<lparr>sse_alias := x23\<rparr>) = keepsTasks w v"
  "keepsTasks w (v\<lparr>sse_token := x24\<rparr>) = keepsTasks w v"
  "keepsTasks w (v\<lparr>backoffMs := x25\<rparr>) = keepsTasks w v"
  "keepsTasks w (v\<lparr>timers := x26\<rparr>) = keepsTasks w v"
  "keepsTasks w (v\<lparr>nextTimerId := x27\<rparr>) = keepsTasks w v"
  "keepsTasks w (v\<lparr>events := x28\<rparr>) = keepsTasks w v"
  "keepsTasks w (v\<lparr>calls := x29\<rparr>) = keepsTasks w v"
  by (simp_all add: keepsTasks_def)

lemma keepsTasks_emit [simp]: "keepsTasks w (emit ev v) = keepsTasks w v"
  by (rule keepsTasks_same) simp

lemma keepsTasks_setPhase [simp]: "keepsTasks w (setPhase ph v) = keepsTasks w v"
  by (rule keepsTasks_same) simp

lemma keepsTasks_logCall [simp]: "keepsTasks w (logCall c v) = keepsTasks w v"
  by (rule keepsTasks_same) simp

lemma keepsTasks_setTimer [simp]: "keepsTasks w (setTimer k ms v) = keepsTasks w v"
  by (rule keepsTasks_same) simp

lemma keepsTasks_clearTimer [simp]: "keepsTasks w (clearTimer i v) = keepsTasks w v"
  by (rule keepsTasks_same) simp

lemma keepsTasks_clearHandle [simp]: "keepsTasks w (clearHandle h v) = keepsTasks w v"
  by (rule keepsTasks_same) simp

lemma keepsTasks_sse_close [simp]: "keepsTasks w (sse_close v) = keepsTasks w v"
  by (rule keepsTasks_same) simp

lemma keepsTasks_sse_connect [simp]: "keepsTasks w (sse_connect a tok v) = keepsTasks w v"
  by (rule keepsTasks_same) simp

lemma keepsTasks_internalReconnect [simp]: "keepsTasks w (internalReconnect d j v) = keepsTasks w v"
  by (rule keepsTasks_same) simp

lemma keepsTasks_dormancyFires [simp]: "keepsTasks w (dormancyFires j v) = keepsTasks w v"
  by (rule keepsTasks_same) simp

lemma keepsTasks_reconnectFires [simp]: "keepsTasks w (reconnectFires v) = keepsTasks w v"
  by (rule keepsTasks_same) simp

lemma keepsTasks_stopKeepAlive [simp]: "keepsTasks w (stopKeepAlive v) = keepsTasks w v"
  by (rule keepsTasks_same) simp

lemma keepsTasks_tick_resume [simp]: "keepsTasks w (tick_resume g tok v) = keepsTasks w v"
  by (rule keepsTasks_same) simp

lemma keepsTasks_client_requestToken [simp]: "keepsTasks w (client_requestToken a dn pn v) = keepsTasks w v"
  by (rule keepsTasks_same) simp

lemma keepsTasks_client_dial [simp]: "keepsTasks w (client_dial tok a dest opts v) = keepsTasks w v"
  by (rule keepsTasks_same) simp

lemma keepsTasks_client_listParticipants [simp]: "keepsTasks w (client_listParticipants tok a v) = keepsTasks w v"
  by (rule keepsTasks_same) simp

lemma keepsTasks_client_disconnectAll [simp]: "keepsTasks w (client_disconnectAll tok a v) = keepsTasks w v"
  by (rule keepsTasks_same) simp

lemma keepsTasks_client_releaseToken [simp]: "keepsTasks w (client_releaseToken tok a v) = keepsTasks w v"
  by (rule keepsTasks_same) simp

lemma keepsTasks_stop [simp]: "keepsTasks w (stop v) = keepsTasks w v"
  by (rule keepsTasks_same) simp

lemma keepsTasks_hardEnd_finally [simp]: "keepsTasks w (hardEnd_finally v) = keepsTasks w v"
  by (rule keepsTasks_same) simp

lemma keepsTasks_leg3Failed [simp]: "keepsTasks w (leg3Failed le v) = keepsTasks w v"
  by (rule keepsTasks_same) simp

lemma keepsTasks_start_catch [simp]: "keepsTasks w (start_catch e v) = keepsTasks w v"
  by (rule keepsTasks_same) simp

lemma keepsTasks_start_dialed [simp]: "keepsTasks w (start_dialed created v) = keepsTasks w v"
  by (rule keepsTasks_same) simp

lemma keepsTasks_retireLeg0_resume [simp]: "keepsTasks w (retireLeg0_resume b v) = keepsTasks w v"
  by (rule keepsTasks_same) simp

lemma keepsTasks_dormancyGrace [simp]: "keepsTasks w (dormancyGrace cc now v) = keepsTasks w v"
  by (rule keepsTasks_same) simp

lemma keepsTasks_minTwoArm [simp]: "keepsTasks w (minTwoArm cc v) = keepsTasks w v"
  by (rule keepsTasks_same) simp

lemma keepsTasks_activeTransition [simp]: "keepsTasks w (activeTransition r p v) = keepsTasks w v"
  by (rule keepsTasks_same) simp

lemma keepsTasks_fourLegsRule [simp]: "keepsTasks w (fourLegsRule r p now v) = keepsTasks w v"
  by (rule keepsTasks_same) simp

lemma keepsTasks_trackFourLegs [simp]: "keepsTasks w (trackFourLegs r p now v) = keepsTasks w v"
  by (rule keepsTasks_same) simp

lemma keepsTasks_idleTermination [simp]: "keepsTasks w (idleTermination cc now v) = keepsTasks w v"
  by (rule keepsTasks_same) simp

lemma keepsTasks_tick [simp]: "keepsTasks w v \<Longrightarrow> keepsTasks w (tick g v)"
  by (simp add: tick_def)

lemma keepsTasks_startKeepAlive [simp]:
  "keepsTasks w v \<Longrightarrow> keepsTasks w (startKeepAlive tok a v)"
  by (simp add: startKeepAlive_def Let_def)

lemma keepsTasks_hardEnd [simp]: "keepsTasks w v \<Longrightarrow> keepsTasks w (hardEnd v)"
  by (simp add: hardEnd_def)

lemma keepsTasks_dialLoop [simp]: "keepsTasks w v \<Longrightarrow> keepsTasks w (dialLoop p cs le v)"
  by (cases cs) simp_all

lemma keepsTasks_tryDial [simp]:
  "keepsTasks w v \<Longrightarrow> keepsTasks w (tryDialLeg3WithCandidates p v)"
  by (simp add: tryDialLeg3WithCandidates_def)

lemma keepsTasks_ensureLeg3 [simp]: "keepsTasks w v \<Longrightarrow> keepsTasks w (ensureLeg3IfAgentReady v)"
  by (simp add: ensureLeg3IfAgentReady_def)

lemma keepsTasks_leg3RetryFires [simp]: "keepsTasks w v \<Longrightarrow> keepsTasks w (leg3RetryFires v)"
  by (simp add: leg3RetryFires_def Let_def)

lemma keepsTasks_start [simp]: "keepsTasks w v \<Longrightarrow> keepsTasks w (start p v)"
  by (simp add: start_def Let_def)

lemma keepsTasks_start_gotToken [simp]:
  "keepsTasks w v \<Longrightarrow> keepsTasks w (start_gotToken p tok v)"
  by (simp add: start_gotToken_def Let_def)

lemma keepsTasks_retireLeg0 [simp]: "keepsTasks w v \<Longrightarrow> keepsTasks w (retireLeg0 v)"
  by (simp add: retireLeg0_def Let_def)

lemma keepsTasks_agentReadiness [simp]:
  "keepsTasks w v \<Longrightarrow> keepsTasks w (agentReadiness r p v)"
  by (simp add: agentReadiness_def)

lemma keepsTasks_legChecks [simp]: "keepsTasks w v \<Longrightarrow> keepsTasks w (legChecks r p now v)"
  by (simp add: legChecks_def Let_def)

lemma keepsTasks_onRoster [simp]: "keepsTasks w v \<Longrightarrow> keepsTasks w (onRoster r p now v)"
  by (simp add: onRoster_def Let_def)

lemma keepsTasks_ingest [simp]:
  "keepsTasks w v \<Longrightarrow> keepsTasks w (ingestParticipantsSnapshot raw now v)"
  by (simp add: ingestParticipantsSnapshot_def split: option.splits)

lemma keepsTasks_refreshFromServer [simp]:
  "keepsTasks w v \<Longrightarrow> keepsTasks w (refreshFromServer v)"
  by (simp add: refreshFromServer_def)

lemma keepsTasks_resume [simp]: "keepsTasks w v \<Longrightarrow> keepsTasks w (resume t r now v)"
  by (cases "(t, r, now, v)" rule: resume.cases) (simp_all add: refreshFromServer_resume_def)

lemma keepsTasks_timerFires [simp]: "keepsTasks w v \<Longrightarrow> keepsTasks w (timerFires i j v)"
  by (simp add: timerFires_def split: option.splits timerKind.splits)

lemma keepsTasks_nth:
  assumes "keepsTasks w w'" "i < length (tasks w)"
  shows "i < length (tasks w')" "tasks w' ! i = tasks w ! i"
proof -
  from assms(1) obtain ts where "tasks w' = tasks w @ ts" by (auto simp: keepsTasks_iff)
  with assms(2) show "i < length (tasks w')" "tasks w' ! i = tasks w ! i"
    by (simp_all add: nth_append)
qed

lemma settle_slot:
  assumes "i < length (tasks w)" "j \<noteq> i"
  shows "i < length (tasks (settle j r now w)) \<and> tasks (settle j r now w) ! i = tasks w ! i"
proof (cases "j < length (tasks w) \<and> accepts (tasks w ! j) r")
  case True
  let ?v = "w\<lparr>tasks := (tasks w)[j := Finished]\<rparr>"
  have k: "keepsTasks ?v (resume (tasks w ! j) r now ?v)" by simp
  from assms have i: "i < length (tasks ?v)" "tasks ?v ! i = tasks w ! i" by simp_all
  from keepsTasks_nth[OF k i(1)] i(2) True show ?thesis by (simp add: settle_def)
next
  case False
  with assms show ?thesis by (auto simp: settle_def)
qed

lemma step_slot:
  assumes "i < length (tasks w)" "\<not> settles i a"
  shows "i < length (tasks (step now a w)) \<and> tasks (step now a w) ! i = tasks w ! i"
proof (cases a)
  case (Settle j r)
  with assms show ?thesis by (simp add: settle_slot)
next
  case (SseSnapshot roster)
  have "keepsTasks w (step now a w)" unfolding SseSnapshot
    by (simp add: sseSnapshot_def split: option.splits)
  from keepsTasks_nth[OF this assms(1)] show ?thesis by simp
qed (use assms(1) keepsTasks_nth[of w "step now a w" i] in simp_all)

lemma run_slot:
  "i < length (tasks w) \<Longrightarrow> leavesPending i acts \<Longrightarrow>
   i < length (tasks (run acts w)) \<and> tasks (run acts w) ! i = tasks w ! i"
proof (induction acts arbitrary: w)
  case Nil
  then show ?case by simp
next
  case (Cons x acts)
  obtain now a where x: "x = (now, a)" by (cases x)
  from Cons.prems x have s: "\<not> settles i a" and l: "leavesPending i acts"
    by (simp_all add: leavesPending_def)
  from step_slot[OF Cons.prems(1) s, of now] Cons.IH[of "step now a w", OF _ l] x
  show ?case by simp
qed

lemma disconnect_settled:
  assumes "i < length (tasks v)" "tasks v ! i = AwaitDisconnectAll" "r = RSettled \<or> r = RThrow e"
  shows "settle i r now v = hardEnd_finally (v\<lparr>tasks := (tasks v)[i := Finished]\<rparr>)"
  using assms by (auto simp: settle_def)

lemma hardEnd_pending:
  assumes "truthy (token w)" "truthy (currentAlias w)" "leavesPending (length (tasks w)) acts"
  shows "length (tasks w) < length (tasks (run acts (hardEnd w)))"
    "tasks (run acts (hardEnd w)) ! length (tasks w) = AwaitDisconnectAll"
proof -
  from assms(1,2) have t: "tasks (hardEnd w) = tasks w @ [AwaitDisconnectAll]"
    by (simp add: hardEnd_def spawn_def)
  then have "length (tasks w) < length (tasks (hardEnd w))" by simp
  from run_slot[OF this assms(3)] t
  show "length (tasks w) < length (tasks (run acts (hardEnd w)))"
    "tasks (run acts (hardEnd w)) ! length (tasks w) = AwaitDisconnectAll"
    by simp_all
qed

subsection \<open>Participant normalization\<close>

lemma toLowerCase_literals:
  "toLowerCase ''1'' = ''1''" "toLowerCase ''true'' = ''true''"
  "toLowerCase ''yes'' = ''yes''" "toLowerCase ''on'' = ''on''"
  by code_simp+

lemma toBool_accepted: "toBool v = (\<exists>x. v = Some x \<and> acceptedTruthyForm x)"
proof (cases v)
  case None
  then show ?thesis by simp
next
  case (Some x)
  then show ?thesis
    by (cases x) (simp_all add: equalsIgnoreCase_def toLowerCase_literals Let_def)
qed

lemma toParticipant_mapRawParticipant: "toParticipant r = mapRawParticipant r"
  by (simp add: toParticipant_def mapRawParticipant_def)

lemma mapRawParticipant_isConnected:
  assumes "mapRawParticipant r = Some p"
  shows "isConnected p =
     (toBool (getProp r ''is_connected'') \<or> toBool (getProp r ''connected'') \<or>
      (getProp r ''is_connected'' = None \<and> getProp r ''connected'' = None))"
  using assms by (auto simp: mapRawParticipant_def split: option.splits)

subsection \<open>Sticky readiness\<close>

lemma agentReadiness_frame [simp]:
  "token (agentReadiness r p w) = token w"
  "currentAlias (agentReadiness r p w) = currentAlias w"
  "lastStartParams (agentReadiness r p w) = lastStartParams w"
  "stopped (agentReadiness r p w) = stopped w"
  "leg0Retired (agentReadiness r p w) = leg0Retired w"
  "keepAlive (agentReadiness r p w) = keepAlive w"
  by (simp_all add: agentReadiness_def)

lemma agentReadiness_agentReady:
  "agentReady (agentReadiness r p w) = (agentReady w \<or> (leg1SipUp r p \<and> leg2WebrtcUp r))"
  by (auto simp: agentReadiness_def)

lemma legChecks_lastStartParams [simp]:
  "lastStartParams (legChecks r p now w) = lastStartParams w"
  by (simp add: legChecks_def Let_def)

lemma legChecks_agentReady:
  "agentReady (legChecks r p now w) = (agentReady w \<or> (leg1SipUp r p \<and> leg2WebrtcUp r))"
  by (simp add: legChecks_def Let_def agentReadiness_agentReady)

lemma onRoster_lastStartParams [simp]:
  "lastStartParams (onRoster r p now w) = lastStartParams w"
  by (simp add: onRoster_def Let_def)

lemma onRoster_agentReady: "agentReady w \<Longrightarrow> agentReady (onRoster r p now w)"
  by (simp add: onRoster_def Let_def legChecks_agentReady)

lemma ingest_agentReady: "agentReady w \<Longrightarrow> agentReady (ingestParticipantsSnapshot raw now w)"
  by (simp add: ingestParticipantsSnapshot_def onRoster_agentReady split: option.splits)

lemma resume_agentReady: "agentReady w \<Longrightarrow> agentReady (resume t r now w)"
  by (cases "(t, r, now, w)" rule: resume.cases)
     (simp_all add: refreshFromServer_resume_def ingest_agentReady)

lemma settle_agentReady: "agentReady w \<Longrightarrow> agentReady (settle i r now w)"
  by (simp add: settle_def resume_agentReady)

lemma timerFires_agentReady: "agentReady w \<Longrightarrow> agentReady (timerFires i j w)"
  by (simp add: timerFires_def split: option.splits timerKind.splits)

lemma step_agentReady: "\<not> isStart a \<Longrightarrow> agentReady w \<Longrightarrow> agentReady (step now a w)"
  by (cases a) (simp_all add: sseSnapshot_def onRoster_agentReady ingest_agentReady
      settle_agentReady timerFires_agentReady split: option.splits)

lemma trace_agentReady:
  "noStart acts \<Longrightarrow> agentReady w \<Longrightarrow> list_all agentReady (trace acts w)"
proof (induction acts arbitrary: w)
  case Nil
  then show ?case by simp
next
  case (Cons x acts)
  obtain now a where x: "x = (now, a)" by (cases x)
  from Cons.prems x have "\<not> isStart a" "noStart acts" by (simp_all add: noStart_def)
  with Cons x show ?case by (simp add: step_agentReady)
qed

lemma risingEdges_all_true: "list_all (\<lambda>b. b) bs \<Longrightarrow> risingEdges bs = 0"
  by (induction bs rule: risingEdges.induct) simp_all

lemma trace_Cons: "\<exists>ws. trace acts w = w # ws"
  by (cases acts) auto

lemma risingEdges_agentReady:
  "noStart acts \<Longrightarrow> risingEdges (map agentReady (trace acts w)) \<le> 1"
proof (induction acts arbitrary: w)
  case Nil
  then show ?case by simp
next
  case (Cons x acts)
  obtain now a where x: "x = (now, a)" by (cases x)
  from Cons.prems x have na: "\<not> isStart a" and ns: "noStart acts" by (simp_all add: noStart_def)
  let ?w' = "step now a w"
  obtain ws where ws: "trace acts ?w' = ?w' # ws" using trace_Cons by blast
  show ?case
  proof (cases "agentReady ?w'")
    case True
    from trace_agentReady[OF ns True] have "list_all (\<lambda>b. b) (map agentReady (trace acts ?w'))"
      by (simp add: list_all_iff)
    then have "risingEdges (map agentReady (trace acts ?w')) = 0" by (rule risingEdges_all_true)
    with x ws show ?thesis by simp
  next
    case False
    with Cons.IH[OF ns, of ?w'] x ws show ?thesis by simp
  qed
qed


text \<open>
  C9. A normalized participant is connected exactly if \<open>is_connected\<close> or \<open>connected\<close>
  holds a truthy form (boolean true, a non-zero number, or one of the strings 1, true, yes,
  on in any letter case), or if neither field is present; a record whose only connected
  field holds another value is not connected. This holds for \<open>toParticipant\<close> of the
  transport and \<open>mapRawParticipant\<close> of the engine, which agree.
\<close>

theorem connected_flag_normalization:
  "toParticipant r = mapRawParticipant r \<and>
   (mapRawParticipant r = Some p \<longrightarrow>
      (isConnected p \<longleftrightarrow>
         (\<exists>v. (getProp r ''is_connected'' = Some v \<or> getProp r ''connected'' = Some v)
               \<and> acceptedTruthyForm v)
         \<or> (getProp r ''is_connected'' = None \<and> getProp r ''connected'' = None))) \<and>
   (mapRawParticipant r = Some p \<and>
      ((getProp r ''is_connected'' = Some v \<and> getProp r ''connected'' = None) \<or>
       (getProp r ''is_connected'' = None \<and> getProp r ''connected'' = Some v)) \<and>
      \<not> acceptedTruthyForm v \<longrightarrow> \<not> isConnected p)"
proof (intro conjI impI)
  show "toParticipant r = mapRawParticipant r" by (rule toParticipant_mapRawParticipant)
next
  assume "mapRawParticipant r = Some p"
  from mapRawParticipant_isConnected[OF this]
  show "isConnected p \<longleftrightarrow>
         (\<exists>v. (getProp r ''is_connected'' = Some v \<or> getProp r ''connected'' = Some v)
               \<and> acceptedTruthyForm v)
         \<or> (getProp r ''is_connected'' = None \<and> getProp r ''connected'' = None)"
    by (auto simp: toBool_accepted)
next
  assume a: "mapRawParticipant r = Some p \<and>
      ((getProp r ''is_connected'' = Some v \<and> getProp r ''connected'' = None) \<or>
       (getProp r ''is_connected'' = None \<and> getProp r ''connected'' = Some v)) \<and>
      \<not> acceptedTruthyForm v"
  then have "mapRawParticipant r = Some p" by simp
  from mapRawParticipant_isConnected[OF this] a
  show "\<not> isConnected p"
    by (auto simp: toBool_accepted)
qed

theorem connected_flag_normalization_witness:
  "mapRawParticipant (JObj [(''uuid'', JStr ''b''), (''is_connected'', JNum 0)])
     = Some \<lparr>p_id = ''b'', displayName = None, kind = Other, isConnected = False, isVideo = False\<rparr>
   \<and> getProp (JObj [(''uuid'', JStr ''b''), (''is_connected'', JNum 0)]) ''is_connected''
       = Some (JNum 0)
   \<and> getProp (JObj [(''uuid'', JStr ''b''), (''is_connected'', JNum 0)]) ''connected'' = None
   \<and> \<not> acceptedTruthyForm (JNum 0)
   \<and> \<not> isConnected
         \<lparr>p_id = ''b'', displayName = None, kind = Other, isConnected = False, isVideo = False\<rparr>
   \<and> mapRawParticipant (JObj [(''id'', JStr ''a''), (''connected'', JStr ''YES'')])
     = Some \<lparr>p_id = ''a'', displayName = None, kind = Other, isConnected = True, isVideo = False\<rparr>
   \<and> (\<exists>v. (getProp (JObj [(''id'', JStr ''a''), (''connected'', JStr ''YES'')]) ''is_connected''
               = Some v
            \<or> getProp (JObj [(''id'', JStr ''a''), (''connected'', JStr ''YES'')]) ''connected''
               = Some v) \<and> acceptedTruthyForm v)"
proof -
  let ?r1 = "JObj [(''uuid'', JStr ''b''), (''is_connected'', JNum 0)]"
  let ?p1 = "\<lparr>p_id = ''b'', displayName = None, kind = Other, isConnected = False, isVideo = False\<rparr>"
  let ?r2 = "JObj [(''id'', JStr ''a''), (''connected'', JStr ''YES'')]"
  let ?p2 = "\<lparr>p_id = ''a'', displayName = None, kind = Other, isConnected = True, isVideo = False\<rparr>"
  have m1: "mapRawParticipant ?r1 = Some ?p1" by code_simp
  have m2: "mapRawParticipant ?r2 = Some ?p2" by code_simp
  have g1: "getProp ?r1 ''is_connected'' = Some (JNum 0)" "getProp ?r1 ''connected'' = None"
    by simp_all
  have g2: "getProp ?r2 ''is_connected'' = None" "getProp ?r2 ''connected'' \<noteq> None"
    by simp_all
  have n1: "\<not> acceptedTruthyForm (JNum 0)" by simp
  have c2: "isConnected ?p2" by simp
  from connected_flag_normalization[of ?r1 ?p1 "JNum 0"] m1 g1 n1
  have a: "\<not> isConnected ?p1" by blast
  from connected_flag_normalization[of ?r2 ?p2] m2 c2 g2
  have b: "\<exists>v. (getProp ?r2 ''is_connected'' = Some v \<or> getProp ?r2 ''connected'' = Some v)
               \<and> acceptedTruthyForm v" by blast
  from m1 g1 n1 a m2 b show ?thesis by blast
qed

text \<open>
  C2. Once \<open>agentReady\<close> is true, no evaluation of a snapshot sets it back to false,
  whatever the snapshot; along any run of the engine without a new \<open>start\<close> the flag stays
  true once true, and goes from false to true at most once.
\<close>

theorem agentReady_sticky:
  "(agentReady w \<longrightarrow> agentReady (onRoster roster params now w)) \<and>
   (noStart acts \<longrightarrow>
      (agentReady w \<longrightarrow> list_all agentReady (trace acts w)) \<and>
      risingEdges (map agentReady (trace acts w)) \<le> 1)"
proof (intro conjI impI)
  assume "agentReady w"
  then show "agentReady (onRoster roster params now w)" by (rule onRoster_agentReady)
next
  assume "noStart acts" "agentReady w"
  then show "list_all agentReady (trace acts w)" by (rule trace_agentReady)
next
  assume "noStart acts"
  then show "risingEdges (map agentReady (trace acts w)) \<le> 1" by (rule risingEdges_agentReady)
qed

theorem agentReady_sticky_witness:
  "agentReady readySession \<and>
   agentReady (onRoster droppedRoster exampleParams 20 readySession) \<and>
   noStart [(20, SseSnapshot droppedRoster), (30, Stop)] \<and>
   list_all agentReady (trace [(20, SseSnapshot droppedRoster), (30, Stop)] readySession) \<and>
   risingEdges (map agentReady (trace [(20, SseSnapshot droppedRoster), (30, Stop)] readySession))
     \<le> 1"
proof -
  have h1: "agentReady readySession" by (simp add: readySession_def)
  have h2: "noStart [(20, SseSnapshot droppedRoster), (30, Stop)]" by (simp add: noStart_def)
  from agentReady_sticky[of readySession droppedRoster exampleParams 20
         "[(20, SseSnapshot droppedRoster), (30, Stop)]"] h1 h2
  show ?thesis by blast
qed

subsection \<open>A leg-3 dial sequence\<close>

lemma includes_at: "includes_str d ''@'' = (CHR ''@'' \<in> set d)"
  by (induction d) auto

lemma leg3Candidates_nonempty: "leg3Candidates params \<noteq> []"
  by (simp add: leg3Candidates_def Let_def split: option.splits)

lemma leg3Candidates_cases:
  "leg3Candidates params =
     (let d = trim (secondDialAlias params)
      in if looksSip d then (if drop 4 d = [] then [d] else [d, drop 4 d])
         else if CHR ''@'' \<in> set d then [d, ''sip:'' @ d]
         else case customerSipDomainOf params of
                None \<Rightarrow> [d, ''sip:'' @ d]
              | Some h \<Rightarrow> [d @ ''@'' @ h, ''sip:'' @ d @ ''@'' @ h, d, ''sip:'' @ d])"
  by (simp add: leg3Candidates_def Let_def includes_at split: option.splits)

lemma dialCall_update [simp]:
  "dialCall (w\<lparr>calls := cs, tasks := ts\<rparr>) p = dialCall w p"
  "dialCall (w\<lparr>tasks := ts\<rparr>) p = dialCall w p"
  "dialCall (w\<lparr>calls := cs\<rparr>) p = dialCall w p"
  by (simp_all add: dialCall_def liveTokenOr_def currentToken_def fun_eq_iff)

lemma dialLoop_Cons:
  "dialLoop p (c # cs) le w =
     w\<lparr>calls := calls w @ [dialCall w p c], tasks := tasks w @ [AwaitDialLeg3 p cs le]\<rparr>"
  by (simp add: basic_defs client_dial_def dialCall_def Let_def)

lemma tryDial_spawns:
  assumes "truthy (token w)"
  shows "tryDialLeg3WithCandidates p w =
     w\<lparr>leg3Dialed := True, phase := Dialing_leg3,
        events := events w @ [PhaseEvent Dialing_leg3],
        calls := calls w @ [dialCall w p (hd (leg3Candidates p))],
        tasks := tasks w @ [AwaitDialLeg3 p (tl (leg3Candidates p)) None]\<rparr>"
proof -
  obtain c cs where c: "leg3Candidates p = c # cs"
    using leg3Candidates_nonempty[of p] by (cases "leg3Candidates p") auto
  have "dialCall (w\<lparr>leg3Dialed := True, phase := Dialing_leg3,
                    events := events w @ [PhaseEvent Dialing_leg3]\<rparr>) p = dialCall w p"
    by (simp add: dialCall_def liveTokenOr_def currentToken_def fun_eq_iff)
  with assms c show ?thesis
    by (simp add: tryDialLeg3WithCandidates_def dialLoop_Cons setPhase_def emit_def
          del: dialLoop.simps)
qed

lemma settle_fail_more:
  assumes "tasks w = ts @ [AwaitDialLeg3 p (c # cs) le]" "failedAttempt r"
  shows "settle (length ts) r now w =
     w\<lparr>calls := calls w @ [dialCall w p c],
        tasks := (ts @ [Finished]) @ [AwaitDialLeg3 p cs (lastThrown le [r])]\<rparr>"
  using assms by (cases r) (simp_all add: settle_def dialLoop_Cons del: dialLoop.simps)

lemma settle_fail_last:
  assumes "tasks w = ts @ [AwaitDialLeg3 p [] le]" "failedAttempt r"
  shows "settle (length ts) r now w =
     leg3Failed (lastThrown le [r]) (w\<lparr>tasks := ts @ [Finished]\<rparr>)"
  using assms by (cases r) (simp_all add: settle_def)

lemma settle_success:
  assumes "tasks w = ts @ [AwaitDialLeg3 p rest le]" "created \<noteq> []"
  shows "settle (length ts) (RCreated created) now w = w\<lparr>tasks := ts @ [Finished]\<rparr>"
  using assms by (simp add: settle_def)

lemma lastThrown_append: "lastThrown le (rs @ rs') = lastThrown (lastThrown le rs) rs'"
  by (induction le rs rule: lastThrown.induct) simp_all

lemma lastThrown_Cons: "lastThrown le (r # rs) = lastThrown (lastThrown le [r]) rs"
  using lastThrown_append[of le "[r]" rs] by simp

lemma settleEach_append:
  "settleEach i (rs @ rs') now w = settleEach (i + length rs) rs' now (settleEach i rs now w)"
  by (induction rs arbitrary: i w) simp_all

text \<open>After \<open>length rs\<close> failed attempts, with candidates left.\<close>

lemma chain_fail:
  assumes "tasks w = ts @ [AwaitDialLeg3 p rest le]" "list_all failedAttempt rs"
    "length rs \<le> length rest"
  shows "settleEach (length ts) rs now w =
     w\<lparr>calls := calls w @ map (dialCall w p) (take (length rs) rest),
        tasks := ts @ replicate (length rs) Finished
                  @ [AwaitDialLeg3 p (drop (length rs) rest) (lastThrown le rs)]\<rparr>"
  using assms
proof (induction rs arbitrary: w ts rest le)
  case Nil
  then show ?case by simp
next
  case (Cons r rs)
  then obtain c cs where rest: "rest = c # cs" by (cases rest) auto
  let ?w = "w\<lparr>calls := calls w @ [dialCall w p c],
        tasks := (ts @ [Finished]) @ [AwaitDialLeg3 p cs (lastThrown le [r])]\<rparr>"
  have s: "settle (length ts) r now w = ?w"
    using Cons.prems rest by (intro settle_fail_more) simp_all
  have t: "tasks ?w = (ts @ [Finished]) @ [AwaitDialLeg3 p cs (lastThrown le [r])]" by simp
  have "settleEach (length (ts @ [Finished])) rs now ?w =
      ?w\<lparr>calls := calls ?w @ map (dialCall ?w p) (take (length rs) cs),
        tasks := (ts @ [Finished]) @ replicate (length rs) Finished
                  @ [AwaitDialLeg3 p (drop (length rs) cs) (lastThrown (lastThrown le [r]) rs)]\<rparr>"
    using Cons.prems rest by (intro Cons.IH[OF t]) simp_all
  then show ?case
    using s rest by (simp add: lastThrown_Cons[of le r rs] replicate_app_Cons_same)
qed

text \<open>The whole sequence from \<open>tryDialLeg3WithCandidates\<close> on: \<open>length rs\<close> failed attempts.\<close>

lemma sequence_fail:
  assumes "truthy (token w)" "list_all failedAttempt rs" "length rs < length (leg3Candidates p)"
  shows "settleEach (length (tasks w)) rs now (tryDialLeg3WithCandidates p w) =
     w\<lparr>leg3Dialed := True, phase := Dialing_leg3,
        events := events w @ [PhaseEvent Dialing_leg3],
        calls := calls w @ map (dialCall w p) (take (Suc (length rs)) (leg3Candidates p)),
        tasks := tasks w @ replicate (length rs) Finished
                  @ [AwaitDialLeg3 p (drop (Suc (length rs)) (leg3Candidates p))
                       (lastThrown None rs)]\<rparr>"
proof -
  obtain c cs where c: "leg3Candidates p = c # cs"
    using leg3Candidates_nonempty[of p] by (cases "leg3Candidates p") auto
  let ?w0 = "tryDialLeg3WithCandidates p w"
  have w0: "?w0 = w\<lparr>leg3Dialed := True, phase := Dialing_leg3,
        events := events w @ [PhaseEvent Dialing_leg3],
        calls := calls w @ [dialCall w p c],
        tasks := tasks w @ [AwaitDialLeg3 p cs None]\<rparr>"
    using tryDial_spawns[OF assms(1), of p] c by simp
  have t: "tasks ?w0 = tasks w @ [AwaitDialLeg3 p cs None]" by (simp add: w0)
  have d: "dialCall ?w0 p = dialCall w p"
    by (simp add: w0 dialCall_def liveTokenOr_def currentToken_def fun_eq_iff)
  from assms c have l: "length rs \<le> length cs" by simp
  show ?thesis
    unfolding chain_fail[OF t assms(2) l, of now] d
    by (simp add: w0 c)
qed

lemma sequence_exhausted:
  assumes "truthy (token w)" "list_all failedAttempt rs" "length rs = length (leg3Candidates p)"
  shows "settleEach (length (tasks w)) rs now (tryDialLeg3WithCandidates p w) =
     leg3Failed (lastThrown None rs)
       (w\<lparr>leg3Dialed := True, phase := Dialing_leg3,
          events := events w @ [PhaseEvent Dialing_leg3],
          calls := calls w @ map (dialCall w p) (leg3Candidates p),
          tasks := tasks w @ replicate (length rs) Finished\<rparr>)"
proof -
  from assms(3) leg3Candidates_nonempty[of p] have "rs \<noteq> []" by auto
  then obtain rs' r where rs: "rs = rs' @ [r]" by (cases rs rule: rev_cases) auto
  from assms rs have f: "list_all failedAttempt rs'" "failedAttempt r"
    and l: "length rs' < length (leg3Candidates p)" by simp_all
  let ?w1 = "settleEach (length (tasks w)) rs' now (tryDialLeg3WithCandidates p w)"
  have w1: "?w1 = w\<lparr>leg3Dialed := True, phase := Dialing_leg3,
        events := events w @ [PhaseEvent Dialing_leg3],
        calls := calls w @ map (dialCall w p) (leg3Candidates p),
        tasks := (tasks w @ replicate (length rs') Finished)
                  @ [AwaitDialLeg3 p [] (lastThrown None rs')]\<rparr>"
    using sequence_fail[OF assms(1) f(1) l, of now] assms(3) rs by simp
  have t: "tasks ?w1 = (tasks w @ replicate (length rs') Finished)
                  @ [AwaitDialLeg3 p [] (lastThrown None rs')]" by (simp add: w1)
  have "settleEach (length (tasks w)) rs now (tryDialLeg3WithCandidates p w)
        = settle (length (tasks w @ replicate (length rs') Finished)) r now ?w1"
    by (simp add: rs settleEach_append)
  also have "\<dots> = leg3Failed (lastThrown (lastThrown None rs') [r])
                     (?w1\<lparr>tasks := (tasks w @ replicate (length rs') Finished) @ [Finished]\<rparr>)"
    by (rule settle_fail_last[OF t f(2)])
  finally show ?thesis
    by (simp add: w1 rs lastThrown_append replicate_append_same)
qed

text \<open>
  C3 (as amended). The candidates are a function of the trimmed destination and the trimmed
  domain hint alone. A destination that starts with \<open>sip:\<close> (in any letter case) gives the
  destination, then the destination without the prefix (if anything follows the prefix); a
  destination with an \<open>@\<close> gives the destination, then \<open>sip:\<close> before it; a bare alias
  gives, when there is a domain hint, the domain-qualified alias, \<open>sip:\<close> before the
  domain-qualified alias, the alias, and \<open>sip:\<close> before the alias, in this order, and
  without a hint the last two only. The candidates are dialed in this order: after \<open>k\<close>
  failed attempts the first \<open>k + 1\<close> candidates have been dialed; an attempt that returns at
  least one identifier ends the sequence with no further request; when all have failed, all
  have been dialed once and the sequence is over.
\<close>

theorem leg3_candidates_in_order:
  "leg3Candidates params =
     (let d = trim (secondDialAlias params)
      in if looksSip d then (if drop 4 d = [] then [d] else [d, drop 4 d])
         else if CHR ''@'' \<in> set d then [d, ''sip:'' @ d]
         else case customerSipDomainOf params of
                None \<Rightarrow> [d, ''sip:'' @ d]
              | Some h \<Rightarrow> [d @ ''@'' @ h, ''sip:'' @ d @ ''@'' @ h, d, ''sip:'' @ d]) \<and>
   (truthy (token w) \<and> list_all failedAttempt rs \<and> length rs < length (leg3Candidates params)
      \<longrightarrow>
      calls (settleEach (length (tasks w)) rs now (tryDialLeg3WithCandidates params w))
        = calls w @ map (dialCall w params) (take (Suc (length rs)) (leg3Candidates params)) \<and>
      (created \<noteq> [] \<longrightarrow>
         calls (settleEach (length (tasks w)) (rs @ [RCreated created]) now
                  (tryDialLeg3WithCandidates params w))
           = calls w @ map (dialCall w params) (take (Suc (length rs)) (leg3Candidates params)) \<and>
         dialTasks (settleEach (length (tasks w)) (rs @ [RCreated created]) now
                  (tryDialLeg3WithCandidates params w)) = dialTasks w \<and>
         leg3Dialed (settleEach (length (tasks w)) (rs @ [RCreated created]) now
                  (tryDialLeg3WithCandidates params w)))) \<and>
   (truthy (token w) \<and> list_all failedAttempt rs \<and> length rs = length (leg3Candidates params)
      \<longrightarrow>
      calls (settleEach (length (tasks w)) rs now (tryDialLeg3WithCandidates params w))
        = calls w @ map (dialCall w params) (leg3Candidates params) \<and>
      dialTasks (settleEach (length (tasks w)) rs now (tryDialLeg3WithCandidates params w))
        = dialTasks w)"
proof (intro conjI impI)
  show "leg3Candidates params =
     (let d = trim (secondDialAlias params)
      in if looksSip d then (if drop 4 d = [] then [d] else [d, drop 4 d])
         else if CHR ''@'' \<in> set d then [d, ''sip:'' @ d]
         else case customerSipDomainOf params of
                None \<Rightarrow> [d, ''sip:'' @ d]
              | Some h \<Rightarrow> [d @ ''@'' @ h, ''sip:'' @ d @ ''@'' @ h, d, ''sip:'' @ d])"
    by (rule leg3Candidates_cases)
next
  assume a: "truthy (token w) \<and> list_all failedAttempt rs
             \<and> length rs < length (leg3Candidates params)"
  then have s: "settleEach (length (tasks w)) rs now (tryDialLeg3WithCandidates params w) =
     w\<lparr>leg3Dialed := True, phase := Dialing_leg3,
        events := events w @ [PhaseEvent Dialing_leg3],
        calls := calls w @ map (dialCall w params) (take (Suc (length rs)) (leg3Candidates params)),
        tasks := (tasks w @ replicate (length rs) Finished)
                  @ [AwaitDialLeg3 params (drop (Suc (length rs)) (leg3Candidates params))
                       (lastThrown None rs)]\<rparr>"
    using sequence_fail[of w rs params now] by simp
  show "calls (settleEach (length (tasks w)) rs now (tryDialLeg3WithCandidates params w))
        = calls w @ map (dialCall w params) (take (Suc (length rs)) (leg3Candidates params))"
    by (simp add: s)
  assume c: "created \<noteq> []"
  let ?w1 = "settleEach (length (tasks w)) rs now (tryDialLeg3WithCandidates params w)"
  have t: "tasks ?w1 = (tasks w @ replicate (length rs) Finished)
                  @ [AwaitDialLeg3 params (drop (Suc (length rs)) (leg3Candidates params))
                       (lastThrown None rs)]"
    by (simp add: s)
  have e: "settleEach (length (tasks w)) (rs @ [RCreated created]) now
             (tryDialLeg3WithCandidates params w)
           = ?w1\<lparr>tasks := (tasks w @ replicate (length rs) Finished) @ [Finished]\<rparr>"
    using settle_success[OF t c, of now] by (simp add: settleEach_append)
  show "calls (settleEach (length (tasks w)) (rs @ [RCreated created]) now
                  (tryDialLeg3WithCandidates params w))
           = calls w @ map (dialCall w params) (take (Suc (length rs)) (leg3Candidates params))"
    unfolding e by (simp add: s)
  show "dialTasks (settleEach (length (tasks w)) (rs @ [RCreated created]) now
                  (tryDialLeg3WithCandidates params w)) = dialTasks w"
    unfolding e by (simp add: dialTasks_def)
  show "leg3Dialed (settleEach (length (tasks w)) (rs @ [RCreated created]) now
                  (tryDialLeg3WithCandidates params w))"
    unfolding e by (simp add: s)
next
  assume a: "truthy (token w) \<and> list_all failedAttempt rs
             \<and> length rs = length (leg3Candidates params)"
  then have s: "settleEach (length (tasks w)) rs now (tryDialLeg3WithCandidates params w) =
     leg3Failed (lastThrown None rs)
       (w\<lparr>leg3Dialed := True, phase := Dialing_leg3,
          events := events w @ [PhaseEvent Dialing_leg3],
          calls := calls w @ map (dialCall w params) (leg3Candidates params),
          tasks := tasks w @ replicate (length rs) Finished\<rparr>)"
    using sequence_exhausted[of w rs params now] by simp
  show "calls (settleEach (length (tasks w)) rs now (tryDialLeg3WithCandidates params w))
        = calls w @ map (dialCall w params) (leg3Candidates params)"
    by (simp add: s)
  show "dialTasks (settleEach (length (tasks w)) rs now (tryDialLeg3WithCandidates params w))
        = dialTasks w"
    by (simp add: s dialTasks_def)
qed

lemma exampleCandidates: "leg3Candidates exampleParams = [''ext@domain'', ''sip:ext@domain'']"
  by code_simp

theorem leg3_candidates_in_order_witness:
  "truthy (token readySession) \<and> list_all failedAttempt [RThrow ''busy''] \<and>
   length [RThrow ''busy''] < length (leg3Candidates exampleParams) \<and>
   [''leg3''] \<noteq> [] \<and>
   calls (settleEach (length (tasks readySession)) ([RThrow ''busy''] @ [RCreated [''leg3'']]) 0
            (tryDialLeg3WithCandidates exampleParams readySession))
     = calls readySession
       @ map (dialCall readySession exampleParams) [''ext@domain'', ''sip:ext@domain''] \<and>
   list_all failedAttempt [RThrow ''busy'', RCreated []] \<and>
   length [RThrow ''busy'', RCreated []] = length (leg3Candidates exampleParams) \<and>
   calls (settleEach (length (tasks readySession)) [RThrow ''busy'', RCreated []] 0
            (tryDialLeg3WithCandidates exampleParams readySession))
     = calls readySession
       @ map (dialCall readySession exampleParams) [''ext@domain'', ''sip:ext@domain'']"
proof -
  have h1: "truthy (token readySession)" by (simp add: readySession_def)
  have h2: "list_all failedAttempt [RThrow ''busy'']"
    "list_all failedAttempt [RThrow ''busy'', RCreated []]" by simp_all
  have h3: "length [RThrow ''busy''] < length (leg3Candidates exampleParams)"
    "length [RThrow ''busy'', RCreated []] = length (leg3Candidates exampleParams)"
    by (simp_all add: exampleCandidates)
  have h4: "[''leg3''] \<noteq> ([] :: string list)" by simp
  have t: "take (Suc (length [RThrow ''busy''])) (leg3Candidates exampleParams)
           = [''ext@domain'', ''sip:ext@domain'']" by (simp add: exampleCandidates)
  from leg3_candidates_in_order[of exampleParams readySession "[RThrow ''busy'']" 0 "[''leg3'']"]
    h1 h2 h3 h4
  have a: "calls (settleEach (length (tasks readySession))
                    ([RThrow ''busy''] @ [RCreated [''leg3'']]) 0
                    (tryDialLeg3WithCandidates exampleParams readySession))
     = calls readySession @ map (dialCall readySession exampleParams)
         (take (Suc (length [RThrow ''busy''])) (leg3Candidates exampleParams))"
    by blast
  from leg3_candidates_in_order[of exampleParams readySession "[RThrow ''busy'', RCreated []]" 0]
    h1 h2 h3
  have b: "calls (settleEach (length (tasks readySession)) [RThrow ''busy'', RCreated []] 0
                    (tryDialLeg3WithCandidates exampleParams readySession))
     = calls readySession @ map (dialCall readySession exampleParams)
         (leg3Candidates exampleParams)"
    by blast
  from a have a': "calls (settleEach (length (tasks readySession))
                    ([RThrow ''busy''] @ [RCreated [''leg3'']]) 0
                    (tryDialLeg3WithCandidates exampleParams readySession))
     = calls readySession @ map (dialCall readySession exampleParams)
         [''ext@domain'', ''sip:ext@domain'']"
    unfolding t .
  from b have b': "calls (settleEach (length (tasks readySession)) [RThrow ''busy'', RCreated []] 0
                    (tryDialLeg3WithCandidates exampleParams readySession))
     = calls readySession @ map (dialCall readySession exampleParams)
         [''ext@domain'', ''sip:ext@domain'']"
    unfolding exampleCandidates .
  from h1 h2 h3 h4 a' b' show ?thesis by blast
qed

text \<open>
  The claim C3 as written fails: with a domain hint, a bare alias does not give the list
  bare, domain-qualified, \<open>sip:\<close> domain-qualified.
\<close>

theorem leg3_candidates_counterexample:
  "leg3Candidates (exampleParams\<lparr>secondDialAlias := ''ext'', customerSipDomain := Some ''d.com''\<rparr>)
     = [''ext@d.com'', ''sip:ext@d.com'', ''ext'', ''sip:ext''] \<and>
   leg3Candidates (exampleParams\<lparr>secondDialAlias := ''ext'', customerSipDomain := Some ''d.com''\<rparr>)
     \<noteq> [''ext'', ''ext@d.com'', ''sip:ext@d.com'']"
  by code_simp


subsection \<open>Exhaustion of the candidates\<close>

lemma leg3Failed_effect:
  "\<not> leg3Dialed (leg3Failed le w)"
  "phase (leg3Failed le w) = Waiting_agent_answered"
  "events (leg3Failed le w) =
     events w @ [ErrorEvent (case le of Some e \<Rightarrow> e | None \<Rightarrow> routingError),
                 PhaseEvent Waiting_agent_answered]"
  "pendingLeg3Retry w = None \<Longrightarrow>
     timers (leg3Failed le w) = timers w @ [Timer (nextTimerId w) Leg3Retry 2500] \<and>
     pendingLeg3Retry (leg3Failed le w) = Some (nextTimerId w)"
  "pendingLeg3Retry w = Some i \<Longrightarrow> i \<noteq> 0 \<Longrightarrow>
     timers (leg3Failed le w) = timers w \<and> pendingLeg3Retry (leg3Failed le w) = Some i"
  by (simp_all add: leg3Failed_def Let_def basic_defs routingError_def split: option.splits)


lemma find_after: "find P xs = None \<Longrightarrow> find P (xs @ ys) = find P ys"
  by (induction xs) (auto split: if_splits)

lemma retry_fires:
  assumes "list_all (\<lambda>t. timerId t < n) ts" "timers v = ts @ [Timer n Leg3Retry ms]"
  shows "timerFires n j v = leg3RetryFires (v\<lparr>timers := ts\<rparr>)"
proof -
  from assms(1) have a: "\<forall>t\<in>set ts. timerId t \<noteq> n" by (auto simp: list_all_iff)
  then have "find (\<lambda>t. timerId t = n) ts = None" by (simp add: find_None_iff)
  then have f: "find (\<lambda>t. timerId t = n) (timers v) = Some (Timer n Leg3Retry ms)"
    by (simp add: assms(2) find_after)
  from a have "filter (\<lambda>t. timerId t \<noteq> n) ts = ts" by (simp add: filter_id_conv)
  then have "clearTimer n v = v\<lparr>timers := ts\<rparr>" by (simp add: clearTimer_def assms(2))
  with f show ?thesis by (simp add: timerFires_def)
qed

lemma leg3Failed_frame2:
  "stopped (leg3Failed le w) = stopped w" "agentReady (leg3Failed le w) = agentReady w"
  "lastStartParams (leg3Failed le w) = lastStartParams w" "token (leg3Failed le w) = token w"
  "calls (leg3Failed le w) = calls w" "keepAlive (leg3Failed le w) = keepAlive w"
  by (simp_all add: leg3Failed_def Let_def basic_defs)

lemma retry_redials:
  assumes "\<not> stopped v" "agentReady v" "\<not> leg3Dialed v" "lastStartParams v = Some p"
    "truthy (token v)"
  shows "leg3RetryFires v = tryDialLeg3WithCandidates p (v\<lparr>pendingLeg3Retry := None\<rparr>)"
    "leg3Dialed (leg3RetryFires v)" "phase (leg3RetryFires v) = Dialing_leg3"
    "calls (leg3RetryFires v) = calls v @ [dialCall v p (hd (leg3Candidates p))]"
    "tasks (leg3RetryFires v) = tasks v @ [AwaitDialLeg3 p (tl (leg3Candidates p)) None]"
    "pendingLeg3Retry (leg3RetryFires v) = None"
proof -
  let ?u = "v\<lparr>pendingLeg3Retry := None\<rparr>"
  from assms(1-4) show e: "leg3RetryFires v = tryDialLeg3WithCandidates p ?u"
    by (simp add: leg3RetryFires_def Let_def)
  from assms(5) have t: "truthy (token ?u)" by simp
  have d: "dialCall ?u p = dialCall v p"
    by (simp add: dialCall_def liveTokenOr_def currentToken_def fun_eq_iff)
  show "leg3Dialed (leg3RetryFires v)" "phase (leg3RetryFires v) = Dialing_leg3"
    "calls (leg3RetryFires v) = calls v @ [dialCall v p (hd (leg3Candidates p))]"
    "tasks (leg3RetryFires v) = tasks v @ [AwaitDialLeg3 p (tl (leg3Candidates p)) None]"
    "pendingLeg3Retry (leg3RetryFires v) = None"
    unfolding e tryDial_spawns[OF t] by (simp_all add: d)
qed

lemma retry_idle:
  assumes "stopped v \<or> \<not> agentReady v \<or> lastStartParams v = None"
  shows "leg3RetryFires v = v\<lparr>pendingLeg3Retry := None\<rparr>"
  using assms by (auto simp: leg3RetryFires_def Let_def)

lemma retry_callback:
  "find (\<lambda>t. timerId t = i) (timers x) = Some t \<and> timerKind t = Leg3Retry \<longrightarrow>
     timerFires i j x = leg3RetryFires (clearTimer i x) \<and>
     pendingLeg3Retry (timerFires i j x) = None \<and>
     (\<not> stopped x \<and> agentReady x \<and> \<not> leg3Dialed x \<and> lastStartParams x = Some q \<and>
      truthy (token x) \<longrightarrow>
        leg3Dialed (timerFires i j x) \<and>
        calls (timerFires i j x) = calls x @ [dialCall x q (hd (leg3Candidates q))]) \<and>
     (stopped x \<or> \<not> agentReady x \<or> leg3Dialed x \<or> lastStartParams x = None \<or>
      \<not> truthy (token x) \<longrightarrow>
        timerFires i j x = (clearTimer i x)\<lparr>pendingLeg3Retry := None\<rparr>)"
proof
  assume a: "find (\<lambda>t. timerId t = i) (timers x) = Some t \<and> timerKind t = Leg3Retry"
  let ?c = "clearTimer i x"
  from a have f: "timerFires i j x = leg3RetryFires ?c" by (simp add: timerFires_def)
  have c: "stopped ?c = stopped x" "agentReady ?c = agentReady x" "leg3Dialed ?c = leg3Dialed x"
    "lastStartParams ?c = lastStartParams x" "token ?c = token x" "calls ?c = calls x"
    by (simp_all add: clearTimer_def)
  have d: "dialCall ?c q = dialCall x q"
    by (simp add: dialCall_def liveTokenOr_def currentToken_def fun_eq_iff clearTimer_def)
  have redial: "leg3Dialed (leg3RetryFires ?c) \<and>
      calls (leg3RetryFires ?c) = calls x @ [dialCall x q (hd (leg3Candidates q))] \<and>
      pendingLeg3Retry (leg3RetryFires ?c) = None"
    if g: "\<not> stopped x \<and> agentReady x \<and> \<not> leg3Dialed x \<and> lastStartParams x = Some q \<and>
      truthy (token x)" for q
  proof -
    from g c have h: "\<not> stopped ?c" "agentReady ?c" "\<not> leg3Dialed ?c"
      "lastStartParams ?c = Some q" "truthy (token ?c)" by simp_all
    have "dialCall ?c q = dialCall x q"
      by (simp add: dialCall_def liveTokenOr_def currentToken_def fun_eq_iff clearTimer_def)
    with retry_redials(2,4,6)[OF h] c(6) show ?thesis by simp
  qed
  have idle: "leg3RetryFires ?c = ?c\<lparr>pendingLeg3Retry := None\<rparr>"
    if "stopped x \<or> \<not> agentReady x \<or> leg3Dialed x \<or> lastStartParams x = None \<or>
      \<not> truthy (token x)"
    using that c
    by (auto simp: leg3RetryFires_def Let_def tryDialLeg3WithCandidates_def)
  have p: "pendingLeg3Retry (leg3RetryFires ?c) = None"
  proof (cases "\<not> stopped x \<and> agentReady x \<and> \<not> leg3Dialed x \<and> lastStartParams x \<noteq> None \<and>
      truthy (token x)")
    case True
    then obtain q' where "lastStartParams x = Some q'" by auto
    with True redial[of q'] show ?thesis by simp
  next
    case False
    then have "stopped x \<or> \<not> agentReady x \<or> leg3Dialed x \<or> lastStartParams x = None \<or>
      \<not> truthy (token x)" by auto
    from idle[OF this] show ?thesis by simp
  qed
  show "timerFires i j x = leg3RetryFires (clearTimer i x) \<and>
     pendingLeg3Retry (timerFires i j x) = None \<and>
     (\<not> stopped x \<and> agentReady x \<and> \<not> leg3Dialed x \<and> lastStartParams x = Some q \<and>
      truthy (token x) \<longrightarrow>
        leg3Dialed (timerFires i j x) \<and>
        calls (timerFires i j x) = calls x @ [dialCall x q (hd (leg3Candidates q))]) \<and>
     (stopped x \<or> \<not> agentReady x \<or> leg3Dialed x \<or> lastStartParams x = None \<or>
      \<not> truthy (token x) \<longrightarrow>
        timerFires i j x = (clearTimer i x)\<lparr>pendingLeg3Retry := None\<rparr>)"
    unfolding f using redial[of q] idle p by blast
qed

lemma exhausted_then_retry:
  "truthy (token w) \<and> list_all failedAttempt rs \<and> length rs = length (leg3Candidates params)
   \<longrightarrow>
   (let w' = settleEach (length (tasks w)) rs now (tryDialLeg3WithCandidates params w)
    in \<not> leg3Dialed w' \<and> phase w' = Waiting_agent_answered \<and>
       events w' = events w @
         [PhaseEvent Dialing_leg3,
          ErrorEvent (case lastThrown None rs of Some e \<Rightarrow> e | None \<Rightarrow> routingError),
          PhaseEvent Waiting_agent_answered] \<and>
       (pendingLeg3Retry w = None \<longrightarrow>
          timers w' = timers w @ [Timer (nextTimerId w) Leg3Retry 2500] \<and>
          pendingLeg3Retry w' = Some (nextTimerId w) \<and>
          (timersSound w \<longrightarrow>
             timerFires (nextTimerId w) j w' = leg3RetryFires (w'\<lparr>timers := timers w\<rparr>) \<and>
             pendingLeg3Retry (timerFires (nextTimerId w) j w') = None \<and>
             timers (timerFires (nextTimerId w) j w') = timers w \<and>
             (\<not> stopped w \<and> agentReady w \<and> lastStartParams w = Some p \<longrightarrow>
                leg3Dialed (timerFires (nextTimerId w) j w') \<and>
                phase (timerFires (nextTimerId w) j w') = Dialing_leg3 \<and>
                calls (timerFires (nextTimerId w) j w')
                  = calls w' @ [dialCall w p (hd (leg3Candidates p))] \<and>
                tasks (timerFires (nextTimerId w) j w')
                  = tasks w' @ [AwaitDialLeg3 p (tl (leg3Candidates p)) None]) \<and>
             (stopped w \<or> \<not> agentReady w \<or> lastStartParams w = None \<longrightarrow>
                timerFires (nextTimerId w) j w'
                  = w'\<lparr>timers := timers w, pendingLeg3Retry := None\<rparr>))) \<and>
       (\<forall>i. pendingLeg3Retry w = Some i \<and> i \<noteq> 0 \<longrightarrow>
          timers w' = timers w \<and> pendingLeg3Retry w' = Some i))"
proof
  assume a: "truthy (token w) \<and> list_all failedAttempt rs
             \<and> length rs = length (leg3Candidates params)"
  let ?v = "w\<lparr>leg3Dialed := True, phase := Dialing_leg3,
          events := events w @ [PhaseEvent Dialing_leg3],
          calls := calls w @ map (dialCall w params) (leg3Candidates params),
          tasks := tasks w @ replicate (length rs) Finished\<rparr>"
  let ?w' = "leg3Failed (lastThrown None rs) ?v"
  let ?n = "nextTimerId w"
  from a have s: "settleEach (length (tasks w)) rs now (tryDialLeg3WithCandidates params w) = ?w'"
    using sequence_exhausted[of w rs params now] by simp
  have v: "events ?v = events w @ [PhaseEvent Dialing_leg3]" "timers ?v = timers w"
    "pendingLeg3Retry ?v = pendingLeg3Retry w" "nextTimerId ?v = nextTimerId w"
    by simp_all
  note e = leg3Failed_effect[where le="lastThrown None rs" and w="?v"]
  have f: "stopped ?w' = stopped w" "agentReady ?w' = agentReady w"
    "lastStartParams ?w' = lastStartParams w" "token ?w' = token w"
    "keepAlive ?w' = keepAlive w"
    by (simp_all add: leg3Failed_frame2)
  have basic: "\<not> leg3Dialed ?w' \<and> phase ?w' = Waiting_agent_answered \<and>
        events ?w' = events w @
          [PhaseEvent Dialing_leg3,
           ErrorEvent (case lastThrown None rs of Some e \<Rightarrow> e | None \<Rightarrow> routingError),
           PhaseEvent Waiting_agent_answered] \<and>
        (\<forall>i. pendingLeg3Retry w = Some i \<and> i \<noteq> 0 \<longrightarrow>
           timers ?w' = timers w \<and> pendingLeg3Retry ?w' = Some i)"
    using e v by auto
  have sched: "timers ?w' = timers w @ [Timer ?n Leg3Retry 2500] \<and>
           pendingLeg3Retry ?w' = Some ?n" if "pendingLeg3Retry w = None"
    using e(4) v that by simp
  have fires: "timerFires ?n j ?w' = leg3RetryFires (?w'\<lparr>timers := timers w\<rparr>)"
    if "pendingLeg3Retry w = None" "timersSound w"
    using retry_fires[OF timersSound_below[OF that(2)], of ?w' 2500 j] sched[OF that(1)] by simp
  let ?u = "?w'\<lparr>timers := timers w\<rparr>"
  have u: "stopped ?u = stopped w" "agentReady ?u = agentReady w" "\<not> leg3Dialed ?u"
    "lastStartParams ?u = lastStartParams w" "truthy (token ?u)" "calls ?u = calls ?w'"
    "tasks ?u = tasks ?w'"
    using f e(1) a by simp_all
  have du: "dialCall ?u p = dialCall w p"
    by (simp add: dialCall_def liveTokenOr_def currentToken_def fun_eq_iff f)
  have redial: "leg3Dialed (leg3RetryFires ?u) \<and> phase (leg3RetryFires ?u) = Dialing_leg3 \<and>
      calls (leg3RetryFires ?u) = calls ?w' @ [dialCall w p (hd (leg3Candidates p))] \<and>
      tasks (leg3RetryFires ?u) = tasks ?w' @ [AwaitDialLeg3 p (tl (leg3Candidates p)) None]"
    if "\<not> stopped w \<and> agentReady w \<and> lastStartParams w = Some p"
  proof -
    from that u have g: "\<not> stopped ?u" "agentReady ?u" "lastStartParams ?u = Some p" by simp_all
    from retry_redials(2-5)[OF g(1,2) u(3) g(3) u(5)] show ?thesis
      unfolding du u(6,7) by simp
  qed
  have idle: "leg3RetryFires ?u = ?w'\<lparr>timers := timers w, pendingLeg3Retry := None\<rparr>"
    if "stopped w \<or> \<not> agentReady w \<or> lastStartParams w = None"
  proof -
    from that u have "stopped ?u \<or> \<not> agentReady ?u \<or> lastStartParams ?u = None" by simp
    from retry_idle[OF this] show ?thesis by simp
  qed
  have cleared: "pendingLeg3Retry (leg3RetryFires ?u) = None \<and>
      timers (leg3RetryFires ?u) = timers w"
  proof (cases "\<not> stopped ?u \<and> agentReady ?u \<and> lastStartParams ?u \<noteq> None")
    case True
    then obtain q where q: "lastStartParams ?u = Some q" by auto
    from True have g: "\<not> stopped ?u" "agentReady ?u" by simp_all
    have t: "truthy (token (?u\<lparr>pendingLeg3Retry := None\<rparr>))" using u(5) by simp
    show ?thesis
      unfolding retry_redials(1)[OF g u(3) q u(5)] tryDial_spawns[OF t] by simp
  next
    case False
    then have "stopped ?u \<or> \<not> agentReady ?u \<or> lastStartParams ?u = None" by auto
    from retry_idle[OF this] show ?thesis by simp
  qed
  show "let w' = settleEach (length (tasks w)) rs now (tryDialLeg3WithCandidates params w)
     in \<not> leg3Dialed w' \<and> phase w' = Waiting_agent_answered \<and>
        events w' = events w @
          [PhaseEvent Dialing_leg3,
           ErrorEvent (case lastThrown None rs of Some e \<Rightarrow> e | None \<Rightarrow> routingError),
           PhaseEvent Waiting_agent_answered] \<and>
        (pendingLeg3Retry w = None \<longrightarrow>
           timers w' = timers w @ [Timer (nextTimerId w) Leg3Retry 2500] \<and>
           pendingLeg3Retry w' = Some (nextTimerId w) \<and>
           (timersSound w \<longrightarrow>
              timerFires (nextTimerId w) j w' = leg3RetryFires (w'\<lparr>timers := timers w\<rparr>) \<and>
              pendingLeg3Retry (timerFires (nextTimerId w) j w') = None \<and>
              timers (timerFires (nextTimerId w) j w') = timers w \<and>
              (\<not> stopped w \<and> agentReady w \<and> lastStartParams w = Some p \<longrightarrow>
                 leg3Dialed (timerFires (nextTimerId w) j w') \<and>
                 phase (timerFires (nextTimerId w) j w') = Dialing_leg3 \<and>
                 calls (timerFires (nextTimerId w) j w')
                   = calls w' @ [dialCall w p (hd (leg3Candidates p))] \<and>
                 tasks (timerFires (nextTimerId w) j w')
                   = tasks w' @ [AwaitDialLeg3 p (tl (leg3Candidates p)) None]) \<and>
              (stopped w \<or> \<not> agentReady w \<or> lastStartParams w = None \<longrightarrow>
                 timerFires (nextTimerId w) j w'
                   = w'\<lparr>timers := timers w, pendingLeg3Retry := None\<rparr>))) \<and>
        (\<forall>i. pendingLeg3Retry w = Some i \<and> i \<noteq> 0 \<longrightarrow>
           timers w' = timers w \<and> pendingLeg3Retry w' = Some i)"
    unfolding Let_def s
  proof (intro conjI impI allI)
    show "\<not> leg3Dialed ?w'" "phase ?w' = Waiting_agent_answered"
      "events ?w' = events w @
          [PhaseEvent Dialing_leg3,
           ErrorEvent (case lastThrown None rs of Some e \<Rightarrow> e | None \<Rightarrow> routingError),
           PhaseEvent Waiting_agent_answered]"
      using basic by blast+
  next
    fix i assume "pendingLeg3Retry w = Some i \<and> i \<noteq> 0"
    with basic show "timers ?w' = timers w" "pendingLeg3Retry ?w' = Some i" by blast+
  next
    assume n: "pendingLeg3Retry w = None"
    from sched[OF n] show "timers ?w' = timers w @ [Timer ?n Leg3Retry 2500]"
      "pendingLeg3Retry ?w' = Some ?n" by blast+
    assume o: "timersSound w"
    note tf = fires[OF n o]
    show "timerFires ?n j ?w' = leg3RetryFires ?u" by (rule tf)
    from cleared show "pendingLeg3Retry (timerFires ?n j ?w') = None"
      "timers (timerFires ?n j ?w') = timers w" unfolding tf by blast+
    {
      assume "\<not> stopped w \<and> agentReady w \<and> lastStartParams w = Some p"
      from redial[OF this] show "leg3Dialed (timerFires ?n j ?w')"
        "phase (timerFires ?n j ?w') = Dialing_leg3"
        "calls (timerFires ?n j ?w') = calls ?w' @ [dialCall w p (hd (leg3Candidates p))]"
        "tasks (timerFires ?n j ?w')
           = tasks ?w' @ [AwaitDialLeg3 p (tl (leg3Candidates p)) None]"
        unfolding tf by blast+
    }
    {
      assume "stopped w \<or> \<not> agentReady w \<or> lastStartParams w = None"
      from idle[OF this]
      show "timerFires ?n j ?w' = ?w'\<lparr>timers := timers w, pendingLeg3Retry := None\<rparr>"
        unfolding tf .
    }
  qed
qed


text \<open>
  C4 (as amended). When every candidate has been attempted without success, the engine clears
  \<open>leg3Dialed\<close>; schedules one retry timeout of 2500 ms, unless one is pending already, in
  which case it schedules none; emits one error event, which carries the error of the last
  attempt that threw, or the routing error when no attempt threw; and sets the phase to
  \<open>waiting_agent_answered\<close>. Whenever a retry timeout fires it clears \<open>pendingLeg3Retry\<close>
  and, if the engine is not stopped, the agent is ready, \<open>leg3Dialed\<close> is clear, start
  parameters are stored and there is a token, sets \<open>leg3Dialed\<close> and dials the first
  candidate again; otherwise it does nothing more. The timeout scheduled is such a timeout:
  fired on the state the exhaustion leaves, it does that and leaves the timers as they were
  before it was scheduled.
\<close>

theorem leg3_exhaustion:
  "timersSound (run acts newOrchestrator) \<and>
   (truthy (token w) \<and> list_all failedAttempt rs \<and> length rs = length (leg3Candidates params)
    \<longrightarrow>
    (let w' = settleEach (length (tasks w)) rs now (tryDialLeg3WithCandidates params w)
     in \<not> leg3Dialed w' \<and> phase w' = Waiting_agent_answered \<and>
        events w' = events w @
          [PhaseEvent Dialing_leg3,
           ErrorEvent (case lastThrown None rs of Some e \<Rightarrow> e | None \<Rightarrow> routingError),
           PhaseEvent Waiting_agent_answered] \<and>
        (pendingLeg3Retry w = None \<longrightarrow>
           timers w' = timers w @ [Timer (nextTimerId w) Leg3Retry 2500] \<and>
           pendingLeg3Retry w' = Some (nextTimerId w) \<and>
           (timersSound w \<longrightarrow>
              timerFires (nextTimerId w) j w' = leg3RetryFires (w'\<lparr>timers := timers w\<rparr>) \<and>
              pendingLeg3Retry (timerFires (nextTimerId w) j w') = None \<and>
              timers (timerFires (nextTimerId w) j w') = timers w \<and>
              (\<not> stopped w \<and> agentReady w \<and> lastStartParams w = Some p \<longrightarrow>
                 leg3Dialed (timerFires (nextTimerId w) j w') \<and>
                 phase (timerFires (nextTimerId w) j w') = Dialing_leg3 \<and>
                 calls (timerFires (nextTimerId w) j w')
                   = calls w' @ [dialCall w p (hd (leg3Candidates p))] \<and>
                 tasks (timerFires (nextTimerId w) j w')
                   = tasks w' @ [AwaitDialLeg3 p (tl (leg3Candidates p)) None]) \<and>
              (stopped w \<or> \<not> agentReady w \<or> lastStartParams w = None \<longrightarrow>
                 timerFires (nextTimerId w) j w'
                   = w'\<lparr>timers := timers w, pendingLeg3Retry := None\<rparr>))) \<and>
        (\<forall>i. pendingLeg3Retry w = Some i \<and> i \<noteq> 0 \<longrightarrow>
           timers w' = timers w \<and> pendingLeg3Retry w' = Some i))) \<and>
   (find (\<lambda>t. timerId t = i) (timers x) = Some t \<and> timerKind t = Leg3Retry \<longrightarrow>
      timerFires i j' x = leg3RetryFires (clearTimer i x) \<and>
      pendingLeg3Retry (timerFires i j' x) = None \<and>
      (\<not> stopped x \<and> agentReady x \<and> \<not> leg3Dialed x \<and> lastStartParams x = Some q \<and>
       truthy (token x) \<longrightarrow>
         leg3Dialed (timerFires i j' x) \<and>
         calls (timerFires i j' x) = calls x @ [dialCall x q (hd (leg3Candidates q))]) \<and>
      (stopped x \<or> \<not> agentReady x \<or> leg3Dialed x \<or> lastStartParams x = None \<or>
       \<not> truthy (token x) \<longrightarrow>
         timerFires i j' x = (clearTimer i x)\<lparr>pendingLeg3Retry := None\<rparr>))"
proof (intro conjI)
  show "timersSound (run acts newOrchestrator)"
    by (rule timersSound_run[OF timersSound_new])
qed (rule exhausted_then_retry, rule retry_callback)

lemma readySession_sound: "timersSound readySession"
  by (simp add: timersSound_def timersOwned_def timersApart_def readySession_def
      newOrchestrator_def keepAliveTimer_def)

theorem leg3_exhaustion_witness:
  "truthy (token readySession) \<and> list_all failedAttempt [RThrow ''busy'', RCreated []] \<and>
   length [RThrow ''busy'', RCreated []] = length (leg3Candidates exampleParams) \<and>
   pendingLeg3Retry readySession = None \<and> timersSound readySession \<and>
   \<not> stopped readySession \<and> agentReady readySession \<and>
   lastStartParams readySession = Some exampleParams \<and>
   (let w' = settleEach (length (tasks readySession)) [RThrow ''busy'', RCreated []] 0
               (tryDialLeg3WithCandidates exampleParams readySession)
    in \<not> leg3Dialed w' \<and> phase w' = Waiting_agent_answered \<and>
       events w' = events readySession @
         [PhaseEvent Dialing_leg3, ErrorEvent ''busy'', PhaseEvent Waiting_agent_answered] \<and>
       timers w' = timers readySession @ [Timer (nextTimerId readySession) Leg3Retry 2500] \<and>
       pendingLeg3Retry (timerFires (nextTimerId readySession) 0 w') = None \<and>
       leg3Dialed (timerFires (nextTimerId readySession) 0 w') \<and>
       calls (timerFires (nextTimerId readySession) 0 w')
         = calls w' @ [dialCall readySession exampleParams (hd (leg3Candidates exampleParams))]) \<and>
   truthy (token (readySession\<lparr>pendingLeg3Retry := Some 4\<rparr>)) \<and>
   pendingLeg3Retry (readySession\<lparr>pendingLeg3Retry := Some 4\<rparr>) = Some 4 \<and> (4::nat) \<noteq> 0 \<and>
   (let w' = settleEach (length (tasks (readySession\<lparr>pendingLeg3Retry := Some 4\<rparr>)))
               [RThrow ''busy'', RCreated []] 0
               (tryDialLeg3WithCandidates exampleParams
                  (readySession\<lparr>pendingLeg3Retry := Some 4\<rparr>))
    in timers w' = timers (readySession\<lparr>pendingLeg3Retry := Some 4\<rparr>) \<and>
       pendingLeg3Retry w' = Some 4) \<and>
   truthy (token (readySession\<lparr>stopped := True\<rparr>)) \<and>
   pendingLeg3Retry (readySession\<lparr>stopped := True\<rparr>) = None \<and>
   timersSound (readySession\<lparr>stopped := True\<rparr>) \<and> stopped (readySession\<lparr>stopped := True\<rparr>) \<and>
   (let w' = settleEach (length (tasks (readySession\<lparr>stopped := True\<rparr>)))
               [RThrow ''busy'', RCreated []] 0
               (tryDialLeg3WithCandidates exampleParams (readySession\<lparr>stopped := True\<rparr>))
    in timerFires (nextTimerId (readySession\<lparr>stopped := True\<rparr>)) 0 w'
         = w'\<lparr>timers := timers (readySession\<lparr>stopped := True\<rparr>), pendingLeg3Retry := None\<rparr>) \<and>
   find (\<lambda>t. timerId t = 1)
     (timers (readySession\<lparr>timers := [Timer 1 Leg3Retry 2500], pendingLeg3Retry := Some 1\<rparr>))
     = Some (Timer 1 Leg3Retry 2500) \<and>
   timerKind (Timer 1 Leg3Retry 2500) = Leg3Retry \<and>
   \<not> leg3Dialed (readySession\<lparr>timers := [Timer 1 Leg3Retry 2500], pendingLeg3Retry := Some 1\<rparr>) \<and>
   leg3Dialed
     (timerFires 1 0
        (readySession\<lparr>timers := [Timer 1 Leg3Retry 2500], pendingLeg3Retry := Some 1\<rparr>)) \<and>
   pendingLeg3Retry
     (timerFires 1 0
        (readySession\<lparr>timers := [Timer 1 Leg3Retry 2500], pendingLeg3Retry := Some 1\<rparr>))
     = None"
proof -
  let ?x = "readySession\<lparr>timers := [Timer 1 Leg3Retry 2500], pendingLeg3Retry := Some 1\<rparr>"
  have k1: "find (\<lambda>t. timerId t = 1) (timers ?x) = Some (Timer 1 Leg3Retry 2500)"
    "timerKind (Timer 1 Leg3Retry 2500) = Leg3Retry" by simp_all
  have k2: "\<not> stopped ?x" "agentReady ?x" "\<not> leg3Dialed ?x"
    "lastStartParams ?x = Some exampleParams" "truthy (token ?x)"
    by (simp_all add: readySession_def newOrchestrator_def)
  from leg3_exhaustion[where x="?x" and i=1 and t="Timer 1 Leg3Retry 2500" and j'=0
      and q=exampleParams] k1 k2
  have k: "leg3Dialed (timerFires 1 0 ?x)" "pendingLeg3Retry (timerFires 1 0 ?x) = None"
    by blast+
  let ?rs = "[RThrow ''busy'', RCreated []]"
  let ?v = "readySession\<lparr>pendingLeg3Retry := Some 4\<rparr>"
  let ?s = "readySession\<lparr>stopped := True\<rparr>"
  have h1: "truthy (token readySession)" "truthy (token ?v)" "truthy (token ?s)"
    by (simp_all add: readySession_def)
  have h2: "list_all failedAttempt ?rs" by simp
  have h3: "length ?rs = length (leg3Candidates exampleParams)" by (simp add: exampleCandidates)
  have h4: "pendingLeg3Retry readySession = None" "pendingLeg3Retry ?s = None"
    by (simp_all add: readySession_def newOrchestrator_def)
  have h5: "pendingLeg3Retry ?v = Some 4" "(4::nat) \<noteq> 0" by simp_all
  have h6: "timersSound readySession" by (rule readySession_sound)
  have h7: "timersSound ?s"
    using readySession_sound by (simp add: timersSound_def)
  have h8: "\<not> stopped readySession" "agentReady readySession"
    "lastStartParams readySession = Some exampleParams" "stopped ?s"
    by (simp_all add: readySession_def newOrchestrator_def)
  have l: "(case lastThrown None ?rs of Some e \<Rightarrow> e | None \<Rightarrow> routingError) = ''busy''"
    by simp
  from leg3_exhaustion[where w=readySession and rs="?rs" and params=exampleParams and now=0
      and j=0 and p=exampleParams] h1 h2 h3 h4 h6 h8
  have a: "let w' = settleEach (length (tasks readySession)) ?rs 0
               (tryDialLeg3WithCandidates exampleParams readySession)
    in \<not> leg3Dialed w' \<and> phase w' = Waiting_agent_answered \<and>
       events w' = events readySession @
         [PhaseEvent Dialing_leg3, ErrorEvent ''busy'', PhaseEvent Waiting_agent_answered] \<and>
       timers w' = timers readySession @ [Timer (nextTimerId readySession) Leg3Retry 2500] \<and>
       pendingLeg3Retry (timerFires (nextTimerId readySession) 0 w') = None \<and>
       leg3Dialed (timerFires (nextTimerId readySession) 0 w') \<and>
       calls (timerFires (nextTimerId readySession) 0 w')
         = calls w' @ [dialCall readySession exampleParams (hd (leg3Candidates exampleParams))]"
    unfolding l Let_def by blast
  from leg3_exhaustion[where w="?v" and rs="?rs" and params=exampleParams and now=0] h1 h2 h3 h5
  have b: "let w' = settleEach (length (tasks ?v)) ?rs 0
               (tryDialLeg3WithCandidates exampleParams ?v)
    in timers w' = timers ?v \<and> pendingLeg3Retry w' = Some 4"
    unfolding Let_def by blast
  from leg3_exhaustion[where w="?s" and rs="?rs" and params=exampleParams and now=0 and j=0]
    h1 h2 h3 h4 h7 h8
  have c: "let w' = settleEach (length (tasks ?s)) ?rs 0
               (tryDialLeg3WithCandidates exampleParams ?s)
    in timerFires (nextTimerId ?s) 0 w' = w'\<lparr>timers := timers ?s, pendingLeg3Retry := None\<rparr>"
    unfolding Let_def by blast
  from h1 h2 h3 h4 h5 h6 h7 h8 a b c k1 k2(3) k show ?thesis by blast
qed

text \<open>
  The claim C4 as written fails where it has the error event carry the last failure. In
  \<open>emptyLastRun\<close> the first candidate is refused with the error \<open>busy\<close> and the second, the
  last, creates nothing: the event carries \<open>busy\<close>, the error of the first attempt.
\<close>

theorem leg3_exhaustion_counterexample:
  "events (run emptyLastRun newOrchestrator)
     = [PhaseEvent Getting_token, PhaseEvent Dialing_leg1, PhaseEvent Waiting_agent_answered,
        RosterEvent exampleRoster, PhaseEvent Dialing_leg3, ErrorEvent ''busy'',
        PhaseEvent Waiting_agent_answered] \<and>
   ErrorEvent ''busy'' \<noteq> ErrorEvent (lastFailure [RThrow ''busy'', RCreated []])"
  by (simp add: emptyLastRun_def lastFailure_def routingError_def newOrchestrator_def
      exampleParams_def start_defs basic_defs roster_defs leg3Failed_def)

subsection \<open>The token a request carries\<close>

lemma client_dial_calls:
  "calls (client_dial tok alias dest opts w) =
     calls w @ [Dial (if truthy (currentToken w) then currentToken w else tok) alias dest opts]"
  by (simp add: client_dial_def Let_def liveTokenOr_def logCall_def)

lemma client_listParticipants_calls:
  "calls (client_listParticipants tok alias w) =
     calls w @ [ListParticipants (if truthy (currentToken w) then currentToken w else tok) alias]"
  by (simp add: client_listParticipants_def Let_def liveTokenOr_def logCall_def)

lemma currentToken_stopKeepAlive [simp]: "currentToken (stopKeepAlive w) = None"
  by (simp add: currentToken_def stopKeepAlive_def split: option.splits)

lemma client_disconnectAll_calls:
  "calls (client_disconnectAll tok alias w) = calls w @ [Disconnect tok alias]"
  by (simp add: client_disconnectAll_def Let_def liveTokenOr_def logCall_def)

lemma client_releaseToken_calls:
  "calls (client_releaseToken tok alias w) = calls w @ [ReleaseToken tok alias]"
  by (simp add: client_releaseToken_def Let_def liveTokenOr_def logCall_def)

text \<open>
  C10 fails on the code for \<open>disconnectAll\<close> and \<open>releaseToken\<close>. The keepalive holds
  token \<open>T\<close>, a refresh rotates it to \<open>T2\<close>, the engine still holds \<open>T\<close>: \<open>dial\<close> and
  \<open>listParticipants\<close> send \<open>T2\<close>, while \<open>disconnectAll\<close> (through \<open>hardEnd\<close>) and
  \<open>releaseToken\<close> (through \<open>retireLeg0\<close>) stop the keepalive first and send \<open>T\<close>.
\<close>

theorem rotated_token_not_sent_on_release:
  "currentToken (tick_resume 0 ''T2'' rotatingSession) = Some ''T2'' \<and>
   token (tick_resume 0 ''T2'' rotatingSession) = Some ''T'' \<and>
   calls (client_dial (Some ''T'') ''A'' ''ext@domain'' (leg3Opts exampleParams)
            (tick_resume 0 ''T2'' rotatingSession))
     = [Dial (Some ''T2'') ''A'' ''ext@domain'' (leg3Opts exampleParams)] \<and>
   calls (refreshFromServer (tick_resume 0 ''T2'' rotatingSession))
     = [ListParticipants (Some ''T2'') ''A''] \<and>
   calls (hardEnd (tick_resume 0 ''T2'' rotatingSession)) = [Disconnect (Some ''T'') ''A''] \<and>
   calls (retireLeg0 (tick_resume 0 ''T2'' rotatingSession)) = [ReleaseToken (Some ''T'') ''A'']"
  by (simp add: rotatingSession_def readySession_def newOrchestrator_def tick_resume_def
      currentToken_def client_dial_calls client_listParticipants_calls
      client_disconnectAll_calls client_releaseToken_calls
      refreshFromServer_def hardEnd_def retireLeg0_def spawn_def sse_close_def Let_def)

theorem rotated_token_not_sent_on_release_witness:
  "currentToken (tick_resume 0 ''T2'' rotatingSession) = Some ''T2'' \<and>
   calls (hardEnd (tick_resume 0 ''T2'' rotatingSession)) = [Disconnect (Some ''T'') ''A''] \<and>
   calls (retireLeg0 (tick_resume 0 ''T2'' rotatingSession)) = [ReleaseToken (Some ''T'') ''A'']"
  using rotated_token_not_sent_on_release by blast

subsection \<open>An empty result of \<open>dial\<close>\<close>

lemma leg3_empty_result_is_failure:
  "resume (AwaitDialLeg3 params rest lastErr) (RCreated []) now w = dialLoop params rest lastErr w"
  by simp

lemma leg1_result_discarded:
  "resume (AwaitDialLeg1 params) (RCreated created) now w = setPhase Waiting_agent_answered w"
  by (simp add: start_dialed_def)

text \<open>
  C7 fails on the code for leg 1. \<open>start\<close> with a token request that succeeds and a leg-1
  \<open>dial\<close> that returns the empty list ends in phase \<open>waiting_agent_answered\<close> with no error
  event, as it does when \<open>dial\<close> returns an identifier; a leg-1 \<open>dial\<close> that throws
  ends in phase \<open>error\<close> with an error event.
\<close>

theorem leg1_empty_result_accepted:
  "phase (run [(0, Start exampleParams), (0, Settle 0 (RToken ''T'')),
               (0, Settle (Suc (Suc 0)) (RCreated []))] newOrchestrator)
     = Waiting_agent_answered \<and>
   events (run [(0, Start exampleParams), (0, Settle 0 (RToken ''T'')),
                (0, Settle (Suc (Suc 0)) (RCreated []))] newOrchestrator)
     = [PhaseEvent Getting_token, PhaseEvent Dialing_leg1, PhaseEvent Waiting_agent_answered] \<and>
   events (run [(0, Start exampleParams), (0, Settle 0 (RToken ''T'')),
                (0, Settle (Suc (Suc 0)) (RCreated [''leg1'']))] newOrchestrator)
     = [PhaseEvent Getting_token, PhaseEvent Dialing_leg1, PhaseEvent Waiting_agent_answered] \<and>
   events (run [(0, Start exampleParams), (0, Settle 0 (RToken ''T'')),
                (0, Settle (Suc (Suc 0)) (RThrow ''dial failed: 404''))] newOrchestrator)
     = [PhaseEvent Getting_token, PhaseEvent Dialing_leg1, ErrorEvent ''dial failed: 404'',
        PhaseEvent Error]"
  by (simp add: newOrchestrator_def exampleParams_def start_defs basic_defs)

theorem leg1_empty_result_accepted_witness:
  "phase (run [(0, Start exampleParams), (0, Settle 0 (RToken ''T'')),
               (0, Settle (Suc (Suc 0)) (RCreated []))] newOrchestrator)
     = Waiting_agent_answered \<and>
   events (run [(0, Start exampleParams), (0, Settle 0 (RToken ''T'')),
                (0, Settle (Suc (Suc 0)) (RCreated []))] newOrchestrator)
     = [PhaseEvent Getting_token, PhaseEvent Dialing_leg1, PhaseEvent Waiting_agent_answered]"
  using leg1_empty_result_accepted by blast

subsection \<open>Retirement of leg 0\<close>

lemma retireLeg0_leg0Retired [simp]: "leg0Retired (retireLeg0 w)"
  by (simp add: retireLeg0_def Let_def)

lemma legChecks_leg0Retired: "leg0Retired w \<Longrightarrow> leg0Retired (legChecks r p now w)"
  by (simp add: legChecks_def Let_def)

lemma onRoster_leg0Retired: "leg0Retired w \<Longrightarrow> leg0Retired (onRoster r p now w)"
  by (simp add: onRoster_def Let_def legChecks_leg0Retired)

lemma ingest_leg0Retired:
  "leg0Retired w \<Longrightarrow> leg0Retired (ingestParticipantsSnapshot raw now w)"
  by (simp add: ingestParticipantsSnapshot_def onRoster_leg0Retired split: option.splits)

lemma resume_leg0Retired: "leg0Retired w \<Longrightarrow> leg0Retired (resume t r now w)"
  by (cases "(t, r, now, w)" rule: resume.cases)
     (simp_all add: refreshFromServer_resume_def ingest_leg0Retired)

lemma step_leg0Retired: "\<not> isStart a \<Longrightarrow> leg0Retired w \<Longrightarrow> leg0Retired (step now a w)"
  by (cases a) (simp_all add: sseSnapshot_def onRoster_leg0Retired ingest_leg0Retired
      settle_def resume_leg0Retired timerFires_def split: option.splits timerKind.splits)

lemma retireLeg0_with_credential:
  assumes "\<not> leg0Retired w" "truthy (token w)" "truthy (currentAlias w)"
  shows "calls (retireLeg0 w) = calls w @ [ReleaseToken (token w) (the (currentAlias w))]"
    "tasks (retireLeg0 w) = tasks w @ [AwaitReleaseToken]"
    "events (retireLeg0 w) = events w"
  using assms
  by (simp_all add: retireLeg0_def Let_def client_releaseToken_calls spawn_def)

lemma retireLeg0_settled:
  assumes "\<not> leg0Retired w" "truthy (token w)" "truthy (currentAlias w)"
    "r = RSettled \<or> r = RThrow e"
  shows "stopped (settle (length (tasks w)) r now (retireLeg0 w))"
    "phase (settle (length (tasks w)) r now (retireLeg0 w)) = Ended"
    "events (settle (length (tasks w)) r now (retireLeg0 w)) = events w @ [PhaseEvent Ended]"
    "calls (settle (length (tasks w)) r now (retireLeg0 w))
       = calls w @ [ReleaseToken (token w) (the (currentAlias w))]"
    "token (settle (length (tasks w)) r now (retireLeg0 w)) = None"
    "currentAlias (settle (length (tasks w)) r now (retireLeg0 w)) = None"
  using assms retireLeg0_with_credential[OF assms(1-3)]
  by (auto simp: settle_def retireLeg0_resume_def Let_def basic_defs)

lemma retireLeg0_without_credential:
  assumes "\<not> leg0Retired w" "\<not> (truthy (token w) \<and> truthy (currentAlias w))"
  shows "calls (retireLeg0 w) = calls w" "stopped (retireLeg0 w)" "phase (retireLeg0 w) = Ended"
    "events (retireLeg0 w) = events w @ [PhaseEvent Ended]"
  using assms
  by (auto simp: retireLeg0_def retireLeg0_resume_def Let_def basic_defs)

text \<open>
  C8. \<open>retireLeg0\<close> does nothing when \<open>leg0Retired\<close> is set; otherwise it sets the flag and
  closes the transport. With a credential it sends one \<open>release_token\<close> request and nothing
  else, and however that request settles the engine is stopped in phase \<open>ended\<close>, having
  emitted that phase event only and sent no other request; without a credential it sends no
  request and ends in the same way. No step of the engine other than \<open>start\<close> clears
  \<open>leg0Retired\<close>.
\<close>

theorem retireLeg0_once_best_effort:
  "(leg0Retired w \<longrightarrow> retireLeg0 w = w) \<and>
   (\<not> leg0Retired w \<longrightarrow>
      leg0Retired (retireLeg0 w) \<and> \<not> es (retireLeg0 w) \<and> tickTimer (retireLeg0 w) = None \<and>
      dormancyTimer (retireLeg0 w) = None \<and> reconnectTimeout (retireLeg0 w) = None \<and>
      (truthy (token w) \<and> truthy (currentAlias w) \<longrightarrow>
         calls (retireLeg0 w) = calls w @ [ReleaseToken (token w) (the (currentAlias w))] \<and>
         tasks (retireLeg0 w) = tasks w @ [AwaitReleaseToken] \<and>
         events (retireLeg0 w) = events w \<and>
         (r = RSettled \<or> r = RThrow e \<longrightarrow>
            stopped (settle (length (tasks w)) r now (retireLeg0 w)) \<and>
            phase (settle (length (tasks w)) r now (retireLeg0 w)) = Ended \<and>
            events (settle (length (tasks w)) r now (retireLeg0 w))
              = events w @ [PhaseEvent Ended] \<and>
            calls (settle (length (tasks w)) r now (retireLeg0 w))
              = calls w @ [ReleaseToken (token w) (the (currentAlias w))])) \<and>
      (\<not> (truthy (token w) \<and> truthy (currentAlias w)) \<longrightarrow>
         calls (retireLeg0 w) = calls w \<and> stopped (retireLeg0 w) \<and>
         phase (retireLeg0 w) = Ended \<and>
         events (retireLeg0 w) = events w @ [PhaseEvent Ended])) \<and>
   (\<not> isStart a \<and> leg0Retired w \<longrightarrow> leg0Retired (step now a w))"
proof (intro conjI impI)
  assume "leg0Retired w"
  then show "retireLeg0 w = w" by (simp add: retireLeg0_def)
next
  assume n: "\<not> leg0Retired w"
  show "leg0Retired (retireLeg0 w)" by simp
  from n show "\<not> es (retireLeg0 w)" "tickTimer (retireLeg0 w) = None"
    "dormancyTimer (retireLeg0 w) = None" "reconnectTimeout (retireLeg0 w) = None"
    by (simp_all add: retireLeg0_def retireLeg0_resume_def Let_def client_releaseToken_def
          stopKeepAlive_def basic_defs split: option.splits)
  {
    assume c: "truthy (token w) \<and> truthy (currentAlias w)"
    with n show "calls (retireLeg0 w) = calls w @ [ReleaseToken (token w) (the (currentAlias w))]"
      "tasks (retireLeg0 w) = tasks w @ [AwaitReleaseToken]"
      "events (retireLeg0 w) = events w"
      using retireLeg0_with_credential[of w] by simp_all
    assume r: "r = RSettled \<or> r = RThrow e"
    with n c show "stopped (settle (length (tasks w)) r now (retireLeg0 w))"
      "phase (settle (length (tasks w)) r now (retireLeg0 w)) = Ended"
      "events (settle (length (tasks w)) r now (retireLeg0 w)) = events w @ [PhaseEvent Ended]"
      "calls (settle (length (tasks w)) r now (retireLeg0 w))
         = calls w @ [ReleaseToken (token w) (the (currentAlias w))]"
      using retireLeg0_settled[of w r e now] by simp_all
  }
  {
    assume c: "\<not> (truthy (token w) \<and> truthy (currentAlias w))"
    with n show "calls (retireLeg0 w) = calls w" "stopped (retireLeg0 w)"
      "phase (retireLeg0 w) = Ended" "events (retireLeg0 w) = events w @ [PhaseEvent Ended]"
      using retireLeg0_without_credential[of w] by simp_all
  }
next
  assume "\<not> isStart a \<and> leg0Retired w"
  then show "leg0Retired (step now a w)" by (simp add: step_leg0Retired)
qed


theorem retireLeg0_once_best_effort_witness:
  "leg0Retired (readySession\<lparr>leg0Retired := True\<rparr>) \<and>
   retireLeg0 (readySession\<lparr>leg0Retired := True\<rparr>) = readySession\<lparr>leg0Retired := True\<rparr> \<and>
   \<not> leg0Retired readySession \<and> truthy (token readySession) \<and>
   truthy (currentAlias readySession) \<and>
   calls (retireLeg0 readySession)
     = calls readySession @ [ReleaseToken (token readySession) (the (currentAlias readySession))] \<and>
   stopped (settle (length (tasks readySession)) (RThrow ''URI malformed'') 0
              (retireLeg0 readySession)) \<and>
   phase (settle (length (tasks readySession)) (RThrow ''URI malformed'') 0
              (retireLeg0 readySession)) = Ended \<and>
   events (settle (length (tasks readySession)) (RThrow ''URI malformed'') 0
              (retireLeg0 readySession)) = events readySession @ [PhaseEvent Ended] \<and>
   \<not> leg0Retired newOrchestrator \<and>
   \<not> (truthy (token newOrchestrator) \<and> truthy (currentAlias newOrchestrator)) \<and>
   calls (retireLeg0 newOrchestrator) = calls newOrchestrator \<and>
   phase (retireLeg0 newOrchestrator) = Ended \<and>
   \<not> isStart Stop \<and>
   leg0Retired (step 0 Stop (readySession\<lparr>leg0Retired := True\<rparr>))"
proof -
  let ?v = "readySession\<lparr>leg0Retired := True\<rparr>"
  let ?r = "RThrow ''URI malformed''"
  have h1: "leg0Retired ?v" by simp
  have h2: "\<not> leg0Retired readySession" "truthy (token readySession)"
    "truthy (currentAlias readySession)"
    by (simp_all add: readySession_def newOrchestrator_def)
  have h3: "?r = RSettled \<or> ?r = RThrow ''URI malformed''" by simp
  have h4: "\<not> leg0Retired newOrchestrator"
    "\<not> (truthy (token newOrchestrator) \<and> truthy (currentAlias newOrchestrator))"
    by (simp_all add: newOrchestrator_def)
  have h5: "\<not> isStart Stop" by simp
  note a = retireLeg0_once_best_effort[of ?v ?r "''URI malformed''" 0 Stop]
  note b = retireLeg0_once_best_effort[of readySession ?r "''URI malformed''" 0 Stop]
  note c = retireLeg0_once_best_effort[of newOrchestrator ?r "''URI malformed''" 0 Stop]
  from a h1 h5 have a': "retireLeg0 ?v = ?v" "leg0Retired (step 0 Stop ?v)" by blast+
  from b h2 h3 have b':
    "calls (retireLeg0 readySession)
       = calls readySession @ [ReleaseToken (token readySession) (the (currentAlias readySession))]"
    "stopped (settle (length (tasks readySession)) ?r 0 (retireLeg0 readySession))"
    "phase (settle (length (tasks readySession)) ?r 0 (retireLeg0 readySession)) = Ended"
    "events (settle (length (tasks readySession)) ?r 0 (retireLeg0 readySession))
       = events readySession @ [PhaseEvent Ended]"
    by blast+
  from c h4 have c': "calls (retireLeg0 newOrchestrator) = calls newOrchestrator"
    "phase (retireLeg0 newOrchestrator) = Ended" by blast+
  from h1 h2 h4 h5 a' b' c' show ?thesis by blast
qed

subsection \<open>The "min two" rule\<close>

lemma emit_minTwo_frame [simp]:
  "minTwoArmed (emit ev w) = minTwoArmed w"
  "belowTwoSince (emit ev w) = belowTwoSince w"
  "sseGraceUntil (emit ev w) = sseGraceUntil w"
  by (simp_all add: emit_def)

lemma setPhase_minTwo_frame [simp]:
  "minTwoArmed (setPhase p w) = minTwoArmed w"
  "belowTwoSince (setPhase p w) = belowTwoSince w"
  "sseGraceUntil (setPhase p w) = sseGraceUntil w"
  by (simp_all add: setPhase_def)

lemma logCall_minTwo_frame [simp]:
  "minTwoArmed (logCall c w) = minTwoArmed w"
  "belowTwoSince (logCall c w) = belowTwoSince w"
  "sseGraceUntil (logCall c w) = sseGraceUntil w"
  by (simp_all add: logCall_def)

lemma spawn_minTwo_frame [simp]:
  "minTwoArmed (spawn t w) = minTwoArmed w"
  "belowTwoSince (spawn t w) = belowTwoSince w"
  "sseGraceUntil (spawn t w) = sseGraceUntil w"
  by (simp_all add: spawn_def)

lemma setTimer_minTwo_frame [simp]:
  "minTwoArmed (setTimer k ms w) = minTwoArmed w"
  "belowTwoSince (setTimer k ms w) = belowTwoSince w"
  "sseGraceUntil (setTimer k ms w) = sseGraceUntil w"
  by (simp_all add: setTimer_def)

lemma clearTimer_minTwo_frame [simp]:
  "minTwoArmed (clearTimer i w) = minTwoArmed w"
  "belowTwoSince (clearTimer i w) = belowTwoSince w"
  "sseGraceUntil (clearTimer i w) = sseGraceUntil w"
  by (simp_all add: clearTimer_def)

lemma clearHandle_minTwo_frame [simp]:
  "minTwoArmed (clearHandle h w) = minTwoArmed w"
  "belowTwoSince (clearHandle h w) = belowTwoSince w"
  "sseGraceUntil (clearHandle h w) = sseGraceUntil w"
  by (cases h; simp)+

lemma sse_close_minTwo_frame [simp]:
  "minTwoArmed (sse_close w) = minTwoArmed w"
  "belowTwoSince (sse_close w) = belowTwoSince w"
  "sseGraceUntil (sse_close w) = sseGraceUntil w"
  by (simp_all add: sse_close_def Let_def)

lemma sse_connect_minTwo_frame [simp]:
  "minTwoArmed (sse_connect a t w) = minTwoArmed w"
  "belowTwoSince (sse_connect a t w) = belowTwoSince w"
  "sseGraceUntil (sse_connect a t w) = sseGraceUntil w"
  by (simp_all add: sse_connect_def Let_def)

lemma internalReconnect_minTwo_frame [simp]:
  "minTwoArmed (internalReconnect d j w) = minTwoArmed w"
  "belowTwoSince (internalReconnect d j w) = belowTwoSince w"
  "sseGraceUntil (internalReconnect d j w) = sseGraceUntil w"
  by (simp_all add: internalReconnect_def Let_def)

lemma dormancyFires_minTwo_frame [simp]:
  "minTwoArmed (dormancyFires j w) = minTwoArmed w"
  "belowTwoSince (dormancyFires j w) = belowTwoSince w"
  "sseGraceUntil (dormancyFires j w) = sseGraceUntil w"
  by (simp_all add: dormancyFires_def)

lemma reconnectFires_minTwo_frame [simp]:
  "minTwoArmed (reconnectFires w) = minTwoArmed w"
  "belowTwoSince (reconnectFires w) = belowTwoSince w"
  "sseGraceUntil (reconnectFires w) = sseGraceUntil w"
  by (simp_all add: reconnectFires_def Let_def split: option.splits)

lemma stopKeepAlive_minTwo_frame [simp]:
  "minTwoArmed (stopKeepAlive w) = minTwoArmed w"
  "belowTwoSince (stopKeepAlive w) = belowTwoSince w"
  "sseGraceUntil (stopKeepAlive w) = sseGraceUntil w"
  by (simp_all add: stopKeepAlive_def split: option.splits)

lemma tick_minTwo_frame [simp]:
  "minTwoArmed (tick g w) = minTwoArmed w"
  "belowTwoSince (tick g w) = belowTwoSince w"
  "sseGraceUntil (tick g w) = sseGraceUntil w"
  by (simp_all add: tick_def)

lemma tick_resume_minTwo_frame [simp]:
  "minTwoArmed (tick_resume g t w) = minTwoArmed w"
  "belowTwoSince (tick_resume g t w) = belowTwoSince w"
  "sseGraceUntil (tick_resume g t w) = sseGraceUntil w"
  by (simp_all add: tick_resume_def)

lemma startKeepAlive_minTwo_frame [simp]:
  "minTwoArmed (startKeepAlive t a w) = minTwoArmed w"
  "belowTwoSince (startKeepAlive t a w) = belowTwoSince w"
  "sseGraceUntil (startKeepAlive t a w) = sseGraceUntil w"
  by (simp_all add: startKeepAlive_def Let_def)

lemma client_requestToken_minTwo_frame [simp]:
  "minTwoArmed (client_requestToken a d p w) = minTwoArmed w"
  "belowTwoSince (client_requestToken a d p w) = belowTwoSince w"
  "sseGraceUntil (client_requestToken a d p w) = sseGraceUntil w"
  by (simp_all add: client_requestToken_def)

lemma client_dial_minTwo_frame [simp]:
  "minTwoArmed (client_dial t a d opts w) = minTwoArmed w"
  "belowTwoSince (client_dial t a d opts w) = belowTwoSince w"
  "sseGraceUntil (client_dial t a d opts w) = sseGraceUntil w"
  by (simp_all add: client_dial_def Let_def)

lemma client_listParticipants_minTwo_frame [simp]:
  "minTwoArmed (client_listParticipants t a w) = minTwoArmed w"
  "belowTwoSince (client_listParticipants t a w) = belowTwoSince w"
  "sseGraceUntil (client_listParticipants t a w) = sseGraceUntil w"
  by (simp_all add: client_listParticipants_def Let_def)

lemma client_disconnectAll_minTwo_frame [simp]:
  "minTwoArmed (client_disconnectAll t a w) = minTwoArmed w"
  "belowTwoSince (client_disconnectAll t a w) = belowTwoSince w"
  "sseGraceUntil (client_disconnectAll t a w) = sseGraceUntil w"
  by (simp_all add: client_disconnectAll_def Let_def)

lemma client_releaseToken_minTwo_frame [simp]:
  "minTwoArmed (client_releaseToken t a w) = minTwoArmed w"
  "belowTwoSince (client_releaseToken t a w) = belowTwoSince w"
  "sseGraceUntil (client_releaseToken t a w) = sseGraceUntil w"
  by (simp_all add: client_releaseToken_def Let_def)

lemma stop_minTwo_frame [simp]:
  "minTwoArmed (stop w) = minTwoArmed w"
  "belowTwoSince (stop w) = belowTwoSince w"
  "sseGraceUntil (stop w) = sseGraceUntil w"
  by (simp_all add: stop_def)

lemma hardEnd_finally_minTwo_frame [simp]:
  "minTwoArmed (hardEnd_finally w) = minTwoArmed w"
  "belowTwoSince (hardEnd_finally w) = belowTwoSince w"
  "sseGraceUntil (hardEnd_finally w) = sseGraceUntil w"
  by (simp_all add: hardEnd_finally_def)

lemma hardEnd_minTwo_frame [simp]:
  "minTwoArmed (hardEnd w) = minTwoArmed w"
  "belowTwoSince (hardEnd w) = belowTwoSince w"
  "sseGraceUntil (hardEnd w) = sseGraceUntil w"
  by (simp_all add: hardEnd_def)

lemma leg3Failed_minTwo_frame [simp]:
  "minTwoArmed (leg3Failed le w) = minTwoArmed w"
  "belowTwoSince (leg3Failed le w) = belowTwoSince w"
  "sseGraceUntil (leg3Failed le w) = sseGraceUntil w"
  by (simp_all add: leg3Failed_def Let_def)

lemma dialLoop_minTwo_frame [simp]:
  "minTwoArmed (dialLoop p cs le w) = minTwoArmed w"
  "belowTwoSince (dialLoop p cs le w) = belowTwoSince w"
  "sseGraceUntil (dialLoop p cs le w) = sseGraceUntil w"
  by (cases cs; simp)+

lemma tryDialLeg3WithCandidates_minTwo_frame [simp]:
  "minTwoArmed (tryDialLeg3WithCandidates p w) = minTwoArmed w"
  "belowTwoSince (tryDialLeg3WithCandidates p w) = belowTwoSince w"
  "sseGraceUntil (tryDialLeg3WithCandidates p w) = sseGraceUntil w"
  by (simp_all add: tryDialLeg3WithCandidates_def)

lemma ensureLeg3IfAgentReady_minTwo_frame [simp]:
  "minTwoArmed (ensureLeg3IfAgentReady w) = minTwoArmed w"
  "belowTwoSince (ensureLeg3IfAgentReady w) = belowTwoSince w"
  "sseGraceUntil (ensureLeg3IfAgentReady w) = sseGraceUntil w"
  by (simp_all add: ensureLeg3IfAgentReady_def)

lemma leg3RetryFires_minTwo_frame [simp]:
  "minTwoArmed (leg3RetryFires w) = minTwoArmed w"
  "belowTwoSince (leg3RetryFires w) = belowTwoSince w"
  "sseGraceUntil (leg3RetryFires w) = sseGraceUntil w"
  by (simp_all add: leg3RetryFires_def Let_def)

lemma start_catch_minTwo_frame [simp]:
  "minTwoArmed (start_catch e w) = minTwoArmed w"
  "belowTwoSince (start_catch e w) = belowTwoSince w"
  "sseGraceUntil (start_catch e w) = sseGraceUntil w"
  by (simp_all add: start_catch_def)

lemma start_gotToken_minTwo_frame [simp]:
  "minTwoArmed (start_gotToken p t w) = minTwoArmed w"
  "belowTwoSince (start_gotToken p t w) = belowTwoSince w"
  "sseGraceUntil (start_gotToken p t w) = sseGraceUntil w"
  by (simp_all add: start_gotToken_def Let_def)

lemma start_dialed_minTwo_frame [simp]:
  "minTwoArmed (start_dialed c w) = minTwoArmed w"
  "belowTwoSince (start_dialed c w) = belowTwoSince w"
  "sseGraceUntil (start_dialed c w) = sseGraceUntil w"
  by (simp_all add: start_dialed_def)

lemma retireLeg0_resume_minTwo_frame [simp]:
  "minTwoArmed (retireLeg0_resume b w) = minTwoArmed w"
  "belowTwoSince (retireLeg0_resume b w) = belowTwoSince w"
  "sseGraceUntil (retireLeg0_resume b w) = sseGraceUntil w"
  by (simp_all add: retireLeg0_resume_def Let_def)

lemma retireLeg0_minTwo_frame [simp]:
  "minTwoArmed (retireLeg0 w) = minTwoArmed w"
  "belowTwoSince (retireLeg0 w) = belowTwoSince w"
  "sseGraceUntil (retireLeg0 w) = sseGraceUntil w"
  by (simp_all add: retireLeg0_def Let_def)

lemma dormancyGrace_minTwo_frame [simp]:
  "minTwoArmed (dormancyGrace c n w) = minTwoArmed w"
  "belowTwoSince (dormancyGrace c n w) = belowTwoSince w"
  by (simp_all add: dormancyGrace_def Let_def)

lemma minTwoArm_minTwo_frame [simp]:
  "sseGraceUntil (minTwoArm c w) = sseGraceUntil w"
  by (simp_all add: minTwoArm_def)

lemma activeTransition_minTwo_frame [simp]:
  "minTwoArmed (activeTransition r p w) = minTwoArmed w"
  "belowTwoSince (activeTransition r p w) = belowTwoSince w"
  "sseGraceUntil (activeTransition r p w) = sseGraceUntil w"
  by (simp_all add: activeTransition_def)

lemma fourLegsRule_minTwo_frame [simp]:
  "minTwoArmed (fourLegsRule r p n w) = minTwoArmed w"
  "belowTwoSince (fourLegsRule r p n w) = belowTwoSince w"
  "sseGraceUntil (fourLegsRule r p n w) = sseGraceUntil w"
  by (simp_all add: fourLegsRule_def split: option.splits)

lemma trackFourLegs_minTwo_frame [simp]:
  "minTwoArmed (trackFourLegs r p n w) = minTwoArmed w"
  "belowTwoSince (trackFourLegs r p n w) = belowTwoSince w"
  "sseGraceUntil (trackFourLegs r p n w) = sseGraceUntil w"
  by (simp_all add: trackFourLegs_def)

lemma idleTermination_minTwo_frame [simp]:
  "minTwoArmed (idleTermination c n w) = minTwoArmed w"
  "belowTwoSince (idleTermination c n w) = belowTwoSince w"
  "sseGraceUntil (idleTermination c n w) = sseGraceUntil w"
  by (simp_all add: idleTermination_def Let_def)

lemma refreshFromServer_minTwo_frame [simp]:
  "minTwoArmed (refreshFromServer w) = minTwoArmed w"
  "belowTwoSince (refreshFromServer w) = belowTwoSince w"
  "sseGraceUntil (refreshFromServer w) = sseGraceUntil w"
  by (simp_all add: refreshFromServer_def)

lemma agentReadiness_minTwo_frame [simp]:
  "minTwoArmed (agentReadiness r p w) = minTwoArmed w"
  "belowTwoSince (agentReadiness r p w) = belowTwoSince w"
  "sseGraceUntil (agentReadiness r p w) = sseGraceUntil w"
  by (simp_all add: agentReadiness_def)

lemma legChecks_minTwo_frame [simp]:
  "minTwoArmed (legChecks r p now w) = minTwoArmed w"
  "belowTwoSince (legChecks r p now w) = belowTwoSince w"
  "sseGraceUntil (legChecks r p now w) = sseGraceUntil w"
  by (simp_all add: legChecks_def Let_def)


lemma onRoster_arms:
  "\<not> stopped w \<Longrightarrow> connectedCountOf roster \<ge> 2 \<Longrightarrow> minTwoArmed (onRoster roster params now w)"
  by (simp add: onRoster_def Let_def minTwoArm_def)

lemma onRoster_marks_below:
  assumes "\<not> stopped w" "minTwoArmed w" "connectedCountOf roster < 2"
    "now \<ge> sseGraceUntil (dormancyGrace (connectedCountOf roster) now w)"
    "belowTwoSince w = None"
  shows "belowTwoSince (onRoster roster params now w) = Some now"
  using assms
  by (simp add: onRoster_def Let_def minTwoArm_def belowTwoExpired_def dormancyGrace_def emit_def
      split: if_splits)









lemma belowOutsideGrace_tasks [simp]:
  "belowOutsideGrace roster now (w\<lparr>tasks := x\<rparr>) = belowOutsideGrace roster now w"
  by (simp add: belowOutsideGrace_def dormancyGrace_def Let_def)

lemma timerFires_minTwo_frame [simp]:
  "minTwoArmed (timerFires i j w) = minTwoArmed w"
  "belowTwoSince (timerFires i j w) = belowTwoSince w"
  by (simp_all add: timerFires_def split: option.splits timerKind.splits)

lemma ingested_tasks [simp]: "ingested raw (w\<lparr>tasks := x\<rparr>) = ingested raw w"
  by (cases "snapshotList raw") (simp_all add: ingested_def)


















subsection \<open>The guard of the leg-3 dial\<close>

lemma dialTasks_frame [simp]:
  "dialTasks (emit ev w) = dialTasks w"
  "dialTasks (setPhase ph w) = dialTasks w"
  "dialTasks (logCall c w) = dialTasks w"
  "dialTasks (setTimer k ms w) = dialTasks w"
  "dialTasks (clearTimer i w) = dialTasks w"
  "dialTasks (clearHandle h w) = dialTasks w"
  "dialTasks (sse_close w) = dialTasks w"
  "dialTasks (sse_connect a t w) = dialTasks w"
  "dialTasks (internalReconnect d j w) = dialTasks w"
  "dialTasks (dormancyFires j w) = dialTasks w"
  "dialTasks (reconnectFires w) = dialTasks w"
  "dialTasks (stopKeepAlive w) = dialTasks w"
  "dialTasks (tick_resume g t w) = dialTasks w"
  "dialTasks (client_requestToken a dn pn w) = dialTasks w"
  "dialTasks (client_dial tok a dest opts w) = dialTasks w"
  "dialTasks (client_listParticipants tok a w) = dialTasks w"
  "dialTasks (client_disconnectAll tok a w) = dialTasks w"
  "dialTasks (client_releaseToken tok a w) = dialTasks w"
  "dialTasks (stop w) = dialTasks w"
  "dialTasks (hardEnd_finally w) = dialTasks w"
  "dialTasks (leg3Failed le w) = dialTasks w"
  "dialTasks (start_catch e w) = dialTasks w"
  "dialTasks (start_dialed created w) = dialTasks w"
  "dialTasks (retireLeg0_resume b w) = dialTasks w"
  "dialTasks (dormancyGrace cc now w) = dialTasks w"
  "dialTasks (minTwoArm cc w) = dialTasks w"
  "dialTasks (activeTransition r p w) = dialTasks w"
  "dialTasks (fourLegsRule r p now w) = dialTasks w"
  "dialTasks (trackFourLegs r p now w) = dialTasks w"
  "dialTasks (idleTermination cc now w) = dialTasks w"
  by (simp_all add: dialTasks_def)

lemma dialTasks_spawn [simp]:
  "dialTasks (spawn t w) = (if isDialTask t then Suc (dialTasks w) else dialTasks w)"
  by (simp add: dialTasks_def spawn_def)

lemma dialTasks_update [simp]:
  "dialTasks (w\<lparr>token := x0\<rparr>) = dialTasks w"
  "dialTasks (w\<lparr>currentAlias := x1\<rparr>) = dialTasks w"
  "dialTasks (w\<lparr>phase := x2\<rparr>) = dialTasks w"
  "dialTasks (w\<lparr>lastStartParams := x3\<rparr>) = dialTasks w"
  "dialTasks (w\<lparr>agentReady := x4\<rparr>) = dialTasks w"
  "dialTasks (w\<lparr>leg3Dialed := x5\<rparr>) = dialTasks w"
  "dialTasks (w\<lparr>stopped := x6\<rparr>) = dialTasks w"
  "dialTasks (w\<lparr>inactiveSince := x7\<rparr>) = dialTasks w"
  "dialTasks (w\<lparr>minTwoArmed := x8\<rparr>) = dialTasks w"
  "dialTasks (w\<lparr>belowTwoSince := x9\<rparr>) = dialTasks w"
  "dialTasks (w\<lparr>sseGraceUntil := x10\<rparr>) = dialTasks w"
  "dialTasks (w\<lparr>lastConnectedCount := x11\<rparr>) = dialTasks w"
  "dialTasks (w\<lparr>fullyEngagedSince := x12\<rparr>) = dialTasks w"
  "dialTasks (w\<lparr>killOnAgentDropArmed := x13\<rparr>) = dialTasks w"
  "dialTasks (w\<lparr>pendingLeg3Retry := x14\<rparr>) = dialTasks w"
  "dialTasks (w\<lparr>leg0Retired := x15\<rparr>) = dialTasks w"
  "dialTasks (w\<lparr>fourLegsSince := x16\<rparr>) = dialTasks w"
  "dialTasks (w\<lparr>keepAlive := x17\<rparr>) = dialTasks w"
  "dialTasks (w\<lparr>keepAliveClosures := x18\<rparr>) = dialTasks w"
  "dialTasks (w\<lparr>es := x19\<rparr>) = dialTasks w"
  "dialTasks (w\<lparr>tickTimer := x20\<rparr>) = dialTasks w"
  "dialTasks (w\<lparr>dormancyTimer := x21\<rparr>) = dialTasks w"
  "dialTasks (w\<lparr>reconnectTimeout := x22\<rparr>) = dialTasks w"
  "dialTasks (w\<lparr>sse_alias := x23\<rparr>) = dialTasks w"
  "dialTasks (w\<lparr>sse_token := x24\<rparr>) = dialTasks w"
  "dialTasks (w\<lparr>backoffMs := x25\<rparr>) = dialTasks w"
  "dialTasks (w\<lparr>timers := x26\<rparr>) = dialTasks w"
  "dialTasks (w\<lparr>nextTimerId := x27\<rparr>) = dialTasks w"
  "dialTasks (w\<lparr>events := x28\<rparr>) = dialTasks w"
  "dialTasks (w\<lparr>calls := x29\<rparr>) = dialTasks w"
  by (simp_all add: dialTasks_def)

lemma dialTasks_other_tasks [simp]:
  "dialTasks (tick g w) = dialTasks w"
  "dialTasks (startKeepAlive t a w) = dialTasks w"
  "dialTasks (hardEnd w) = dialTasks w"
  "dialTasks (start_gotToken p t w) = dialTasks w"
  "dialTasks (retireLeg0 w) = dialTasks w"
  "dialTasks (refreshFromServer w) = dialTasks w"
  "dialTasks (start p w) = dialTasks w"
  by (simp_all add: tick_def startKeepAlive_def hardEnd_def start_gotToken_def retireLeg0_def
        refreshFromServer_def start_def Let_def)

lemma dialStep_refl [simp]: "dialStep w w"
  by (simp add: dialStep_def)

































subsection \<open>What \<open>stop\<close> and \<open>hardEnd\<close> cancel\<close>

lemma transport_iff_held:
  assumes "timersSound w" "t \<in> set (timers w)"
  shows "isTransportKind (timerKind t) \<longleftrightarrow>
         (tickTimer w = Some (timerId t) \<or> dormancyTimer w = Some (timerId t) \<or>
          reconnectTimeout w = Some (timerId t))"
proof
  assume "isTransportKind (timerKind t)"
  with assms show "tickTimer w = Some (timerId t) \<or> dormancyTimer w = Some (timerId t) \<or>
          reconnectTimeout w = Some (timerId t)"
    by (simp add: timersSound_def timersOwned_D(2) owned_transport)
next
  from assms have "apart w t" by (simp add: timersSound_def timersApart_D(2))
  moreover assume "tickTimer w = Some (timerId t) \<or> dormancyTimer w = Some (timerId t) \<or>
          reconnectTimeout w = Some (timerId t)"
  ultimately show "isTransportKind (timerKind t)" by (auto simp: apart_def)
qed

lemma renewal_iff_held:
  assumes "timersSound w" "t \<in> set (timers w)"
  shows "isRenewal (timerKind t) \<longleftrightarrow>
         (\<exists>k. keepAlive w = Some k \<and> ka_timer k \<noteq> 0 \<and> timerId t = ka_timer k)"
proof
  from assms have "owned w t" by (simp add: timersSound_def timersOwned_D(2))
  moreover assume "isRenewal (timerKind t)"
  ultimately show "\<exists>k. keepAlive w = Some k \<and> ka_timer k \<noteq> 0 \<and> timerId t = ka_timer k"
    by (cases "timerKind t"; cases "keepAlive w") (auto simp: owned_def)
next
  from assms have "apart w t" by (simp add: timersSound_def timersApart_D(2))
  moreover assume "\<exists>k. keepAlive w = Some k \<and> ka_timer k \<noteq> 0 \<and> timerId t = ka_timer k"
  ultimately show "isRenewal (timerKind t)" by (auto simp: apart_def keepAliveTimer_def)
qed

lemma sse_close_exact:
  assumes "timersSound w"
  shows "timers (sse_close w) = filter (\<lambda>t. \<not> isTransportKind (timerKind t)) (timers w)"
  unfolding sse_close_timers
  by (rule filter_cong[OF refl]) (auto simp: transport_iff_held[OF assms])

lemma stopKeepAlive_exact:
  assumes "timersSound w"
  shows "timers (stopKeepAlive w) = filter (\<lambda>t. \<not> isRenewal (timerKind t)) (timers w)"
  unfolding stopKeepAlive_timers
  by (rule filter_cong[OF refl]) (simp add: renewal_iff_held[OF assms])

lemma stop_state:
  "tickTimer (stop w) = None" "dormancyTimer (stop w) = None" "reconnectTimeout (stop w) = None"
  "stopped (stop w)" "phase (stop w) = Ended" "keepAlive (stop w) = keepAlive w"
  "pendingLeg3Retry (stop w) = pendingLeg3Retry w"
  by (simp_all add: stop_def setPhase_def emit_def sse_close_def Let_def)

lemma stop_exact:
  assumes "timersSound w"
  shows "timers (stop w) = filter (\<lambda>t. \<not> isTransportKind (timerKind t)) (timers w)"
proof -
  have "timers (stop w) = timers (sse_close w)"
    by (simp add: stop_def setPhase_def emit_def sse_close_timers)
  with sse_close_exact[OF assms] show ?thesis by simp
qed

lemma hardEnd_finally_exact:
  assumes "timersSound w"
  shows "timers (hardEnd_finally w) = filter (\<lambda>t. \<not> isTransportKind (timerKind t)) (timers w)"
    "stopped (hardEnd_finally w)" "phase (hardEnd_finally w) = Ended"
    "tickTimer (hardEnd_finally w) = None" "dormancyTimer (hardEnd_finally w) = None"
    "reconnectTimeout (hardEnd_finally w) = None"
    "keepAlive (hardEnd_finally w) = keepAlive w"
  using stop_exact[OF assms] by (simp_all add: hardEnd_finally_def stop_state)

lemma hardEnd_exact:
  assumes "timersSound w" "truthy (token w)" "truthy (currentAlias w)"
  shows "timers (hardEnd w) = filter (\<lambda>t. \<not> isRenewal (timerKind t)) (timers w)"
    "keepAlive (hardEnd w) = None" "tasks (hardEnd w) = tasks w @ [AwaitDisconnectAll]"
  using assms stopKeepAlive_exact[of w]
  by (simp_all add: hardEnd_def client_disconnectAll_def Let_def spawn_def logCall_def
        stopKeepAlive_cleared)

lemma hardEnd_completed:
  assumes "timersSound w" "truthy (token w)" "truthy (currentAlias w)"
    "leavesPending (length (tasks w)) acts" "r = RSettled \<or> r = RThrow e"
  shows "timers (settle (length (tasks w)) r now (run acts (hardEnd w)))
           = filter (\<lambda>t. \<not> isTransportKind (timerKind t)) (timers (run acts (hardEnd w)))"
    "stopped (settle (length (tasks w)) r now (run acts (hardEnd w)))"
    "phase (settle (length (tasks w)) r now (run acts (hardEnd w))) = Ended"
    "tickTimer (settle (length (tasks w)) r now (run acts (hardEnd w))) = None"
    "dormancyTimer (settle (length (tasks w)) r now (run acts (hardEnd w))) = None"
    "reconnectTimeout (settle (length (tasks w)) r now (run acts (hardEnd w))) = None"
    "keepAlive (settle (length (tasks w)) r now (run acts (hardEnd w)))
           = keepAlive (run acts (hardEnd w))"
proof -
  let ?v = "run acts (hardEnd w)"
  let ?u = "?v\<lparr>tasks := (tasks ?v)[length (tasks w) := Finished]\<rparr>"
  from assms(1) have "timersSound (hardEnd w)"
    by (simp add: timersSound_def timersOwned_hardEnd timersApart_hardEnd)
  then have s: "timersSound ?u" by (simp add: timersSound_run)
  note p = hardEnd_pending[OF assms(2-4)]
  note e = disconnect_settled[OF p assms(5), of now]
  from hardEnd_finally_exact[OF s]
  show "timers (settle (length (tasks w)) r now ?v)
           = filter (\<lambda>t. \<not> isTransportKind (timerKind t)) (timers ?v)"
    "stopped (settle (length (tasks w)) r now ?v)"
    "phase (settle (length (tasks w)) r now ?v) = Ended"
    "tickTimer (settle (length (tasks w)) r now ?v) = None"
    "dormancyTimer (settle (length (tasks w)) r now ?v) = None"
    "reconnectTimeout (settle (length (tasks w)) r now ?v) = None"
    "keepAlive (settle (length (tasks w)) r now ?v) = keepAlive ?v"
    unfolding e by simp_all
qed

lemma only_retry_left:
  "(\<not> isRenewal k \<and> \<not> isTransportKind k) = (k = Leg3Retry)"
  by (cases k) simp_all

lemma hardEnd_at_once:
  assumes "timersSound w" "truthy (token w)" "truthy (currentAlias w)"
    "r = RSettled \<or> r = RThrow e"
  shows "timers (settle (length (tasks w)) r now (hardEnd w))
           = filter (\<lambda>t. timerKind t = Leg3Retry) (timers w)"
proof -
  have l: "leavesPending (length (tasks w)) []" by (simp add: leavesPending_def)
  from hardEnd_completed(1)[OF assms(1-3) l assms(4), of now] hardEnd_exact(1)[OF assms(1-3)]
  show ?thesis by (simp add: only_retry_left)
qed

lemma hardEnd_without_credential_exact:
  assumes "timersSound w" "\<not> (truthy (token w) \<and> truthy (currentAlias w))"
  shows "timers (hardEnd w) = filter (\<lambda>t. \<not> isTransportKind (timerKind t)) (timers w)"
    "stopped (hardEnd w)" "keepAlive (hardEnd w) = keepAlive w"
  using assms hardEnd_finally_exact[of w] by (auto simp: hardEnd_def)

lemma retry_fires_stopped:
  assumes "stopped w" "find (\<lambda>t. timerId t = i) (timers w) = Some t" "timerKind t = Leg3Retry"
  shows "timerFires i j w = (clearTimer i w)\<lparr>pendingLeg3Retry := None\<rparr>"
  using assms by (simp add: timerFires_def leg3RetryFires_def Let_def clearTimer_def)

lemma failedDialRun_state:
  "token (run failedDialRun newOrchestrator) = Some ''T''"
  "currentAlias (run failedDialRun newOrchestrator) = Some ''A''"
  "timers (run failedDialRun newOrchestrator) =
     [Timer 1 (Renewal 0) 55000, Timer 2 Heartbeat 2000, Timer 3 DormancyWatchdog 5000,
      Timer 4 Leg3Retry 2500]"
  "length (tasks (run failedDialRun newOrchestrator)) = 5"
  "pendingLeg3Retry (run failedDialRun newOrchestrator) = Some 4"
  by (simp_all add: failedDialRun_def newOrchestrator_def exampleParams_def start_defs
      basic_defs roster_defs leg3Failed_def)

text \<open>
  C6 (as amended). In every state the engine can reach, each active timer is held by the
  handle of its owner and by no other handle. In such a state \<open>stop\<close> cancels the heartbeat,
  the dormancy watchdog and a pending reconnect of the transport and no other timer: the
  credential renewal and a pending leg-3 retry stay active. \<open>hardEnd\<close>, when a token and an
  alias are held, cancels the credential renewal, and no other timer, before its request is
  sent; when the request settles, whatever happened in between, it cancels the transport
  timers active then and no other timer, so that a renewal started in between stays active;
  when the request settles at once, the timers left are the pending leg-3 retries. Without a
  credential \<open>hardEnd\<close> cancels what \<open>stop\<close> cancels. Both leave the engine stopped,
  whatever the phase they are called in. A leg-3 retry timeout that fires on a stopped
  engine clears \<open>pendingLeg3Retry\<close> and does nothing else.
\<close>

theorem stop_cancels_timers:
  "timersSound (run acts newOrchestrator) \<and>
   (timersSound w \<longrightarrow>
      timers (stop w) = filter (\<lambda>t. \<not> isTransportKind (timerKind t)) (timers w) \<and>
      tickTimer (stop w) = None \<and> dormancyTimer (stop w) = None \<and>
      reconnectTimeout (stop w) = None \<and> stopped (stop w) \<and>
      keepAlive (stop w) = keepAlive w \<and>
      (truthy (token w) \<and> truthy (currentAlias w) \<longrightarrow>
         timers (hardEnd w) = filter (\<lambda>t. \<not> isRenewal (timerKind t)) (timers w) \<and>
         keepAlive (hardEnd w) = None \<and>
         (r = RSettled \<or> r = RThrow e \<longrightarrow>
            timers (settle (length (tasks w)) r now (hardEnd w))
              = filter (\<lambda>t. timerKind t = Leg3Retry) (timers w) \<and>
            (leavesPending (length (tasks w)) between \<longrightarrow>
               timers (settle (length (tasks w)) r now (run between (hardEnd w)))
                 = filter (\<lambda>t. \<not> isTransportKind (timerKind t))
                     (timers (run between (hardEnd w))) \<and>
               stopped (settle (length (tasks w)) r now (run between (hardEnd w))) \<and>
               tickTimer (settle (length (tasks w)) r now (run between (hardEnd w))) = None \<and>
               dormancyTimer (settle (length (tasks w)) r now (run between (hardEnd w))) = None \<and>
               reconnectTimeout (settle (length (tasks w)) r now (run between (hardEnd w)))
                 = None \<and>
               keepAlive (settle (length (tasks w)) r now (run between (hardEnd w)))
                 = keepAlive (run between (hardEnd w))))) \<and>
      (\<not> (truthy (token w) \<and> truthy (currentAlias w)) \<longrightarrow>
         timers (hardEnd w) = filter (\<lambda>t. \<not> isTransportKind (timerKind t)) (timers w) \<and>
         stopped (hardEnd w) \<and> keepAlive (hardEnd w) = keepAlive w)) \<and>
   (stopped w \<and> find (\<lambda>t. timerId t = i) (timers w) = Some t \<and> timerKind t = Leg3Retry \<longrightarrow>
      timerFires i j w = (clearTimer i w)\<lparr>pendingLeg3Retry := None\<rparr>)"
proof (intro conjI impI)
  show "timersSound (run acts newOrchestrator)"
    by (rule timersSound_run[OF timersSound_new])
next
  assume o: "timersSound w"
  then show "timers (stop w) = filter (\<lambda>t. \<not> isTransportKind (timerKind t)) (timers w)"
    by (rule stop_exact)
  show "tickTimer (stop w) = None" "dormancyTimer (stop w) = None"
    "reconnectTimeout (stop w) = None" "stopped (stop w)" "keepAlive (stop w) = keepAlive w"
    by (simp_all add: stop_state)
  {
    assume c: "truthy (token w) \<and> truthy (currentAlias w)"
    with o show "timers (hardEnd w) = filter (\<lambda>t. \<not> isRenewal (timerKind t)) (timers w)"
      "keepAlive (hardEnd w) = None"
      by (simp_all add: hardEnd_exact)
    assume r: "r = RSettled \<or> r = RThrow e"
    with o c show "timers (settle (length (tasks w)) r now (hardEnd w))
              = filter (\<lambda>t. timerKind t = Leg3Retry) (timers w)"
      using hardEnd_at_once[of w r e now] by simp
    assume l: "leavesPending (length (tasks w)) between"
    from c have c1: "truthy (token w)" and c2: "truthy (currentAlias w)" by simp_all
    note h = hardEnd_completed[OF o c1 c2 l r, of now]
    from h(1) show "timers (settle (length (tasks w)) r now (run between (hardEnd w)))
                 = filter (\<lambda>t. \<not> isTransportKind (timerKind t))
                     (timers (run between (hardEnd w)))" .
    from h(2) show "stopped (settle (length (tasks w)) r now (run between (hardEnd w)))" .
    from h(4) show "tickTimer (settle (length (tasks w)) r now (run between (hardEnd w))) = None" .
    from h(5)
    show "dormancyTimer (settle (length (tasks w)) r now (run between (hardEnd w))) = None" .
    from h(6)
    show "reconnectTimeout (settle (length (tasks w)) r now (run between (hardEnd w))) = None" .
    from h(7) show "keepAlive (settle (length (tasks w)) r now (run between (hardEnd w)))
                 = keepAlive (run between (hardEnd w))" .
  }
  {
    assume c: "\<not> (truthy (token w) \<and> truthy (currentAlias w))"
    from hardEnd_without_credential_exact[OF o c]
    show "timers (hardEnd w) = filter (\<lambda>t. \<not> isTransportKind (timerKind t)) (timers w)"
      "stopped (hardEnd w)" "keepAlive (hardEnd w) = keepAlive w" by simp_all
  }
next
  assume "stopped w \<and> find (\<lambda>t. timerId t = i) (timers w) = Some t \<and> timerKind t = Leg3Retry"
  then show "timerFires i j w = (clearTimer i w)\<lparr>pendingLeg3Retry := None\<rparr>"
    by (simp add: retry_fires_stopped)
qed

theorem stop_cancels_timers_witness:
  "timersSound (run failedDialRun newOrchestrator) \<and>
   truthy (token (run failedDialRun newOrchestrator)) \<and>
   truthy (currentAlias (run failedDialRun newOrchestrator)) \<and>
   leavesPending (length (tasks (run failedDialRun newOrchestrator))) [(9, Start exampleParams)] \<and>
   timers (stop (run failedDialRun newOrchestrator))
     = [Timer 1 (Renewal 0) 55000, Timer 4 Leg3Retry 2500] \<and>
   timers (hardEnd (run failedDialRun newOrchestrator))
     = [Timer 2 Heartbeat 2000, Timer 3 DormancyWatchdog 5000, Timer 4 Leg3Retry 2500] \<and>
   timers (settle (length (tasks (run failedDialRun newOrchestrator))) RSettled 7
             (hardEnd (run failedDialRun newOrchestrator)))
     = [Timer 4 Leg3Retry 2500] \<and>
   stopped (settle (length (tasks (run failedDialRun newOrchestrator))) RSettled 9
              (run [(9, Start exampleParams)] (hardEnd (run failedDialRun newOrchestrator)))) \<and>
   timersSound newOrchestrator \<and>
   \<not> (truthy (token newOrchestrator) \<and> truthy (currentAlias newOrchestrator)) \<and>
   stopped (hardEnd newOrchestrator) \<and>
   stopped (stop (run failedDialRun newOrchestrator)) \<and>
   find (\<lambda>t. timerId t = 4) (timers (stop (run failedDialRun newOrchestrator)))
     = Some (Timer 4 Leg3Retry 2500) \<and>
   timerFires 4 0 (stop (run failedDialRun newOrchestrator))
     = (clearTimer 4 (stop (run failedDialRun newOrchestrator)))\<lparr>pendingLeg3Retry := None\<rparr>"
proof -
  let ?w = "run failedDialRun newOrchestrator"
  let ?b = "[(9, Start exampleParams)]"
  from stop_cancels_timers[where acts=failedDialRun] have h1: "timersSound ?w" by blast
  have h2: "truthy (token ?w)" "truthy (currentAlias ?w)"
    by (simp_all add: failedDialRun_state)
  have h3: "RSettled = RSettled \<or> RSettled = RThrow []" by simp
  have h4: "leavesPending (length (tasks ?w)) ?b" by (simp add: leavesPending_def)
  from stop_cancels_timers[where acts="[]"] have h5: "timersSound newOrchestrator" by simp
  have h6: "\<not> (truthy (token newOrchestrator) \<and> truthy (currentAlias newOrchestrator))"
    by (simp add: newOrchestrator_def)
  from stop_cancels_timers[where w="?w"] h1
  have a: "timers (stop ?w) = [Timer 1 (Renewal 0) 55000, Timer 4 Leg3Retry 2500]"
    "stopped (stop ?w)"
    by (simp_all add: failedDialRun_state)
  from stop_cancels_timers[where w="?w"] h1 h2
  have b: "timers (hardEnd ?w)
     = [Timer 2 Heartbeat 2000, Timer 3 DormancyWatchdog 5000, Timer 4 Leg3Retry 2500]"
    by (simp add: failedDialRun_state)
  from stop_cancels_timers[where w="?w" and r=RSettled and e="[]" and now=7] h1 h2 h3
  have c: "timers (settle (length (tasks ?w)) RSettled 7 (hardEnd ?w)) = [Timer 4 Leg3Retry 2500]"
    by (simp add: failedDialRun_state)
  from stop_cancels_timers[where w="?w" and r=RSettled and e="[]" and now=9 and between="?b"]
    h1 h2 h3 h4
  have d: "stopped (settle (length (tasks ?w)) RSettled 9 (run ?b (hardEnd ?w)))" by blast
  from stop_cancels_timers[where w=newOrchestrator] h5 h6
  have f: "stopped (hardEnd newOrchestrator)" by blast
  from a(1) have g: "find (\<lambda>t. timerId t = 4) (timers (stop ?w)) = Some (Timer 4 Leg3Retry 2500)"
    by simp
  from stop_cancels_timers[where w="stop ?w" and i=4 and t="Timer 4 Leg3Retry 2500" and j=0]
    a(2) g
  have k: "timerFires 4 0 (stop ?w) = (clearTimer 4 (stop ?w))\<lparr>pendingLeg3Retry := None\<rparr>"
    by simp
  from h1 h2 h4 a b c d h5 h6 f g k show ?thesis by blast
qed

text \<open>
  The claim C6 as written fails. After \<open>failedDialRun\<close> the credential renewal, the
  heartbeat, the dormancy watchdog and a leg-3 retry are active. \<open>stop\<close> leaves the renewal
  interval and the retry timeout active; \<open>hardEnd\<close>, run to its end, leaves the retry
  timeout active; and after \<open>lateTokenRun\<close>, where \<open>hardEnd\<close> has run to its end, a
  renewal interval is active on the stopped engine.
\<close>

theorem stop_cancels_timers_counterexample:
  "timers (run (failedDialRun @ [(0, Stop)]) newOrchestrator)
     = [Timer 1 (Renewal 0) 55000, Timer 4 Leg3Retry 2500] \<and>
   timers (run (failedDialRun @ [(0, HardEnd), (0, Settle (Suc (Suc (Suc (Suc (Suc 0))))) RSettled)])
             newOrchestrator)
     = [Timer 4 Leg3Retry 2500] \<and>
   timers (run lateTokenRun newOrchestrator) = [Timer 4 (Renewal 1) 55000] \<and>
   stopped (run lateTokenRun newOrchestrator)"
  by (simp add: failedDialRun_def lateTokenRun_def newOrchestrator_def exampleParams_def
      start_defs basic_defs roster_defs leg3Failed_def stop_def hardEnd_def hardEnd_finally_def
      client_disconnectAll_def)

end
